theory Spec2Isabelle
  imports Main
begin

section \<open>Data model of the topic core (rdkafka\_topic.c)\<close>

text \<open>
  The topic core of the client library keeps, per topic, a state, an array of partition
  handles, the unassigned (UA) partition and the list of desired partitions. Partition
  objects (toppars) are shared between these containers through pointers, so they live
  in an explicit store indexed by address. Everything an operation does besides
  returning a value (mutation of the topic, of a toppar, of the delivery-report sink, a
  scheduled leader query) is a field of the state that the operation returns updated.
  A failed \<^verbatim>\<open>rd_kafka_assert\<close> aborts the process; an operation that can reach one
  returns an option, \<open>None\<close> being the abort.
\<close>

type_synonym toppar_ref = nat
type_synonym broker_ref = nat

datatype rd_kafka_type_t = RD_KAFKA_PRODUCER | RD_KAFKA_CONSUMER

datatype rd_kafka_resp_err_t =
    RD_KAFKA_RESP_ERR_NO_ERROR
  | RD_KAFKA_RESP_ERR_UNKNOWN
  | RD_KAFKA_RESP_ERR_UNKNOWN_TOPIC_OR_PART
  | RD_KAFKA_RESP_ERR_LEADER_NOT_AVAILABLE
  | RD_KAFKA_RESP_ERR_BROKER int
  | RD_KAFKA_RESP_ERR__INVALID_ARG
  | RD_KAFKA_RESP_ERR__UNKNOWN_TOPIC
  | RD_KAFKA_RESP_ERR__UNKNOWN_PARTITION
  | RD_KAFKA_RESP_ERR__MSG_TIMED_OUT

text \<open>The order of the states is the order of \<^verbatim>\<open>rd_kafka_topic_state_names\<close>; a topic
  allocated by \<^verbatim>\<open>rd_calloc\<close> starts in the first one.\<close>

datatype rd_kafka_topic_state =
    RD_KAFKA_TOPIC_S_UNKNOWN
  | RD_KAFKA_TOPIC_S_EXISTS
  | RD_KAFKA_TOPIC_S_NOTEXISTS

datatype rd_kafka_toppar_flag = RD_KAFKA_TOPPAR_F_DESIRED | RD_KAFKA_TOPPAR_F_UNKNOWN

datatype rd_kafka_compression_t =
  RD_KAFKA_COMPRESSION_INHERIT | RD_KAFKA_COMPRESSION_CODEC nat

datatype rd_kafka_partitioner_t =
  rd_kafka_msg_partitioner_consistent_random | rd_kafka_partitioner_custom nat

record rd_kafka_msg_t =
  rkm_partition :: int
  rkm_ts_timeout :: int
  rkm_payload :: nat

record rd_kafka_toppar_t =
  rktp_partition :: int
  rktp_leader :: "broker_ref option"
  rktp_flags :: "rd_kafka_toppar_flag set"
  rktp_msgq :: "rd_kafka_msg_t list"
  rktp_xmit_msgq :: "rd_kafka_msg_t list"
  rktp_errq :: "rd_kafka_resp_err_t list"

record rd_kafka_topic_conf_t =
  partitioner :: "rd_kafka_partitioner_t option"
  compression_codec :: rd_kafka_compression_t
  opaque :: nat

text \<open>\<open>rkt_p\<close> is the partition array and \<open>rkt_partition_cnt\<close> its length as the code
  records it; \<open>rkt_ua\<close> is \<open>None\<close> for a NULL pointer.\<close>

record rd_kafka_itopic_t =
  rkt_topic :: string
  rkt_state :: rd_kafka_topic_state
  rkt_partition_cnt :: int
  rkt_p :: "toppar_ref list"
  rkt_ua :: "toppar_ref option"
  rkt_desp :: "toppar_ref list"
  rkt_ts_metadata :: int
  rkt_conf :: rd_kafka_topic_conf_t
  rkt_refcnt :: int

record rd_kafka_broker_t =
  rkb_ref :: broker_ref
  rkb_nodeid :: int

text \<open>
  The client. \<open>rk_conf_topic_blacklist\<close> is the configured pattern list, given by the
  predicate that \<^verbatim>\<open>rd_kafka_pattern_match\<close> computes on it (\<open>None\<close>: no list
  configured). \<open>rk_toppars\<close> is the toppar store and \<open>rk_toppar_brk\<close> the next address the
  allocator hands out. \<open>rk_dr\<close> is the delivery-report sink, \<open>rk_leader_queries\<close> the
  asynchronous leader queries scheduled so far, \<open>rk_clock\<close> the value \<^verbatim>\<open>rd_clock()\<close>
  reads (microseconds), \<open>rk_last_error\<close> what \<^verbatim>\<open>rd_kafka_set_last_error\<close> stored.
  \<open>rk_conf_metadata_refresh_interval_ms\<close> is a C \<^verbatim>\<open>int\<close>: the field holds its value, and
  the arithmetic the code does on it wraps around at 32 bits (\<open>c_int\<close> below).
\<close>

record rd_kafka_t =
  rk_type :: rd_kafka_type_t
  rk_terminate :: int
  rk_topics :: "rd_kafka_itopic_t list"
  rk_topic_cnt :: int
  rk_conf_topic_blacklist :: "(string \<Rightarrow> bool) option"
  rk_conf_metadata_refresh_interval_ms :: int
  rk_conf_topic_conf :: "rd_kafka_topic_conf_t option"
  rk_conf_compression_codec :: rd_kafka_compression_t
  rk_brokers :: "rd_kafka_broker_t list"
  rk_toppars :: "toppar_ref \<Rightarrow> rd_kafka_toppar_t"
  rk_toppar_brk :: toppar_ref
  rk_dr :: "(rd_kafka_msg_t \<times> rd_kafka_resp_err_t) list"
  rk_leader_queries :: "string list"
  rk_clock :: int
  rk_last_error :: "rd_kafka_resp_err_t option"

record rd_kafka_metadata_partition =
  md_id :: int
  md_leader :: int

text \<open>A metadata record for one topic. The C struct carries \<open>partition_cnt\<close> beside the
  array \<open>partitions\<close>; it is the number of elements of the array.\<close>

record rd_kafka_metadata_topic =
  md_topic :: string
  md_err :: rd_kafka_resp_err_t
  md_partitions :: "rd_kafka_metadata_partition list"

definition md_partition_cnt :: "rd_kafka_metadata_topic \<Rightarrow> int" where
  "md_partition_cnt mdt = int (length (md_partitions mdt))"

section \<open>Collaborators\<close>

subsection \<open>C strings, clock, termination flag\<close>

text \<open>A \<^verbatim>\<open>const char *\<close> is the byte sequence it points to; the string ends at the
  first NUL byte (or at the end of the sequence).\<close>

definition c_str :: "string \<Rightarrow> string" where
  "c_str s = takeWhile (\<lambda>c. c \<noteq> CHR 0x00) s"

definition strlen :: "string \<Rightarrow> nat" where
  "strlen s = length (c_str s)"

text \<open>The value of a computation in the C type \<^verbatim>\<open>int\<close> (32 bits, two's complement):
  the result wraps around into \<open>-2\<^sup>3\<^sup>1 .. 2\<^sup>3\<^sup>1 - 1\<close>.\<close>

definition c_int :: "int \<Rightarrow> int" where
  "c_int x = (x + 2147483648) mod 4294967296 - 2147483648"

definition rd_clock :: "rd_kafka_t \<Rightarrow> int" where
  "rd_clock rk = rk_clock rk"

definition rd_kafka_terminating :: "rd_kafka_t \<Rightarrow> bool" where
  "rd_kafka_terminating rk = (rk_terminate rk \<noteq> 0)"

subsection \<open>The partition collaborator\<close>

text \<open>Modelled from the spec: the reserved partition id \<open>UA\<close>, a value outside the valid
  partition id range (the scanner's loop starts at it and counts up to the partition
  count, so it is the id just below 0).\<close>

definition RD_KAFKA_PARTITION_UA :: int where
  "RD_KAFKA_PARTITION_UA = - 1"

definition toppar_upd ::
  "rd_kafka_t \<Rightarrow> toppar_ref \<Rightarrow> (rd_kafka_toppar_t \<Rightarrow> rd_kafka_toppar_t) \<Rightarrow> rd_kafka_t" where
  "toppar_upd rk a f = rk\<lparr>rk_toppars := (rk_toppars rk)(a := f (rk_toppars rk a))\<rparr>"

text \<open>Modelled from the spec: \<open>new_partition(topic, id)\<close> of the partition collaborator
  (\<^verbatim>\<open>rd_kafka_toppar_new\<close> is not in the source file). The new partition has no leader,
  no flag and empty queues, and a fresh address.\<close>

definition rd_kafka_toppar_new :: "rd_kafka_t \<Rightarrow> int \<Rightarrow> toppar_ref \<times> rd_kafka_t" where
  "rd_kafka_toppar_new rk partn =
     (rk_toppar_brk rk,
      rk\<lparr>rk_toppars := (rk_toppars rk)(rk_toppar_brk rk :=
            \<lparr>rktp_partition = partn, rktp_leader = None, rktp_flags = {},
             rktp_msgq = [], rktp_xmit_msgq = [], rktp_errq = []\<rparr>),
         rk_toppar_brk := Suc (rk_toppar_brk rk)\<rparr>)"

text \<open>Modelled from the spec: \<open>get_partition(topic, id, create_ua_on_miss_flag)\<close>
  (\<^verbatim>\<open>rd_kafka_toppar_get\<close> is not in the source file): the handle at index \<open>id\<close> of the
  partition array when \<open>id\<close> is in range, the UA handle for the id \<open>UA\<close> or on a miss
  with the flag set, no handle otherwise.\<close>

definition rd_kafka_toppar_get ::
  "rd_kafka_itopic_t \<Rightarrow> int \<Rightarrow> bool \<Rightarrow> toppar_ref option" where
  "rd_kafka_toppar_get rkt partn ua_on_miss =
     (if 0 \<le> partn \<and> partn < rkt_partition_cnt rkt
      then Some (rkt_p rkt ! nat partn)
      else if partn = RD_KAFKA_PARTITION_UA \<or> ua_on_miss then rkt_ua rkt
      else None)"

text \<open>Modelled from the spec: \<open>desired_get(topic, id)\<close>, the first partition of the
  desired list with that id.\<close>

definition rd_kafka_toppar_desired_get ::
  "rd_kafka_t \<Rightarrow> rd_kafka_itopic_t \<Rightarrow> int \<Rightarrow> toppar_ref option" where
  "rd_kafka_toppar_desired_get rk rkt partn =
     find (\<lambda>a. rktp_partition (rk_toppars rk a) = partn) (rkt_desp rkt)"

text \<open>Modelled from the spec: \<open>desired_unlink(partition)\<close> takes the partition off the
  desired list; \<open>desired_link(partition)\<close> puts it on the list (\<open>desired\<close> is a set: a
  partition already linked is not linked twice).\<close>

definition rd_kafka_toppar_desired_unlink ::
  "rd_kafka_itopic_t \<Rightarrow> toppar_ref \<Rightarrow> rd_kafka_itopic_t" where
  "rd_kafka_toppar_desired_unlink rkt a = rkt\<lparr>rkt_desp := remove1 a (rkt_desp rkt)\<rparr>"

definition rd_kafka_toppar_desired_link ::
  "rd_kafka_itopic_t \<Rightarrow> toppar_ref \<Rightarrow> rd_kafka_itopic_t" where
  "rd_kafka_toppar_desired_link rkt a =
     (if a \<in> set (rkt_desp rkt) then rkt else rkt\<lparr>rkt_desp := rkt_desp rkt @ [a]\<rparr>)"

text \<open>Modelled from the spec: \<open>enq_error(partition, error_kind)\<close> appends the error to
  the partition's notification queue.\<close>

definition rd_kafka_toppar_enq_error ::
  "rd_kafka_t \<Rightarrow> toppar_ref \<Rightarrow> rd_kafka_resp_err_t \<Rightarrow> rd_kafka_t" where
  "rd_kafka_toppar_enq_error rk a err =
     toppar_upd rk a (\<lambda>t. t\<lparr>rktp_errq := rktp_errq t @ [err]\<rparr>)"

text \<open>Modelled from the spec: \<open>delegate_to_broker(partition, broker?)\<close> detaches the
  partition from any prior broker and attaches it to the new one (to none for NULL).\<close>

definition rd_kafka_toppar_broker_delegate ::
  "rd_kafka_t \<Rightarrow> toppar_ref \<Rightarrow> broker_ref option \<Rightarrow> rd_kafka_t" where
  "rd_kafka_toppar_broker_delegate rk a rkb = toppar_upd rk a (\<lambda>t. t\<lparr>rktp_leader := rkb\<rparr>)"

text \<open>Modelled from the spec: \<open>move_msgs(dest_partition, src_partition)\<close> moves all
  queued messages of the source to the end of the destination's queue, in order.\<close>

definition rd_kafka_toppar_move_msgs ::
  "rd_kafka_t \<Rightarrow> toppar_ref \<Rightarrow> toppar_ref \<Rightarrow> rd_kafka_t" where
  "rd_kafka_toppar_move_msgs rk dst src =
     (let ms = rktp_msgq (rk_toppars rk src);
          rk1 = toppar_upd rk src (\<lambda>t. t\<lparr>rktp_msgq := []\<rparr>)
      in toppar_upd rk1 dst (\<lambda>t. t\<lparr>rktp_msgq := rktp_msgq t @ ms\<rparr>))"

text \<open>Modelled from the spec: \<open>purge_queues(partition)\<close> drops what is left on the
  partition's message queues (internal and in-flight).\<close>

definition rd_kafka_toppar_purge_queues :: "rd_kafka_t \<Rightarrow> toppar_ref \<Rightarrow> rd_kafka_t" where
  "rd_kafka_toppar_purge_queues rk a =
     toppar_upd rk a (\<lambda>t. t\<lparr>rktp_msgq := [], rktp_xmit_msgq := []\<rparr>)"

text \<open>
  \<^verbatim>\<open>RD_LIST_FOREACH(elem, list, idx)\<close> visits the elements of a list in order, with
  \<open>idx\<close> as its index variable. The macro is not defined in the source file: it counts
  \<open>idx\<close> up from 0 until the list has no element at \<open>idx\<close>, so it leaves \<open>idx\<close> at the
  number of elements. The lemmas below hold for any value of it; only the evaluations
  of the examples use it.
\<close>

definition rd_list_foreach_idx :: "'a list \<Rightarrow> nat" where
  "rd_list_foreach_idx xs = length xs"

subsection \<open>Delivery reports, partitioner, brokers, leader queries\<close>

text \<open>Modelled from the spec: \<open>deliver(topic, message_queue, error_kind)\<close> of the
  delivery-report sink: every message of the queue is reported with the error, in
  order.\<close>

definition rd_kafka_dr_msgq ::
  "rd_kafka_t \<Rightarrow> rd_kafka_msg_t list \<Rightarrow> rd_kafka_resp_err_t \<Rightarrow> rd_kafka_t" where
  "rd_kafka_dr_msgq rk q err = rk\<lparr>rk_dr := rk_dr rk @ map (\<lambda>m. (m, err)) q\<rparr>"

text \<open>
  Modelled from the spec: the partitioner (\<^verbatim>\<open>rd_kafka_msg_partitioner\<close> is not in the
  source file): given a topic and a message it either routes the message onto a
  specific partition's queue (success, 0) or returns failure (not 0). Which partition
  it picks is the parameter \<open>route\<close>, a function of the toppar store, the topic and the
  message; \<open>None\<close> and the id of a partition that does not exist are failures.
\<close>

type_synonym route_fn =
  "(toppar_ref \<Rightarrow> rd_kafka_toppar_t) \<Rightarrow> rd_kafka_itopic_t \<Rightarrow> rd_kafka_msg_t \<Rightarrow> int option"

definition rd_kafka_msg_partitioner ::
  "route_fn \<Rightarrow> rd_kafka_t \<Rightarrow> rd_kafka_itopic_t \<Rightarrow> rd_kafka_msg_t \<Rightarrow> int \<times> rd_kafka_t" where
  "rd_kafka_msg_partitioner route rk rkt rkm =
     (case route (rk_toppars rk) rkt rkm of
        None \<Rightarrow> (- 1, rk)
      | Some p \<Rightarrow>
          (case rd_kafka_toppar_get rkt p False of
             None \<Rightarrow> (- 1, rk)
           | Some a \<Rightarrow> (0, toppar_upd rk a (\<lambda>t. t\<lparr>rktp_msgq := rktp_msgq t @ [rkm]\<rparr>))))"

text \<open>Modelled from the spec: \<open>find_broker_by_nodeid(client, id)\<close>, the handle of the
  first broker of the client with that node id.\<close>

definition rd_kafka_broker_find_by_nodeid :: "rd_kafka_t \<Rightarrow> int \<Rightarrow> broker_ref option" where
  "rd_kafka_broker_find_by_nodeid rk nodeid =
     map_option rkb_ref (find (\<lambda>b. rkb_nodeid b = nodeid) (rk_brokers rk))"

text \<open>Modelled from the spec: \<open>query_leader(client, topic, hold_client_lock_flag)\<close>
  schedules an asynchronous leader query for the topic and does nothing else.\<close>

definition rd_kafka_topic_leader_query ::
  "rd_kafka_t \<Rightarrow> rd_kafka_itopic_t \<Rightarrow> rd_kafka_t" where
  "rd_kafka_topic_leader_query rk rkt =
     rk\<lparr>rk_leader_queries := rk_leader_queries rk @ [rkt_topic rkt]\<rparr>"

text \<open>Modelled from the spec: the scan of a message queue for messages older than
  their timeout (\<^verbatim>\<open>rd_kafka_msgq_age_scan\<close> is not in the source file): the messages
  that timed out and the messages that stay.\<close>

definition rd_kafka_msgq_age_scan ::
  "rd_kafka_msg_t list \<Rightarrow> int \<Rightarrow> rd_kafka_msg_t list \<times> rd_kafka_msg_t list" where
  "rd_kafka_msgq_age_scan q now = partition (\<lambda>m. rkm_ts_timeout m < now) q"

section \<open>The operations of rdkafka\_topic.c\<close>

subsection \<open>Registry: find, release, create\<close>

fun topic_index :: "string \<Rightarrow> rd_kafka_itopic_t list \<Rightarrow> nat option" where
  "topic_index name [] = None"
| "topic_index name (rkt # rkts) =
     (if rkt_topic rkt = name then Some 0 else map_option Suc (topic_index name rkts))"

definition rd_kafka_topic_keep :: "rd_kafka_t \<Rightarrow> nat \<Rightarrow> rd_kafka_t" where
  "rd_kafka_topic_keep rk i =
     rk\<lparr>rk_topics := (rk_topics rk)[i := (rk_topics rk ! i)
           \<lparr>rkt_refcnt := rkt_refcnt (rk_topics rk ! i) + 1\<rparr>]\<rparr>"

text \<open>\<^verbatim>\<open>rd_kafka_topic_find_fl\<close>: the first topic of the registry with that name; on a
  hit its refcount is increased by one. A topic handle is the topic's position in the
  registry.\<close>

definition rd_kafka_topic_find :: "rd_kafka_t \<Rightarrow> string \<Rightarrow> nat option \<times> rd_kafka_t" where
  "rd_kafka_topic_find rk topic =
     (case topic_index (c_str topic) (rk_topics rk) of
        None \<Rightarrow> (None, rk)
      | Some i \<Rightarrow> (Some i, rd_kafka_topic_keep rk i))"

text \<open>\<^verbatim>\<open>rd_kafka_topic_destroy_final\<close>: both assertions abort when they fail.\<close>

definition rd_kafka_topic_destroy_final :: "rd_kafka_t \<Rightarrow> nat \<Rightarrow> rd_kafka_t option" where
  "rd_kafka_topic_destroy_final rk i =
     (if rkt_refcnt (rk_topics rk ! i) \<noteq> 0 then None
      else if rkt_desp (rk_topics rk ! i) \<noteq> [] then None
      else Some (rk\<lparr>rk_topics := take i (rk_topics rk) @ drop (Suc i) (rk_topics rk),
                    rk_topic_cnt := rk_topic_cnt rk - 1\<rparr>))"

text \<open>Modelled from the spec: \<open>release(handle)\<close> (\<^verbatim>\<open>rd_kafka_topic_destroy0\<close> is not in
  the source file) decrements the refcount and, on zero, destroys the topic.\<close>

definition rd_kafka_topic_destroy0 :: "rd_kafka_t \<Rightarrow> nat \<Rightarrow> rd_kafka_t option" where
  "rd_kafka_topic_destroy0 rk i =
     (let rk1 = rk\<lparr>rk_topics := (rk_topics rk)[i := (rk_topics rk ! i)
                     \<lparr>rkt_refcnt := rkt_refcnt (rk_topics rk ! i) - 1\<rparr>]\<rparr>
      in if rkt_refcnt (rk_topics rk1 ! i) > 0 then Some rk1
         else rd_kafka_topic_destroy_final rk1 i)"

text \<open>
  \<^verbatim>\<open>rd_kafka_topic_new0\<close>. \<open>topic\<close> and \<open>conf\<close> are \<open>None\<close> for NULL; \<open>existing\<close> is the
  caller's out-parameter (\<open>None\<close> for a NULL pointer, else the integer it points to) and
  is returned as the call leaves it. \<open>conf_new\<close> stands for what
  \<^verbatim>\<open>rd_kafka_topic_conf_new()\<close> returns, which the source file does not define. The
  result is the handle (\<open>None\<close> for NULL), the out-parameter and the client.
\<close>

definition rd_kafka_topic_new0 ::
  "rd_kafka_topic_conf_t \<Rightarrow> rd_kafka_t \<Rightarrow> string option \<Rightarrow> rd_kafka_topic_conf_t option \<Rightarrow>
   int option \<Rightarrow> nat option \<times> int option \<times> rd_kafka_t" where
  "rd_kafka_topic_new0 conf_new rk topic conf existing =
     (if topic = None \<or> strlen (the topic) > 512
      then (None, existing, rk\<lparr>rk_last_error := Some RD_KAFKA_RESP_ERR__INVALID_ARG\<rparr>)
      else
        (case rd_kafka_topic_find rk (the topic) of
           (Some i, rk1) \<Rightarrow> (Some i, map_option (\<lambda>_. 1) existing, rk1)
         | (None, rk1) \<Rightarrow>
             (let conf1 = (case conf of
                             Some c \<Rightarrow> c
                           | None \<Rightarrow> (case rk_conf_topic_conf rk1 of
                                       Some c \<Rightarrow> c
                                     | None \<Rightarrow> conf_new));
                  conf2 = (if partitioner conf1 = None
                           then conf1\<lparr>partitioner :=
                                  Some rd_kafka_msg_partitioner_consistent_random\<rparr>
                           else conf1);
                  conf3 = (if compression_codec conf2 = RD_KAFKA_COMPRESSION_INHERIT
                           then conf2\<lparr>compression_codec := rk_conf_compression_codec rk1\<rparr>
                           else conf2);
                  (ua, rk2) = rd_kafka_toppar_new rk1 RD_KAFKA_PARTITION_UA;
                  rkt = \<lparr>rkt_topic = c_str (the topic),
                         rkt_state = RD_KAFKA_TOPIC_S_UNKNOWN,
                         rkt_partition_cnt = 0,
                         rkt_p = [],
                         rkt_ua = Some ua,
                         rkt_desp = [],
                         rkt_ts_metadata = 0,
                         rkt_conf = conf3,
                         rkt_refcnt = 1\<rparr>
              in (Some (length (rk_topics rk2)), map_option (\<lambda>_. 0) existing,
                  rk2\<lparr>rk_topics := rk_topics rk2 @ [rkt],
                      rk_topic_cnt := rk_topic_cnt rk2 + 1\<rparr>))))"

subsection \<open>State, leader, partition count\<close>

definition rd_kafka_topic_set_state ::
  "rd_kafka_itopic_t \<Rightarrow> rd_kafka_topic_state \<Rightarrow> rd_kafka_itopic_t" where
  "rd_kafka_topic_set_state rkt state =
     (if rkt_state rkt = state then rkt else rkt\<lparr>rkt_state := state\<rparr>)"

text \<open>\<^verbatim>\<open>rd_kafka_topic_leader_update\<close>: 1 if the leader was changed, 0 if not, -1 if the
  leader (or the partition) is unknown. \<open>rkb\<close> is the broker handle, \<open>None\<close> for NULL.\<close>

definition rd_kafka_topic_leader_update ::
  "rd_kafka_t \<Rightarrow> rd_kafka_itopic_t \<Rightarrow> int \<Rightarrow> int \<Rightarrow> broker_ref option \<Rightarrow> int \<times> rd_kafka_t" where
  "rd_kafka_topic_leader_update rk rkt partn leader_id rkb =
     (case rd_kafka_toppar_get rkt partn False of
        None \<Rightarrow> (- 1, rk)
      | Some a \<Rightarrow>
          (case rkb of
             None \<Rightarrow>
               (let had_leader = (rktp_leader (rk_toppars rk a) \<noteq> None)
                in (if had_leader then - 1 else 0, rd_kafka_toppar_broker_delegate rk a None))
           | Some b \<Rightarrow>
               (if rktp_leader (rk_toppars rk a) \<noteq> None \<and>
                   rktp_leader (rk_toppars rk a) = Some b
                then (0, rk)
                else (1, rd_kafka_toppar_broker_delegate rk a (Some b)))))"

text \<open>The first loop of \<^verbatim>\<open>rd_kafka_topic_partition_cnt_update\<close>, over the new indices
  \<open>i\<close>: it builds the new array \<open>rktps\<close>.\<close>

fun partition_cnt_update_fill ::
  "nat list \<Rightarrow> rd_kafka_itopic_t \<Rightarrow> rd_kafka_t \<Rightarrow> toppar_ref list \<Rightarrow>
   toppar_ref list \<times> rd_kafka_itopic_t \<times> rd_kafka_t" where
  "partition_cnt_update_fill [] rkt rk rktps = (rktps, rkt, rk)"
| "partition_cnt_update_fill (i # is) rkt rk rktps =
     (if int i \<ge> rkt_partition_cnt rkt then
        (case rd_kafka_toppar_desired_get rk rkt (int i) of
           Some a \<Rightarrow>
             (if RD_KAFKA_TOPPAR_F_UNKNOWN \<in> rktp_flags (rk_toppars rk a)
              then partition_cnt_update_fill is
                     (rd_kafka_toppar_desired_unlink rkt a)
                     (toppar_upd rk a
                        (\<lambda>t. t\<lparr>rktp_flags := rktp_flags t - {RD_KAFKA_TOPPAR_F_UNKNOWN}\<rparr>))
                     (rktps @ [a])
              else partition_cnt_update_fill is rkt rk (rktps @ [a]))
         | None \<Rightarrow>
             (let (a, rk1) = rd_kafka_toppar_new rk (int i)
              in partition_cnt_update_fill is rkt rk1 (rktps @ [a])))
      else partition_cnt_update_fill is rkt rk (rktps @ [rkt_p rkt ! i]))"

text \<open>The loop that removes the excess partitions; \<open>rktp_ua\<close> is the UA handle looked
  up before the loop. The assertion on the flags aborts when it fails.\<close>

fun partition_cnt_update_remove ::
  "nat list \<Rightarrow> toppar_ref option \<Rightarrow> rd_kafka_itopic_t \<Rightarrow> rd_kafka_t \<Rightarrow>
   (rd_kafka_itopic_t \<times> rd_kafka_t) option" where
  "partition_cnt_update_remove [] rktp_ua rkt rk = Some (rkt, rk)"
| "partition_cnt_update_remove (i # is) rktp_ua rkt rk =
     (let a = rkt_p rkt ! i;
          rk1 = rd_kafka_toppar_broker_delegate rk a None;
          rk2 = (case rktp_ua of
                   Some ua \<Rightarrow> rd_kafka_toppar_move_msgs rk1 ua a
                 | None \<Rightarrow>
                     toppar_upd
                       (rd_kafka_dr_msgq rk1 (rktp_msgq (rk_toppars rk1 a))
                          RD_KAFKA_RESP_ERR__UNKNOWN_PARTITION)
                       a (\<lambda>t. t\<lparr>rktp_msgq := []\<rparr>));
          rk3 = rd_kafka_toppar_purge_queues rk2 a
      in if RD_KAFKA_TOPPAR_F_DESIRED \<in> rktp_flags (rk_toppars rk3 a) then
           (if RD_KAFKA_TOPPAR_F_UNKNOWN \<in> rktp_flags (rk_toppars rk3 a) then None
            else
              (let rk4 = toppar_upd rk3 a
                           (\<lambda>t. t\<lparr>rktp_flags :=
                                    insert RD_KAFKA_TOPPAR_F_UNKNOWN (rktp_flags t)\<rparr>);
                   rkt1 = rd_kafka_toppar_desired_link rkt a;
                   rk5 = (if \<not> rd_kafka_terminating rk4
                          then rd_kafka_toppar_enq_error rk4 a
                                 RD_KAFKA_RESP_ERR__UNKNOWN_PARTITION
                          else rk4)
               in partition_cnt_update_remove is rktp_ua rkt1 rk5))
         else partition_cnt_update_remove is rktp_ua rkt rk3)"

text \<open>
  \<^verbatim>\<open>rd_kafka_topic_partition_cnt_update\<close>: 1 if the partition count changed, else 0.
  The removal loop \<^verbatim>\<open>for (; i < rkt->rkt_partition_cnt ; i++)\<close> does not set its index:
  it continues from the value that \<^verbatim>\<open>RD_LIST_FOREACH(s_rktp, &rkt->rkt_desp, i)\<close>, the
  loop over the desired list just before it, leaves in \<open>i\<close>, which is
  \<open>rd_list_foreach_idx\<close> of that list.
\<close>

definition rd_kafka_topic_partition_cnt_update ::
  "rd_kafka_t \<Rightarrow> rd_kafka_itopic_t \<Rightarrow> int \<Rightarrow> (int \<times> rd_kafka_itopic_t \<times> rd_kafka_t) option" where
  "rd_kafka_topic_partition_cnt_update rk rkt partition_cnt =
     (if rkt_partition_cnt rkt = partition_cnt then Some (0, rkt, rk)
      else
        (let (rktps, rkt1, rk1) =
               partition_cnt_update_fill [0 ..< nat partition_cnt] rkt rk [];
             rktp_ua = rd_kafka_toppar_get rkt1 RD_KAFKA_PARTITION_UA False;
             rk2 = fold (\<lambda>a r. rd_kafka_toppar_enq_error r a
                                  RD_KAFKA_RESP_ERR__UNKNOWN_PARTITION)
                     (rkt_desp rkt1) rk1
         in (case partition_cnt_update_remove
                    [rd_list_foreach_idx (rkt_desp rkt1) ..< nat (rkt_partition_cnt rkt1)]
                    rktp_ua rkt1 rk2 of
               None \<Rightarrow> None
             | Some (rkt2, rk3) \<Rightarrow>
                 Some (1, rkt2\<lparr>rkt_p := rktps, rkt_partition_cnt := partition_cnt\<rparr>, rk3))))"

subsection \<open>Propagation of a missing topic, flush of the UA partition\<close>

definition rd_kafka_topic_propagate_notexists ::
  "rd_kafka_t \<Rightarrow> rd_kafka_itopic_t \<Rightarrow> rd_kafka_t" where
  "rd_kafka_topic_propagate_notexists rk rkt =
     (if rk_type rk \<noteq> RD_KAFKA_CONSUMER then rk
      else fold (\<lambda>a r. rd_kafka_toppar_enq_error r a RD_KAFKA_RESP_ERR__UNKNOWN_TOPIC)
             (rkt_desp rkt) rk)"

text \<open>The loop of \<^verbatim>\<open>rd_kafka_topic_assign_uas\<close> over the messages taken off the UA
  partition: the messages that failed, in order, and the client.\<close>

fun assign_uas_loop ::
  "route_fn \<Rightarrow> rd_kafka_itopic_t \<Rightarrow> rd_kafka_msg_t list \<Rightarrow> rd_kafka_t \<Rightarrow>
   rd_kafka_msg_t list \<Rightarrow> rd_kafka_msg_t list \<times> rd_kafka_t" where
  "assign_uas_loop route rkt [] rk failed = (failed, rk)"
| "assign_uas_loop route rkt (rkm # uas) rk failed =
     (if rkm_partition rkm \<noteq> RD_KAFKA_PARTITION_UA \<and>
         rkm_partition rkm \<ge> rkt_partition_cnt rkt \<and>
         rkt_state rkt \<noteq> RD_KAFKA_TOPIC_S_UNKNOWN
      then assign_uas_loop route rkt uas rk (failed @ [rkm])
      else
        (let (r, rk1) = rd_kafka_msg_partitioner route rk rkt rkm
         in if r \<noteq> 0 then assign_uas_loop route rkt uas rk1 (failed @ [rkm])
            else assign_uas_loop route rkt uas rk1 failed))"

definition rd_kafka_topic_assign_uas ::
  "route_fn \<Rightarrow> rd_kafka_t \<Rightarrow> rd_kafka_itopic_t \<Rightarrow> rd_kafka_t" where
  "rd_kafka_topic_assign_uas route rk rkt =
     (if rk_type rk \<noteq> RD_KAFKA_PRODUCER then rk
      else
        (case rd_kafka_toppar_get rkt RD_KAFKA_PARTITION_UA False of
           None \<Rightarrow> rk
         | Some rktp_ua \<Rightarrow>
             (let uas = rktp_msgq (rk_toppars rk rktp_ua);
                  rk1 = toppar_upd rk rktp_ua (\<lambda>t. t\<lparr>rktp_msgq := []\<rparr>);
                  (failed, rk2) = assign_uas_loop route rkt uas rk1 []
              in if length failed > 0
                 then rd_kafka_dr_msgq rk2 failed
                        (if rkt_state rkt = RD_KAFKA_TOPIC_S_NOTEXISTS
                         then RD_KAFKA_RESP_ERR__UNKNOWN_TOPIC
                         else RD_KAFKA_RESP_ERR__UNKNOWN_PARTITION)
                 else rk2)))"

subsection \<open>Metadata application\<close>

definition topic_store :: "rd_kafka_t \<Rightarrow> nat \<Rightarrow> rd_kafka_itopic_t \<Rightarrow> rd_kafka_t" where
  "topic_store rk i rkt = rk\<lparr>rk_topics := (rk_topics rk)[i := rkt]\<rparr>"

text \<open>\<^verbatim>\<open>rd_kafka_topic_metadata_none\<close> on the topic with handle \<open>i\<close>. The topic is
  worked on under its write lock and is written back to the registry at the unlock.\<close>

definition rd_kafka_topic_metadata_none ::
  "route_fn \<Rightarrow> rd_kafka_t \<Rightarrow> nat \<Rightarrow> rd_kafka_t option" where
  "rd_kafka_topic_metadata_none route rk i =
     (if rk_terminate rk \<noteq> 0 then Some rk
      else
        (let rkt1 = (rk_topics rk ! i)\<lparr>rkt_ts_metadata := rd_clock rk\<rparr>;
             rkt2 = rd_kafka_topic_set_state rkt1 RD_KAFKA_TOPIC_S_NOTEXISTS
         in (case rd_kafka_topic_partition_cnt_update rk rkt2 0 of
               None \<Rightarrow> None
             | Some (r, rkt3, rk1) \<Rightarrow>
                 (let rk2 = rd_kafka_topic_assign_uas route rk1 rkt3;
                      rk3 = rd_kafka_topic_propagate_notexists rk2 rkt3
                  in Some (topic_store rk3 i rkt3)))))"

text \<open>The loop of \<^verbatim>\<open>rd_kafka_topic_metadata_update\<close> that updates the leader of each
  partition of the record; \<open>partbrokers\<close> are the broker handles resolved before.\<close>

fun metadata_update_leaders ::
  "rd_kafka_itopic_t \<Rightarrow> (rd_kafka_metadata_partition \<times> broker_ref option) list \<Rightarrow>
   rd_kafka_t \<Rightarrow> int \<Rightarrow> bool \<Rightarrow> int \<times> bool \<times> rd_kafka_t" where
  "metadata_update_leaders rkt [] rk upd query_leader = (upd, query_leader, rk)"
| "metadata_update_leaders rkt ((mdp, leader) # rest) rk upd query_leader =
     (let (r, rk1) = rd_kafka_topic_leader_update rk rkt (md_id mdp) (md_leader mdp) leader
      in metadata_update_leaders rkt rest rk1
           (upd + (if r \<noteq> 0 then 1 else 0))
           (if r = - 1 then True else query_leader))"

definition metadata_update_partbrokers ::
  "rd_kafka_t \<Rightarrow> rd_kafka_metadata_topic \<Rightarrow> broker_ref option list" where
  "metadata_update_partbrokers rk mdt =
     map (\<lambda>mdp. if md_leader mdp = - 1 then None
                else rd_kafka_broker_find_by_nodeid rk (md_leader mdp))
       (md_partitions mdt)"

text \<open>
  The part of \<^verbatim>\<open>rd_kafka_topic_metadata_update\<close> that runs under the topic's write
  lock, on the topic \<open>rkt\<close>: the number of changes, whether a leader query is due, the
  topic and the client. The slots of the partition array are never NULL (the
  reconciler fills every slot), so the loop that removes the leaders has no NULL test
  here.
\<close>

definition metadata_update_locked ::
  "route_fn \<Rightarrow> rd_kafka_t \<Rightarrow> rd_kafka_itopic_t \<Rightarrow> rd_kafka_metadata_topic \<Rightarrow>
   broker_ref option list \<Rightarrow> (int \<times> bool \<times> rd_kafka_itopic_t \<times> rd_kafka_t) option" where
  "metadata_update_locked route rk0 rkt mdt partbrokers =
     (let old_state = rkt_state rkt;
          rkt1 = rkt\<lparr>rkt_ts_metadata := rd_clock rk0\<rparr>;
          rkt2 = (if md_err mdt = RD_KAFKA_RESP_ERR_UNKNOWN_TOPIC_OR_PART \<or>
                     md_err mdt = RD_KAFKA_RESP_ERR_UNKNOWN
                  then rd_kafka_topic_set_state rkt1 RD_KAFKA_TOPIC_S_NOTEXISTS
                  else if md_partition_cnt mdt > 0
                  then rd_kafka_topic_set_state rkt1 RD_KAFKA_TOPIC_S_EXISTS
                  else rkt1)
      in (case (if md_err mdt = RD_KAFKA_RESP_ERR_NO_ERROR
                then rd_kafka_topic_partition_cnt_update rk0 rkt2 (md_partition_cnt mdt)
                else Some (0, rkt2, rk0)) of
            None \<Rightarrow> None
          | Some (upd0, rkt3, rk1) \<Rightarrow>
              (let (upd, query_leader, rk2) =
                     metadata_update_leaders rkt3
                       (zip (md_partitions mdt) partbrokers) rk1 upd0 False;
                   rk3 = (if md_err mdt \<noteq> RD_KAFKA_RESP_ERR_NO_ERROR \<and>
                             rkt_partition_cnt rkt3 \<noteq> 0
                          then fold (\<lambda>j r. rd_kafka_toppar_broker_delegate r
                                             (rkt_p rkt3 ! j) None)
                                 [0 ..< nat (rkt_partition_cnt rkt3)] rk2
                          else rk2);
                   rk4 = (if upd > 0 \<or> rkt_state rkt3 = RD_KAFKA_TOPIC_S_NOTEXISTS
                          then rd_kafka_topic_assign_uas route rk3 rkt3
                          else rk3);
                   rk5 = (if old_state \<noteq> rkt_state rkt3 \<and>
                             rkt_state rkt3 = RD_KAFKA_TOPIC_S_NOTEXISTS
                          then rd_kafka_topic_propagate_notexists rk4 rkt3
                          else rk4)
               in Some (upd, query_leader, rkt3, rk5))))"

text \<open>The test of the topic name against the configured blacklist: false when no
  blacklist is configured.\<close>

definition topic_blacklisted :: "rd_kafka_t \<Rightarrow> string \<Rightarrow> bool" where
  "topic_blacklisted rk topic =
     (case rk_conf_topic_blacklist rk of
        None \<Rightarrow> False
      | Some pattern_match \<Rightarrow> pattern_match topic)"

text \<open>
  \<^verbatim>\<open>rd_kafka_topic_metadata_update\<close>: the number of changes, or -1 when the record is
  ignored, and the client. The topic is written back to the registry when its lock is
  released. The reference counts of brokers and toppars are not part of the state.
\<close>

definition rd_kafka_topic_metadata_update ::
  "route_fn \<Rightarrow> rd_kafka_t \<Rightarrow> rd_kafka_metadata_topic \<Rightarrow> (int \<times> rd_kafka_t) option" where
  "rd_kafka_topic_metadata_update route rk mdt =
     (if topic_blacklisted rk (md_topic mdt) then Some (- 1, rk)
      else if md_err mdt = RD_KAFKA_RESP_ERR_LEADER_NOT_AVAILABLE \<and> md_partition_cnt mdt = 0
      then Some (- 1, rk)
      else
        (case rd_kafka_topic_find rk (md_topic mdt) of
           (None, rk0) \<Rightarrow> Some (- 1, rk0)
         | (Some i, rk0) \<Rightarrow>
             (if rk_terminate rk0 \<noteq> 0
              then map_option (\<lambda>r. (- 1, r)) (rd_kafka_topic_destroy0 rk0 i)
              else
                (case metadata_update_locked route rk0 (rk_topics rk0 ! i) mdt
                        (metadata_update_partbrokers rk0 mdt) of
                   None \<Rightarrow> None
                 | Some (upd, query_leader, rkt3, rk5) \<Rightarrow>
                     (let rk6 = topic_store rk5 i rkt3;
                          rk7 = (if query_leader
                                 then rd_kafka_topic_leader_query rk6 rkt3
                                 else rk6)
                      in map_option (\<lambda>r. (upd, r)) (rd_kafka_topic_destroy0 rk7 i))))))"

subsection \<open>Periodic scan\<close>

text \<open>The loop of \<^verbatim>\<open>rd_kafka_topic_scan_all\<close> over the partitions \<open>p\<close> of one topic,
  from \<open>UA\<close> up: the timed-out messages, the number of partitions that had one, and the
  client.\<close>

fun scan_all_partitions ::
  "int list \<Rightarrow> rd_kafka_itopic_t \<Rightarrow> int \<Rightarrow> rd_kafka_t \<Rightarrow> rd_kafka_msg_t list \<Rightarrow> int \<Rightarrow>
   rd_kafka_msg_t list \<times> int \<times> rd_kafka_t" where
  "scan_all_partitions [] rkt now rk timedout tpcnt = (timedout, tpcnt, rk)"
| "scan_all_partitions (p # ps) rkt now rk timedout tpcnt =
     (case rd_kafka_toppar_get rkt p False of
        None \<Rightarrow> scan_all_partitions ps rkt now rk timedout tpcnt
      | Some a \<Rightarrow>
          (let (old1, keep1) = rd_kafka_msgq_age_scan (rktp_xmit_msgq (rk_toppars rk a)) now;
               (old2, keep2) = rd_kafka_msgq_age_scan (rktp_msgq (rk_toppars rk a)) now;
               did_tmout = (if length old1 > 0 \<or> length old2 > 0 then 1 else 0);
               rk1 = toppar_upd rk a (\<lambda>t. t\<lparr>rktp_xmit_msgq := keep1, rktp_msgq := keep2\<rparr>)
           in scan_all_partitions ps rkt now rk1 (timedout @ old1 @ old2)
                (tpcnt + did_tmout)))"

text \<open>The body of the loop over the topics, for the topic at position \<open>i\<close>: the number of
  its timed-out messages and the client. In the age test the product
  \<^verbatim>\<open>metadata_refresh_interval_ms * 1000 * 3\<close> is computed in \<^verbatim>\<open>int\<close>, each
  multiplication wrapping around, before it is added to the 64-bit timestamp.\<close>

definition scan_all_topic :: "rd_kafka_t \<Rightarrow> nat \<Rightarrow> int \<Rightarrow> int \<times> rd_kafka_t" where
  "scan_all_topic rk i now =
     (let rkt = rk_topics rk ! i;
          rkt1 = (if rkt_state rkt \<noteq> RD_KAFKA_TOPIC_S_UNKNOWN \<and>
                     rk_conf_metadata_refresh_interval_ms rk \<ge> 0 \<and>
                     rd_clock rk > rkt_ts_metadata rkt +
                       c_int (c_int (rk_conf_metadata_refresh_interval_ms rk * 1000) * 3)
                  then rd_kafka_topic_set_state rkt RD_KAFKA_TOPIC_S_UNKNOWN
                  else rkt);
          rk1 = topic_store rk i rkt1;
          rk2 = (if rkt_partition_cnt rkt1 = 0
                 then rd_kafka_topic_leader_query rk1 rkt1
                 else rk1);
          (timedout, tpcnt, rk3) =
             scan_all_partitions
               (map (\<lambda>k. RD_KAFKA_PARTITION_UA + int k)
                  [0 ..< nat (rkt_partition_cnt rkt1 - RD_KAFKA_PARTITION_UA)])
               rkt1 now rk2 [] 0;
          cnt = int (length timedout)
      in if cnt > 0
         then (cnt, rd_kafka_dr_msgq rk3 timedout RD_KAFKA_RESP_ERR__MSG_TIMED_OUT)
         else (0, rk3))"

fun scan_all_topics :: "nat list \<Rightarrow> rd_kafka_t \<Rightarrow> int \<Rightarrow> int \<Rightarrow> int \<times> rd_kafka_t" where
  "scan_all_topics [] rk now totcnt = (totcnt, rk)"
| "scan_all_topics (i # is) rk now totcnt =
     (let (cnt, rk1) = scan_all_topic rk i now
      in scan_all_topics is rk1 now (totcnt + cnt))"

text \<open>\<^verbatim>\<open>rd_kafka_topic_scan_all\<close>: the total number of timed-out messages, and the
  client.\<close>

definition rd_kafka_topic_scan_all :: "rd_kafka_t \<Rightarrow> int \<Rightarrow> int \<times> rd_kafka_t" where
  "rd_kafka_topic_scan_all rk now =
     scan_all_topics [0 ..< length (rk_topics rk)] rk now 0"

section \<open>Well-formed states and example states\<close>

text \<open>Invariant 1 of the registry: every topic of the registry is referenced.\<close>

definition registry_refs_ok :: "rd_kafka_t \<Rightarrow> bool" where
  "registry_refs_ok rk = list_all (\<lambda>rkt. rkt_refcnt rkt > 0) (rk_topics rk)"

text \<open>The fields of the client that only the registry operations, the scheduling of a
  leader query and \<^verbatim>\<open>rd_kafka_set_last_error\<close> write; \<open>store_only rk rk'\<close> says that
  \<open>rk'\<close> differs from \<open>rk\<close> at most in the toppar store, the allocator and the
  delivery-report sink. Likewise for the fields of a topic that the reconciler does not
  write.\<close>

definition kept_fields ::
  "rd_kafka_t \<Rightarrow>
   rd_kafka_type_t \<times> int \<times> rd_kafka_itopic_t list \<times> int \<times> (string \<Rightarrow> bool) option \<times> int \<times>
   rd_kafka_topic_conf_t option \<times> rd_kafka_compression_t \<times> rd_kafka_broker_t list \<times>
   string list \<times> int \<times> rd_kafka_resp_err_t option" where
  "kept_fields rk =
     (rk_type rk, rk_terminate rk, rk_topics rk, rk_topic_cnt rk, rk_conf_topic_blacklist rk,
      rk_conf_metadata_refresh_interval_ms rk, rk_conf_topic_conf rk,
      rk_conf_compression_codec rk, rk_brokers rk, rk_leader_queries rk, rk_clock rk,
      rk_last_error rk)"

definition store_only :: "rd_kafka_t \<Rightarrow> rd_kafka_t \<Rightarrow> bool" where
  "store_only rk rk' \<longleftrightarrow> kept_fields rk' = kept_fields rk"

definition topic_kept ::
  "rd_kafka_itopic_t \<Rightarrow>
   string \<times> rd_kafka_topic_state \<times> toppar_ref option \<times> int \<times> rd_kafka_topic_conf_t \<times> int" where
  "topic_kept rkt =
     (rkt_topic rkt, rkt_state rkt, rkt_ua rkt, rkt_ts_metadata rkt, rkt_conf rkt,
      rkt_refcnt rkt)"

definition desp_only :: "rd_kafka_itopic_t \<Rightarrow> rd_kafka_itopic_t \<Rightarrow> bool" where
  "desp_only rkt rkt' \<longleftrightarrow>
     topic_kept rkt' = topic_kept rkt \<and> rkt_p rkt' = rkt_p rkt \<and>
     rkt_partition_cnt rkt' = rkt_partition_cnt rkt"

text \<open>The pieces of the locked part of the metadata update, named for the proofs: the
  state that a record asks for, the topic after the timestamp and the state are set,
  and the steps after the reconciler.\<close>

definition md_state :: "rd_kafka_metadata_topic \<Rightarrow> rd_kafka_topic_state \<Rightarrow> rd_kafka_topic_state" where
  "md_state mdt s =
     (if md_err mdt = RD_KAFKA_RESP_ERR_UNKNOWN_TOPIC_OR_PART \<or>
         md_err mdt = RD_KAFKA_RESP_ERR_UNKNOWN
      then RD_KAFKA_TOPIC_S_NOTEXISTS
      else if md_partition_cnt mdt > 0 then RD_KAFKA_TOPIC_S_EXISTS else s)"

definition locked_rkt2 :: "rd_kafka_t \<Rightarrow> rd_kafka_itopic_t \<Rightarrow> rd_kafka_metadata_topic \<Rightarrow> rd_kafka_itopic_t" where
  "locked_rkt2 rk0 rkt mdt =
     rkt\<lparr>rkt_ts_metadata := rd_clock rk0, rkt_state := md_state mdt (rkt_state rkt)\<rparr>"

definition locked_tail ::
  "route_fn \<Rightarrow> rd_kafka_metadata_topic \<Rightarrow> broker_ref option list \<Rightarrow> rd_kafka_topic_state \<Rightarrow>
   int \<Rightarrow> rd_kafka_itopic_t \<Rightarrow> rd_kafka_t \<Rightarrow> int \<times> bool \<times> rd_kafka_itopic_t \<times> rd_kafka_t" where
  "locked_tail route mdt partbrokers old_state upd0 rkt3 rk1 =
     (let (upd, query_leader, rk2) =
                     metadata_update_leaders rkt3
                       (zip (md_partitions mdt) partbrokers) rk1 upd0 False;
                   rk3 = (if md_err mdt \<noteq> RD_KAFKA_RESP_ERR_NO_ERROR \<and>
                             rkt_partition_cnt rkt3 \<noteq> 0
                          then fold (\<lambda>j r. rd_kafka_toppar_broker_delegate r
                                             (rkt_p rkt3 ! j) None)
                                 [0 ..< nat (rkt_partition_cnt rkt3)] rk2
                          else rk2);
                   rk4 = (if upd > 0 \<or> rkt_state rkt3 = RD_KAFKA_TOPIC_S_NOTEXISTS
                          then rd_kafka_topic_assign_uas route rk3 rkt3
                          else rk3);
                   rk5 = (if old_state \<noteq> rkt_state rkt3 \<and>
                             rkt_state rkt3 = RD_KAFKA_TOPIC_S_NOTEXISTS
                          then rd_kafka_topic_propagate_notexists rk4 rkt3
                          else rk4)
               in (upd, query_leader, rkt3, rk5))"

text \<open>
  A topic whose partition array is as long as its partition count, holds no partition
  twice and holds no partition flagged \<open>Unknown\<close> (invariants 3, 4 and 5 of the topic):
  on such a topic the assertion of the reconciler cannot fail.
\<close>

definition partitions_known :: "rd_kafka_t \<Rightarrow> rd_kafka_itopic_t \<Rightarrow> bool" where
  "partitions_known rk rkt \<longleftrightarrow>
     length (rkt_p rkt) = nat (rkt_partition_cnt rkt) \<and> distinct (rkt_p rkt) \<and>
     list_all (\<lambda>a. RD_KAFKA_TOPPAR_F_UNKNOWN \<notin> rktp_flags (rk_toppars rk a)) (rkt_p rkt)"

text \<open>\<open>dr_ext e rk rk'\<close>: the delivery reports of \<open>rk'\<close> are those of \<open>rk\<close> followed by
  reports that all carry the error \<open>e\<close>.\<close>

definition dr_ext :: "rd_kafka_resp_err_t \<Rightarrow> rd_kafka_t \<Rightarrow> rd_kafka_t \<Rightarrow> bool" where
  "dr_ext e rk rk' \<longleftrightarrow> (\<exists>ms. rk_dr rk' = rk_dr rk @ map (\<lambda>m. (m, e)) ms)"

text \<open>
  The specification of the flush of the UA partition, in the spec's words, to compare
  the loop of \<^verbatim>\<open>rd_kafka_topic_assign_uas\<close> with. \<open>spec_fails_partitioning\<close>: a message
  drained from the UA partition fails partitioning if it carries a forced partition id
  that is out of range while the topic is not \<open>Unknown\<close>, or else if the partitioner
  returns failure for it. \<open>spec_failed\<close>: the messages of the drained queue \<open>W\<close> that
  fail partitioning, in the order of \<open>W\<close>; a message that is not forced out of range is
  handed to the partitioner, which may enqueue it on a partition, and the messages
  after it are partitioned with the store as that leaves it (\<open>spec_partitioned\<close>).
  \<open>spec_flush_failed\<close>: the messages that fail partitioning when the queue of the UA
  partition of a producer's topic is drained (none for a consumer, and none for a topic
  without UA partition, where nothing is drained).
\<close>

definition spec_fails_partitioning ::
  "route_fn \<Rightarrow> rd_kafka_itopic_t \<Rightarrow> rd_kafka_t \<Rightarrow> rd_kafka_msg_t \<Rightarrow> bool" where
  "spec_fails_partitioning route rkt rk rkm \<longleftrightarrow>
     (rkm_partition rkm \<noteq> RD_KAFKA_PARTITION_UA \<and>
      rkm_partition rkm \<ge> rkt_partition_cnt rkt \<and>
      rkt_state rkt \<noteq> RD_KAFKA_TOPIC_S_UNKNOWN) \<or>
     fst (rd_kafka_msg_partitioner route rk rkt rkm) \<noteq> 0"

definition spec_partitioned ::
  "route_fn \<Rightarrow> rd_kafka_itopic_t \<Rightarrow> rd_kafka_t \<Rightarrow> rd_kafka_msg_t \<Rightarrow> rd_kafka_t" where
  "spec_partitioned route rkt rk rkm =
     (if rkm_partition rkm \<noteq> RD_KAFKA_PARTITION_UA \<and>
         rkm_partition rkm \<ge> rkt_partition_cnt rkt \<and>
         rkt_state rkt \<noteq> RD_KAFKA_TOPIC_S_UNKNOWN
      then rk else snd (rd_kafka_msg_partitioner route rk rkt rkm))"

fun spec_failed ::
  "route_fn \<Rightarrow> rd_kafka_itopic_t \<Rightarrow> rd_kafka_msg_t list \<Rightarrow> rd_kafka_t \<Rightarrow>
   rd_kafka_msg_t list" where
  "spec_failed route rkt [] rk = []"
| "spec_failed route rkt (rkm # W) rk =
     (if spec_fails_partitioning route rkt rk rkm
      then rkm # spec_failed route rkt W (spec_partitioned route rkt rk rkm)
      else spec_failed route rkt W (spec_partitioned route rkt rk rkm))"

definition spec_flush_failed ::
  "route_fn \<Rightarrow> rd_kafka_t \<Rightarrow> rd_kafka_itopic_t \<Rightarrow> rd_kafka_msg_t list" where
  "spec_flush_failed route rk rkt =
     (if rk_type rk \<noteq> RD_KAFKA_PRODUCER then []
      else
        (case rkt_ua rkt of
           None \<Rightarrow> []
         | Some ua \<Rightarrow>
             spec_failed route rkt (rktp_msgq (rk_toppars rk ua))
               (toppar_upd rk ua (\<lambda>t. t\<lparr>rktp_msgq := []\<rparr>))))"

text \<open>
  The partition array is indexed by partition id (the data model of the topic, with
  invariant 3): it is as long as the partition count, the partition in slot \<open>j\<close> has the
  id \<open>j\<close>, and every partition of the array and of the desired list is allocated. The
  operations of this file keep this (lemma \<open>metadata_update_indexed\<close>).
\<close>

definition partitions_indexed :: "rd_kafka_t \<Rightarrow> rd_kafka_itopic_t \<Rightarrow> bool" where
  "partitions_indexed rk rkt \<longleftrightarrow>
     length (rkt_p rkt) = nat (rkt_partition_cnt rkt) \<and>
     list_all (\<lambda>j. rktp_partition (rk_toppars rk (rkt_p rkt ! j)) = int j \<and>
                   rkt_p rkt ! j < rk_toppar_brk rk) [0 ..< length (rkt_p rkt)] \<and>
     list_all (\<lambda>a. a < rk_toppar_brk rk) (rkt_desp rkt)"

text \<open>\<open>ids_kept rk rk'\<close>: the allocator and the partition id of every toppar are in \<open>rk'\<close>
  what they are in \<open>rk\<close>.\<close>

definition ids_of :: "rd_kafka_t \<Rightarrow> nat \<times> (toppar_ref \<Rightarrow> int)" where
  "ids_of rk = (rk_toppar_brk rk, \<lambda>a. rktp_partition (rk_toppars rk a))"

definition ids_kept :: "rd_kafka_t \<Rightarrow> rd_kafka_t \<Rightarrow> bool" where
  "ids_kept rk rk' \<longleftrightarrow> ids_of rk' = ids_of rk"

text \<open>What the age test of the scanner makes of a topic: the state becomes \<open>Unknown\<close>
  if the clock is past the metadata timestamp by more than the wrapped product (the
  interval is in milliseconds, the clock in microseconds).\<close>

definition scan_aged :: "rd_kafka_t \<Rightarrow> rd_kafka_itopic_t \<Rightarrow> rd_kafka_itopic_t" where
  "scan_aged rk rkt =
     (if rd_clock rk - rkt_ts_metadata rkt >
           c_int (c_int (rk_conf_metadata_refresh_interval_ms rk * 1000) * 3) \<and>
         rk_conf_metadata_refresh_interval_ms rk \<ge> 0
      then rkt\<lparr>rkt_state := RD_KAFKA_TOPIC_S_UNKNOWN\<rparr> else rkt)"

definition scan_frame :: "rd_kafka_t \<Rightarrow> rd_kafka_t \<Rightarrow> bool" where
  "scan_frame rk rk' \<longleftrightarrow>
     rk_topics rk' = rk_topics rk \<and> rk_clock rk' = rk_clock rk \<and>
     rk_conf_metadata_refresh_interval_ms rk' = rk_conf_metadata_refresh_interval_ms rk"

text \<open>
  The example state: the topic \<open>orders\<close> in state \<open>Exists\<close> with two partitions, partition 0
  (at address 1) led by broker 1 and holding two messages, partition 1 (at address 2)
  led by broker 2 and holding one message, and an empty UA partition at address 0. The
  clock stands 3001 ms after the last metadata, with a refresh interval of 1000 ms.
\<close>

definition ex_msg :: "nat \<Rightarrow> rd_kafka_msg_t" where
  "ex_msg n = \<lparr>rkm_partition = RD_KAFKA_PARTITION_UA, rkm_ts_timeout = 0, rkm_payload = n\<rparr>"

definition ex_toppar ::
  "int \<Rightarrow> broker_ref option \<Rightarrow> rd_kafka_msg_t list \<Rightarrow> rd_kafka_toppar_t" where
  "ex_toppar partn leader msgs =
     \<lparr>rktp_partition = partn, rktp_leader = leader, rktp_flags = {},
      rktp_msgq = msgs, rktp_xmit_msgq = [], rktp_errq = []\<rparr>"

definition ex_toppars :: "toppar_ref \<Rightarrow> rd_kafka_toppar_t" where
  "ex_toppars a =
     (if a = 1 then ex_toppar 0 (Some 1) [ex_msg 1, ex_msg 2]
      else if a = 2 then ex_toppar 1 (Some 2) [ex_msg 3]
      else ex_toppar RD_KAFKA_PARTITION_UA None [])"

definition ex_conf :: rd_kafka_topic_conf_t where
  "ex_conf = \<lparr>partitioner = Some rd_kafka_msg_partitioner_consistent_random,
              compression_codec = RD_KAFKA_COMPRESSION_CODEC 0, opaque = 0\<rparr>"

definition ex_orders :: rd_kafka_itopic_t where
  "ex_orders =
     \<lparr>rkt_topic = ''orders'', rkt_state = RD_KAFKA_TOPIC_S_EXISTS, rkt_partition_cnt = 2,
      rkt_p = [1, 2], rkt_ua = Some 0, rkt_desp = [], rkt_ts_metadata = 0,
      rkt_conf = ex_conf, rkt_refcnt = 1\<rparr>"

definition ex_client :: "rd_kafka_type_t \<Rightarrow> int \<Rightarrow> rd_kafka_t" where
  "ex_client ty terminate =
     \<lparr>rk_type = ty, rk_terminate = terminate, rk_topics = [ex_orders], rk_topic_cnt = 1,
      rk_conf_topic_blacklist = None, rk_conf_metadata_refresh_interval_ms = 1000,
      rk_conf_topic_conf = None, rk_conf_compression_codec = RD_KAFKA_COMPRESSION_CODEC 0,
      rk_brokers = [\<lparr>rkb_ref = 1, rkb_nodeid = 1\<rparr>, \<lparr>rkb_ref = 2, rkb_nodeid = 2\<rparr>],
      rk_toppars = ex_toppars, rk_toppar_brk = 3, rk_dr = [], rk_leader_queries = [],
      rk_clock = 3001000, rk_last_error = None\<rparr>"

text \<open>The example client with a refresh interval of one hour (3600000 ms), at the very
  instant the metadata of its topic was received.\<close>

definition ex_client_hour :: rd_kafka_t where
  "ex_client_hour =
     (ex_client RD_KAFKA_PRODUCER 0)
       \<lparr>rk_conf_metadata_refresh_interval_ms := 3600000, rk_clock := 0\<rparr>"

text \<open>The example client as a consumer whose partition 0 (at address 1) is desired by
  the application.\<close>

definition ex_desired :: rd_kafka_t where
  "ex_desired =
     (ex_client RD_KAFKA_CONSUMER 0)
       \<lparr>rk_toppars :=
          ex_toppars(1 := (ex_toppars 1)\<lparr>rktp_flags := {RD_KAFKA_TOPPAR_F_DESIRED}\<rparr>)\<rparr>"

definition ex_route :: route_fn where
  "ex_route store rkt rkm = None"

definition ex_mdt ::
  "rd_kafka_resp_err_t \<Rightarrow> rd_kafka_metadata_partition list \<Rightarrow> rd_kafka_metadata_topic" where
  "ex_mdt err parts = \<lparr>md_topic = ''orders'', md_err = err, md_partitions = parts\<rparr>"

text \<open>A record without error that gives the topic \<open>orders\<close> three partitions, led by
  broker 2, by broker 1 and by no broker.\<close>

definition ex_record3 :: rd_kafka_metadata_topic where
  "ex_record3 =
     ex_mdt RD_KAFKA_RESP_ERR_NO_ERROR
       [\<lparr>md_id = 0, md_leader = 2\<rparr>, \<lparr>md_id = 1, md_leader = 1\<rparr>,
        \<lparr>md_id = 2, md_leader = - 1\<rparr>]"

section \<open>Properties\<close>

subsection \<open>Registry lookups and reference counts\<close>

lemma topic_index_SomeD:
  "topic_index name rkts = Some i \<Longrightarrow> i < length rkts \<and> rkt_topic (rkts ! i) = name"
  by (induction rkts arbitrary: i) (auto split: if_splits)

lemma destroy0_keep:
  assumes "i < length (rk_topics rk)" "rkt_refcnt (rk_topics rk ! i) > 0"
  shows "rd_kafka_topic_destroy0 (rd_kafka_topic_keep rk i) i = Some rk"
  using assms
  by (simp add: rd_kafka_topic_destroy0_def rd_kafka_topic_keep_def Let_def
      list_update_same_conv)

subsection \<open>Creation of a topic\<close>

lemma new0_invalid:
  "topic = None \<or> 512 < strlen (the topic) \<Longrightarrow>
   rd_kafka_topic_new0 conf_new rk topic conf existing =
     (None, existing, rk\<lparr>rk_last_error := Some RD_KAFKA_RESP_ERR__INVALID_ARG\<rparr>)"
  by (simp add: rd_kafka_topic_new0_def)

lemma new0_valid:
  assumes "strlen t \<le> 512"
  shows "\<exists>h. fst (rd_kafka_topic_new0 conf_new rk (Some t) conf existing) = Some h"
    and "rk_last_error (snd (snd (rd_kafka_topic_new0 conf_new rk (Some t) conf existing))) =
         rk_last_error rk"
  using assms
  by (auto simp: rd_kafka_topic_new0_def rd_kafka_topic_find_def rd_kafka_topic_keep_def
      rd_kafka_toppar_new_def Let_def split: option.splits prod.splits)

lemma new0_existing:
  assumes "topic_index (c_str t) (rk_topics rk) = Some i" "strlen t \<le> 512"
  shows "rd_kafka_topic_new0 conf_new rk (Some t) conf existing =
           (Some i, map_option (\<lambda>_. 1) existing,
            rk\<lparr>rk_topics := (rk_topics rk)[i := (rk_topics rk ! i)
                 \<lparr>rkt_refcnt := rkt_refcnt (rk_topics rk ! i) + 1\<rparr>]\<rparr>)"
  using assms
  by (simp add: rd_kafka_topic_new0_def rd_kafka_topic_find_def rd_kafka_topic_keep_def)

lemma strlen_empty: "strlen [] = 0"
  by (simp add: strlen_def c_str_def)

lemma strlen_replicate_a: "strlen (replicate n CHR ''a'') = n"
  by (simp add: strlen_def c_str_def takeWhile_replicate)

lemma c_str_orders: "c_str ''orders'' = ''orders''"
  by (simp add: c_str_def)

text \<open>
  Claim C2, as stated, fails: the empty name is not rejected. Creating a topic with the
  empty name on the example client returns a handle (the second position of the
  registry) and stores no error.
\<close>

theorem topic_new0_empty_name_counterexample:
  "fst (rd_kafka_topic_new0 ex_conf (ex_client RD_KAFKA_PRODUCER 0) (Some []) None (Some 0))
     = Some 1 \<and>
   rk_last_error
     (snd (snd (rd_kafka_topic_new0 ex_conf (ex_client RD_KAFKA_PRODUCER 0) (Some []) None
        (Some 0)))) = None"
  by (simp add: rd_kafka_topic_new0_def rd_kafka_topic_find_def rd_kafka_toppar_new_def
      Let_def strlen_def c_str_def ex_client_def ex_orders_def)

text \<open>
  Claim C2, amended. Topic creation fails with \<open>InvalidArgument\<close>, returning no handle
  and leaving the out-parameter alone, for a missing name and for every name longer
  than 512 bytes; every name of at most 512 bytes, the empty name included, is accepted:
  a handle is returned and no error is stored.
\<close>

theorem topic_new0_name_validation:
  "(topic = None \<or> 512 < strlen (the topic) \<longrightarrow>
      rd_kafka_topic_new0 conf_new rk topic conf existing =
        (None, existing, rk\<lparr>rk_last_error := Some RD_KAFKA_RESP_ERR__INVALID_ARG\<rparr>)) \<and>
   (strlen t \<le> 512 \<longrightarrow>
      (\<exists>h. fst (rd_kafka_topic_new0 conf_new rk (Some t) conf existing) = Some h) \<and>
      rk_last_error (snd (snd (rd_kafka_topic_new0 conf_new rk (Some t) conf existing))) =
        rk_last_error rk)"
  using new0_invalid [of topic conf_new rk conf existing]
    new0_valid [of t conf_new rk conf existing]
  by blast

theorem topic_new0_name_validation_witness:
  "512 < strlen (the (Some (replicate 513 CHR ''a''))) \<and>
   rd_kafka_topic_new0 ex_conf (ex_client RD_KAFKA_PRODUCER 0)
       (Some (replicate 513 CHR ''a'')) None (Some 0) =
     (None, Some 0,
      (ex_client RD_KAFKA_PRODUCER 0)\<lparr>rk_last_error := Some RD_KAFKA_RESP_ERR__INVALID_ARG\<rparr>) \<and>
   strlen (replicate 512 CHR ''a'') \<le> 512 \<and>
   (\<exists>h. fst (rd_kafka_topic_new0 ex_conf (ex_client RD_KAFKA_PRODUCER 0)
              (Some (replicate 512 CHR ''a'')) None (Some 0)) = Some h)"
  using topic_new0_name_validation
    [of "Some (replicate 513 CHR ''a'')" ex_conf "ex_client RD_KAFKA_PRODUCER 0" None "Some 0"
        "replicate 512 CHR ''a''"]
  by (simp add: strlen_replicate_a)

text \<open>
  Claim C9, as stated, fails: the existing topic does not keep all of its fields. The
  lookup takes a reference for the handle it returns, so creating \<open>orders\<close> again on the
  example client leaves the topic with a refcount of 2 where it was 1.
\<close>

theorem topic_new0_existing_counterexample:
  "rkt_refcnt (rk_topics (ex_client RD_KAFKA_PRODUCER 0) ! 0) = 1 \<and>
   rkt_refcnt (rk_topics
     (snd (snd (rd_kafka_topic_new0 ex_conf (ex_client RD_KAFKA_PRODUCER 0) (Some ''orders'')
        (Some ex_conf) (Some 0)))) ! 0) = 2"
  by (simp add: rd_kafka_topic_new0_def rd_kafka_topic_find_def rd_kafka_topic_keep_def
      Let_def strlen_def c_str_def ex_client_def ex_orders_def)

text \<open>
  Claim C9, amended. When a topic is created under a name (of at most 512 bytes) that
  is already in the registry, the configuration of the caller is not applied: the
  handle of the existing topic is returned, the out-parameter is set to 1, and the
  client is what it was but for the reference count of that topic, which is one
  higher; every other field of the topic, its configuration included, is unchanged.
\<close>

theorem topic_new0_existing:
  assumes "topic_index (c_str t) (rk_topics rk) = Some i" "strlen t \<le> 512"
  shows "rd_kafka_topic_new0 conf_new rk (Some t) conf existing =
           (Some i, map_option (\<lambda>_. 1) existing,
            rk\<lparr>rk_topics := (rk_topics rk)[i := (rk_topics rk ! i)
                 \<lparr>rkt_refcnt := rkt_refcnt (rk_topics rk ! i) + 1\<rparr>]\<rparr>)"
  using assms by (rule new0_existing)

theorem topic_new0_existing_witness:
  "topic_index (c_str ''orders'') (rk_topics (ex_client RD_KAFKA_PRODUCER 0)) = Some 0 \<and>
   strlen ''orders'' \<le> 512 \<and>
   rd_kafka_topic_new0 ex_conf (ex_client RD_KAFKA_PRODUCER 0) (Some ''orders'')
       (Some (ex_conf\<lparr>opaque := 7\<rparr>)) (Some 0) =
     (Some 0, Some 1,
      (ex_client RD_KAFKA_PRODUCER 0)\<lparr>rk_topics := [ex_orders\<lparr>rkt_refcnt := 2\<rparr>]\<rparr>)"
  using topic_new0_existing
    [of "''orders''" "ex_client RD_KAFKA_PRODUCER 0" 0 ex_conf "Some (ex_conf\<lparr>opaque := 7\<rparr>)"
        "Some 0"]
  by (simp add: c_str_orders strlen_def ex_client_def ex_orders_def)

subsection \<open>Records that are ignored\<close>

text \<open>
  Claim C5. A metadata record whose error is \<open>LeaderNotAvailable\<close> and whose partition
  count is 0 is ignored: the update returns \<open>-1\<close> (leader unknown) and the whole client
  state, so the topic's state, partition count, delegations and metadata timestamp, is
  what it was.
\<close>

theorem metadata_update_leader_not_available:
  "md_err mdt = RD_KAFKA_RESP_ERR_LEADER_NOT_AVAILABLE \<Longrightarrow> md_partition_cnt mdt = 0 \<Longrightarrow>
   rd_kafka_topic_metadata_update route rk mdt = Some (- 1, rk)"
  by (simp add: rd_kafka_topic_metadata_update_def)

theorem metadata_update_leader_not_available_witness:
  "md_err (ex_mdt RD_KAFKA_RESP_ERR_LEADER_NOT_AVAILABLE []) =
     RD_KAFKA_RESP_ERR_LEADER_NOT_AVAILABLE \<and>
   md_partition_cnt (ex_mdt RD_KAFKA_RESP_ERR_LEADER_NOT_AVAILABLE []) = 0 \<and>
   rd_kafka_topic_metadata_update ex_route (ex_client RD_KAFKA_PRODUCER 0)
     (ex_mdt RD_KAFKA_RESP_ERR_LEADER_NOT_AVAILABLE []) =
     Some (- 1, ex_client RD_KAFKA_PRODUCER 0)"
  using metadata_update_leader_not_available
    [of "ex_mdt RD_KAFKA_RESP_ERR_LEADER_NOT_AVAILABLE []" ex_route
        "ex_client RD_KAFKA_PRODUCER 0"]
  by (simp add: ex_mdt_def md_partition_cnt_def)

text \<open>
  Claim C10. When the client is terminating, a metadata update returns \<open>-1\<close> and leaves
  the whole client state unchanged (every topic of the registry being referenced, as
  the registry's invariant says): no state transition, no new metadata timestamp, no
  change of the partition count or of a delegation.
\<close>

theorem metadata_update_terminating:
  assumes "rk_terminate rk \<noteq> 0" "registry_refs_ok rk"
  shows "rd_kafka_topic_metadata_update route rk mdt = Some (- 1, rk)"
proof (cases "topic_index (c_str (md_topic mdt)) (rk_topics rk)")
  case None
  then show ?thesis
    by (simp add: rd_kafka_topic_metadata_update_def rd_kafka_topic_find_def)
next
  case (Some i)
  then have i: "i < length (rk_topics rk)" by (simp add: topic_index_SomeD)
  with assms(2) have "rkt_refcnt (rk_topics rk ! i) > 0"
    by (simp add: registry_refs_ok_def list_all_length)
  with i have d: "rd_kafka_topic_destroy0 (rd_kafka_topic_keep rk i) i = Some rk"
    by (rule destroy0_keep)
  have t: "rk_terminate (rd_kafka_topic_keep rk i) \<noteq> 0"
    using assms(1) by (simp add: rd_kafka_topic_keep_def)
  show ?thesis
    using Some d t
    by (simp add: rd_kafka_topic_metadata_update_def rd_kafka_topic_find_def)
qed

theorem metadata_update_terminating_witness:
  "rk_terminate (ex_client RD_KAFKA_PRODUCER 1) \<noteq> 0 \<and>
   registry_refs_ok (ex_client RD_KAFKA_PRODUCER 1) \<and>
   rd_kafka_topic_metadata_update ex_route (ex_client RD_KAFKA_PRODUCER 1)
     (ex_mdt RD_KAFKA_RESP_ERR_NO_ERROR [\<lparr>md_id = 0, md_leader = 2\<rparr>]) =
     Some (- 1, ex_client RD_KAFKA_PRODUCER 1)"
  using metadata_update_terminating
    [of "ex_client RD_KAFKA_PRODUCER 1" ex_route
        "ex_mdt RD_KAFKA_RESP_ERR_NO_ERROR [\<lparr>md_id = 0, md_leader = 2\<rparr>]"]
  by (simp add: ex_client_def ex_orders_def registry_refs_ok_def)

subsection \<open>Leader update without a broker\<close>

text \<open>
  Claim C4. For a partition id \<open>i\<close> of the partition array, the leader update called
  with no broker handle clears the partition's delegation; it returns \<open>-1\<close> (leader
  unknown) if the partition had a leader and \<open>0\<close> (no change) if it had none.
\<close>

theorem leader_update_no_broker:
  assumes "0 \<le> i" "i < rkt_partition_cnt rkt"
  shows "rd_kafka_topic_leader_update rk rkt i leader_id None =
           (if rktp_leader (rk_toppars rk (rkt_p rkt ! nat i)) \<noteq> None then - 1 else 0,
            rk\<lparr>rk_toppars := (rk_toppars rk)(rkt_p rkt ! nat i :=
                  (rk_toppars rk (rkt_p rkt ! nat i))\<lparr>rktp_leader := None\<rparr>)\<rparr>)"
  using assms
  by (simp add: rd_kafka_topic_leader_update_def rd_kafka_toppar_get_def
      rd_kafka_toppar_broker_delegate_def toppar_upd_def Let_def)

theorem leader_update_no_broker_witness:
  "(0::int) \<le> 0 \<and> 0 < rkt_partition_cnt ex_orders \<and>
   fst (rd_kafka_topic_leader_update (ex_client RD_KAFKA_PRODUCER 0) ex_orders 0 (- 1) None)
     = - 1 \<and>
   rktp_leader (rk_toppars
     (snd (rd_kafka_topic_leader_update (ex_client RD_KAFKA_PRODUCER 0) ex_orders 0 (- 1) None))
     1) = None"
  using leader_update_no_broker [of 0 ex_orders "ex_client RD_KAFKA_PRODUCER 0" "- 1"]
  by (simp add: ex_orders_def ex_client_def ex_toppars_def ex_toppar_def)

subsection \<open>Propagation of a missing topic\<close>

lemma fold_enq_error:
  "fold (\<lambda>a r. rd_kafka_toppar_enq_error r a e) xs rk =
     rk\<lparr>rk_toppars := \<lambda>a. (rk_toppars rk a)
           \<lparr>rktp_errq := rktp_errq (rk_toppars rk a) @ replicate (count_list xs a) e\<rparr>\<rparr>"
proof (induction xs arbitrary: rk)
  case Nil
  then show ?case by simp
next
  case (Cons x xs)
  let ?rk1 = "rd_kafka_toppar_enq_error rk x e"
  have "fold (\<lambda>a r. rd_kafka_toppar_enq_error r a e) (x # xs) rk =
        fold (\<lambda>a r. rd_kafka_toppar_enq_error r a e) xs ?rk1"
    by simp
  also have "\<dots> = ?rk1\<lparr>rk_toppars := \<lambda>a. (rk_toppars ?rk1 a)
           \<lparr>rktp_errq := rktp_errq (rk_toppars ?rk1 a) @ replicate (count_list xs a) e\<rparr>\<rparr>"
    by (rule Cons.IH)
  also have "\<dots> = rk\<lparr>rk_toppars := \<lambda>a. (rk_toppars rk a)
           \<lparr>rktp_errq := rktp_errq (rk_toppars rk a) @ replicate (count_list (x # xs) a) e\<rparr>\<rparr>"
    by (simp add: rd_kafka_toppar_enq_error_def toppar_upd_def fun_eq_iff
        replicate_app_Cons_same)
  finally show ?case .
qed

text \<open>
  Claim C7. The propagation that runs on a transition into \<open>NotExists\<close> appends, on a
  consumer, one \<open>UnknownTopic\<close> error to the notification queue of a partition for each
  of its entries in the desired list (exactly one for a partition that is once in the
  list, none for a partition that is not in it) and changes nothing else; on a producer
  it enqueues nothing and changes nothing. Both entry points that move a topic into
  \<open>NotExists\<close> run it (for the metadata update see \<open>metadata_update_notexists_errq\<close>).
\<close>

theorem propagate_notexists_enqueues:
  "rd_kafka_topic_propagate_notexists rk rkt =
     (if rk_type rk = RD_KAFKA_CONSUMER
      then rk\<lparr>rk_toppars := \<lambda>a. (rk_toppars rk a)
             \<lparr>rktp_errq := rktp_errq (rk_toppars rk a) @
                replicate (count_list (rkt_desp rkt) a) RD_KAFKA_RESP_ERR__UNKNOWN_TOPIC\<rparr>\<rparr>
      else rk)"
  by (simp add: rd_kafka_topic_propagate_notexists_def fold_enq_error)

subsection \<open>Periodic scan\<close>

lemma scan_all_partitions_frame:
  "scan_frame rk (snd (snd (scan_all_partitions ps rkt now rk timedout tpcnt)))"
proof (induction ps arbitrary: rk timedout tpcnt)
  case Nil
  then show ?case by (simp add: scan_frame_def)
next
  case (Cons p ps)
  show ?case
  proof (cases "rd_kafka_toppar_get rkt p False")
    case None
    then show ?thesis using Cons.IH by simp
  next
    case (Some a)
    obtain rk1 t1 c1 where
      step: "scan_all_partitions (p # ps) rkt now rk timedout tpcnt =
             scan_all_partitions ps rkt now rk1 t1 c1" and fr: "scan_frame rk rk1"
      using Some by (simp add: Let_def split_beta toppar_upd_def scan_frame_def)
    from Cons.IH [of rk1 t1 c1] fr show ?thesis
      unfolding step by (simp add: scan_frame_def)
  qed
qed

lemma scan_aged_eq:
  "(if rkt_state rkt \<noteq> RD_KAFKA_TOPIC_S_UNKNOWN \<and>
                     rk_conf_metadata_refresh_interval_ms rk \<ge> 0 \<and>
                     rd_clock rk > rkt_ts_metadata rkt +
                       c_int (c_int (rk_conf_metadata_refresh_interval_ms rk * 1000) * 3)
                  then rd_kafka_topic_set_state rkt RD_KAFKA_TOPIC_S_UNKNOWN
                  else rkt) = scan_aged rk rkt"
  by (auto simp: scan_aged_def rd_kafka_topic_set_state_def)

lemma scan_all_topic_frame:
  "rk_topics (snd (scan_all_topic rk i now)) = (rk_topics rk)[i := scan_aged rk (rk_topics rk ! i)] \<and>
   rk_clock (snd (scan_all_topic rk i now)) = rk_clock rk \<and>
   rk_conf_metadata_refresh_interval_ms (snd (scan_all_topic rk i now)) =
     rk_conf_metadata_refresh_interval_ms rk"
proof -
  define rkt1 where "rkt1 = scan_aged rk (rk_topics rk ! i)"
  define rk2 where "rk2 = (if rkt_partition_cnt rkt1 = 0
                 then rd_kafka_topic_leader_query (topic_store rk i rkt1) rkt1
                 else topic_store rk i rkt1)"
  define ps where "ps = map (\<lambda>k. RD_KAFKA_PARTITION_UA + int k)
                  [0 ..< nat (rkt_partition_cnt rkt1 - RD_KAFKA_PARTITION_UA)]"
  define res where "res = scan_all_partitions ps rkt1 now rk2 [] 0"
  have f2: "rk_topics rk2 = (rk_topics rk)[i := rkt1] \<and> rk_clock rk2 = rk_clock rk \<and>
     rk_conf_metadata_refresh_interval_ms rk2 = rk_conf_metadata_refresh_interval_ms rk"
    by (simp add: rk2_def topic_store_def rd_kafka_topic_leader_query_def)
  have f3: "scan_frame rk2 (snd (snd res))"
    unfolding res_def by (rule scan_all_partitions_frame)
  have "scan_all_topic rk i now =
          (if int (length (fst res)) > 0
           then (int (length (fst res)),
                 rd_kafka_dr_msgq (snd (snd res)) (fst res) RD_KAFKA_RESP_ERR__MSG_TIMED_OUT)
           else (0, snd (snd res)))"
    unfolding scan_all_topic_def Let_def scan_aged_eq
    by (simp add: split_beta res_def ps_def rk2_def rkt1_def)
  then show ?thesis
    using f2 f3 by (simp add: scan_frame_def rd_kafka_dr_msgq_def rkt1_def)
qed

lemma scan_aged_cong:
  "rk_clock rk' = rk_clock rk \<Longrightarrow>
   rk_conf_metadata_refresh_interval_ms rk' = rk_conf_metadata_refresh_interval_ms rk \<Longrightarrow>
   scan_aged rk' = scan_aged rk"
  by (simp add: scan_aged_def rd_clock_def fun_eq_iff)

lemma scan_all_topics_frame:
  assumes "distinct is" "j < length (rk_topics rk)"
  shows "rk_topics (snd (scan_all_topics is rk now totcnt)) ! j =
           (if j \<in> set is then scan_aged rk (rk_topics rk ! j) else rk_topics rk ! j)"
  using assms
proof (induction "is" arbitrary: rk totcnt)
  case Nil
  then show ?case by simp
next
  case (Cons i "is")
  define c where "c = fst (scan_all_topic rk i now)"
  define rk1 where "rk1 = snd (scan_all_topic rk i now)"
  note f = scan_all_topic_frame [of rk i now, folded rk1_def]
  have ag: "scan_aged rk1 = scan_aged rk" using f by (intro scan_aged_cong) simp_all
  have len: "j < length (rk_topics rk1)" using f Cons.prems by simp
  have d: "distinct is" "i \<notin> set is" using Cons.prems by auto
  have "rk_topics (snd (scan_all_topics (i # is) rk now totcnt)) ! j =
        rk_topics (snd (scan_all_topics is rk1 now (totcnt + c))) ! j"
    by (simp add: split_beta c_def rk1_def)
  also have "\<dots> = (if j \<in> set is then scan_aged rk1 (rk_topics rk1 ! j) else rk_topics rk1 ! j)"
    using Cons.IH [OF d(1) len] .
  also have "\<dots> = (if j \<in> set (i # is) then scan_aged rk (rk_topics rk ! j) else rk_topics rk ! j)"
  proof (cases "j = i")
    case True
    then show ?thesis using f d Cons.prems(2) by (simp add: ag)
  next
    case False
    then show ?thesis using f by (simp add: ag)
  qed
  finally show ?case .
qed

lemma c_int_in_range:
  "- 2147483648 \<le> x \<Longrightarrow> x \<le> 2147483647 \<Longrightarrow> c_int x = x"
  by (simp add: c_int_def)

lemma scan_all_topic_aged:
  assumes "i < length (rk_topics rk)"
  shows "rk_topics (snd (rd_kafka_topic_scan_all rk now)) ! i = scan_aged rk (rk_topics rk ! i)"
  using assms scan_all_topics_frame [of "[0 ..< length (rk_topics rk)]" i rk now 0]
  by (simp add: rd_kafka_topic_scan_all_def)

text \<open>
  As long as the product does not wrap (a refresh interval of at most 715827 ms), the
  scanner, reading the clock value \<open>rd_clock rk\<close>, leaves a topic of the registry in
  state \<open>Unknown\<close> exactly if the clock is more than three refresh intervals past the
  topic's metadata timestamp and the refresh interval is not negative (for a topic already
  \<open>Unknown\<close> that changes nothing); otherwise, and in every other field, the topic is what
  it was.
\<close>

lemma scan_all_state_unknown_in_range:
  assumes "i < length (rk_topics rk)" and "rk_conf_metadata_refresh_interval_ms rk \<le> 715827"
  shows "rk_topics (snd (rd_kafka_topic_scan_all rk now)) ! i =
           (if rd_clock rk - rkt_ts_metadata (rk_topics rk ! i) >
                 3 * (rk_conf_metadata_refresh_interval_ms rk * 1000) \<and>
               rk_conf_metadata_refresh_interval_ms rk \<ge> 0
            then (rk_topics rk ! i)\<lparr>rkt_state := RD_KAFKA_TOPIC_S_UNKNOWN\<rparr>
            else rk_topics rk ! i)"
proof (cases "rk_conf_metadata_refresh_interval_ms rk \<ge> 0")
  case True
  have "c_int (rk_conf_metadata_refresh_interval_ms rk * 1000) =
          rk_conf_metadata_refresh_interval_ms rk * 1000"
    using True assms(2) by (intro c_int_in_range) simp_all
  moreover have "c_int (rk_conf_metadata_refresh_interval_ms rk * 1000 * 3) =
          rk_conf_metadata_refresh_interval_ms rk * 1000 * 3"
    using True assms(2) by (intro c_int_in_range) simp_all
  ultimately show ?thesis
    using scan_all_topic_aged [OF assms(1), of now] by (simp add: scan_aged_def)
next
  case False
  then show ?thesis
    using scan_all_topic_aged [OF assms(1), of now] by (simp add: scan_aged_def)
qed

lemma scan_all_state_unknown_in_range_example:
  "rkt_state (rk_topics (ex_client RD_KAFKA_PRODUCER 0) ! 0) = RD_KAFKA_TOPIC_S_EXISTS \<and>
   rkt_state (rk_topics (snd (rd_kafka_topic_scan_all (ex_client RD_KAFKA_PRODUCER 0) 3001000)) ! 0)
     = RD_KAFKA_TOPIC_S_UNKNOWN"
  using scan_all_state_unknown_in_range [of 0 "ex_client RD_KAFKA_PRODUCER 0" 3001000]
  by (simp add: ex_client_def ex_orders_def rd_clock_def)

text \<open>
  Claim C8. The scanner is to set a topic to \<open>Unknown\<close> if and only if its metadata is
  older than three refresh intervals and the interval is not negative. With a refresh
  interval of 3600000 ms the \<^verbatim>\<open>int\<close> product \<open>3600000 * 1000 * 3\<close> wraps around to
  \<open>-2084901888\<close>, and the scanner sets the topic \<open>orders\<close>, in state \<open>Exists\<close> with
  metadata that is 0 microseconds old, to \<open>Unknown\<close>, although three refresh intervals
  (10800000000 microseconds) have not passed.
\<close>

theorem scan_all_interval_overflow:
  "rk_conf_metadata_refresh_interval_ms ex_client_hour = 3600000 \<and>
   c_int (c_int (rk_conf_metadata_refresh_interval_ms ex_client_hour * 1000) * 3) = - 2084901888 \<and>
   rkt_state (rk_topics ex_client_hour ! 0) = RD_KAFKA_TOPIC_S_EXISTS \<and>
   rd_clock ex_client_hour - rkt_ts_metadata (rk_topics ex_client_hour ! 0) = 0 \<and>
   rkt_state (rk_topics (snd (rd_kafka_topic_scan_all ex_client_hour 0)) ! 0) =
     RD_KAFKA_TOPIC_S_UNKNOWN"
  using scan_all_topic_aged [of 0 ex_client_hour 0]
  by (simp add: ex_client_hour_def ex_client_def ex_orders_def rd_clock_def scan_aged_def
      c_int_def)

subsection \<open>What the operations leave alone\<close>

lemma store_only_refl: "store_only rk rk"
  by (simp add: store_only_def)

lemma store_only_trans: "store_only a b \<Longrightarrow> store_only b c \<Longrightarrow> store_only a c"
  by (simp add: store_only_def)

lemma store_only_toppar_upd: "store_only rk (toppar_upd rk a f)"
  by (simp add: store_only_def kept_fields_def toppar_upd_def)

lemma store_only_enq_error: "store_only rk (rd_kafka_toppar_enq_error rk a e)"
  by (simp add: rd_kafka_toppar_enq_error_def store_only_toppar_upd)

lemma store_only_delegate: "store_only rk (rd_kafka_toppar_broker_delegate rk a b)"
  by (simp add: rd_kafka_toppar_broker_delegate_def store_only_toppar_upd)

lemma store_only_move_msgs: "store_only rk (rd_kafka_toppar_move_msgs rk d s)"
  by (simp add: rd_kafka_toppar_move_msgs_def Let_def store_only_def kept_fields_def toppar_upd_def)

lemma store_only_purge: "store_only rk (rd_kafka_toppar_purge_queues rk a)"
  by (simp add: rd_kafka_toppar_purge_queues_def store_only_toppar_upd)

lemma store_only_dr: "store_only rk (rd_kafka_dr_msgq rk q e)"
  by (simp add: rd_kafka_dr_msgq_def store_only_def kept_fields_def)

lemma store_only_new: "store_only rk (snd (rd_kafka_toppar_new rk p))"
  by (simp add: rd_kafka_toppar_new_def store_only_def kept_fields_def)

lemma store_only_partitioner: "store_only rk (snd (rd_kafka_msg_partitioner route rk rkt rkm))"
  by (simp add: rd_kafka_msg_partitioner_def store_only_refl store_only_toppar_upd
      split: option.splits)

lemma store_only_leader_update:
  "store_only rk (snd (rd_kafka_topic_leader_update rk rkt p l b))"
  by (simp add: rd_kafka_topic_leader_update_def Let_def store_only_refl store_only_delegate
      split: option.splits)

lemma store_only_fold:
  assumes "\<And>x r. store_only r (f x r)"
  shows "store_only rk (fold f xs rk)"
proof (induction xs arbitrary: rk)
  case Nil
  show ?case by (simp add: store_only_refl)
next
  case (Cons x xs)
  have "store_only rk (f x rk)" by (rule assms)
  moreover have "store_only (f x rk) (fold f xs (f x rk))" by (rule Cons.IH)
  ultimately show ?case by (simp add: store_only_trans [of rk "f x rk"])
qed

lemma store_only_propagate: "store_only rk (rd_kafka_topic_propagate_notexists rk rkt)"
  unfolding rd_kafka_topic_propagate_notexists_def
  by (simp add: store_only_refl store_only_fold store_only_enq_error)

lemma store_only_leaders:
  "store_only rk (snd (snd (metadata_update_leaders rkt l rk upd ql)))"
proof (induction l arbitrary: rk upd ql)
  case Nil
  show ?case by (simp add: store_only_refl)
next
  case (Cons x l)
  obtain mdp b where x: "x = (mdp, b)" by (cases x)
  let ?rk1 = "snd (rd_kafka_topic_leader_update rk rkt (md_id mdp) (md_leader mdp) b)"
  have 1: "store_only rk ?rk1" by (rule store_only_leader_update)
  show ?case
    unfolding x
    by (simp add: split_beta Let_def store_only_trans [OF 1 Cons.IH])
qed

lemma store_only_uas_loop:
  "store_only rk (snd (assign_uas_loop route rkt uas rk failed))"
proof (induction uas arbitrary: rk failed)
  case Nil
  show ?case by (simp add: store_only_refl)
next
  case (Cons m uas)
  let ?rk1 = "snd (rd_kafka_msg_partitioner route rk rkt m)"
  have 1: "store_only rk ?rk1" by (rule store_only_partitioner)
  show ?case
    by (simp add: split_beta Let_def Cons.IH store_only_trans [OF 1 Cons.IH])
qed

lemma store_only_assign_uas: "store_only rk (rd_kafka_topic_assign_uas route rk rkt)"
proof -
  have a: "\<And>u. store_only rk (toppar_upd rk u (\<lambda>t. t\<lparr>rktp_msgq := []\<rparr>))"
    by (rule store_only_toppar_upd)
  show ?thesis
    unfolding rd_kafka_topic_assign_uas_def
    by (auto simp: store_only_refl Let_def split_beta split: option.splits
        intro: store_only_trans [OF a store_only_uas_loop]
          store_only_trans [OF store_only_trans [OF a store_only_uas_loop] store_only_dr])
qed

lemma desp_only_refl: "desp_only rkt rkt"
  by (simp add: desp_only_def)

lemma desp_only_trans: "desp_only a b \<Longrightarrow> desp_only b c \<Longrightarrow> desp_only a c"
  by (simp add: desp_only_def)

lemma desp_only_unlink: "desp_only rkt (rd_kafka_toppar_desired_unlink rkt a)"
  by (simp add: desp_only_def topic_kept_def rd_kafka_toppar_desired_unlink_def)

lemma desp_only_link: "desp_only rkt (rd_kafka_toppar_desired_link rkt a)"
  by (simp add: desp_only_def topic_kept_def rd_kafka_toppar_desired_link_def)

lemma fill_frame:
  "store_only rk (snd (snd (partition_cnt_update_fill is rkt rk acc))) \<and>
   desp_only rkt (fst (snd (partition_cnt_update_fill is rkt rk acc)))"
proof (induction "is" arbitrary: rkt rk acc)
  case Nil
  show ?case by (simp add: store_only_refl desp_only_refl)
next
  case (Cons i "is")
  have step: "\<exists>rkt1 rk1 acc1. partition_cnt_update_fill (i # is) rkt rk acc =
                partition_cnt_update_fill is rkt1 rk1 acc1 \<and>
              store_only rk rk1 \<and> desp_only rkt rkt1"
  proof (cases "int i \<ge> rkt_partition_cnt rkt")
    case False
    then show ?thesis
      by (intro exI [of _ rkt] exI [of _ rk] exI [of _ "acc @ [rkt_p rkt ! i]"])
        (simp add: store_only_refl desp_only_refl)
  next
    case True
    show ?thesis
    proof (cases "rd_kafka_toppar_desired_get rk rkt (int i)")
      case None
      with True show ?thesis
        by (intro exI [of _ rkt] exI [of _ "snd (rd_kafka_toppar_new rk (int i))"]
            exI [of _ "acc @ [fst (rd_kafka_toppar_new rk (int i))]"])
          (simp add: split_beta store_only_new desp_only_refl)
    next
      case (Some a)
      show ?thesis
      proof (cases "RD_KAFKA_TOPPAR_F_UNKNOWN \<in> rktp_flags (rk_toppars rk a)")
        case f: True
        with True Some show ?thesis
          by (intro exI [of _ "rd_kafka_toppar_desired_unlink rkt a"]
              exI [of _ "toppar_upd rk a
                        (\<lambda>t. t\<lparr>rktp_flags := rktp_flags t - {RD_KAFKA_TOPPAR_F_UNKNOWN}\<rparr>)"]
              exI [of _ "acc @ [a]"])
            (simp add: store_only_toppar_upd desp_only_unlink)
      next
        case f: False
        with True Some show ?thesis
          by (intro exI [of _ rkt] exI [of _ rk] exI [of _ "acc @ [a]"])
            (simp add: store_only_refl desp_only_refl)
      qed
    qed
  qed
  then obtain rkt1 rk1 acc1 where
    eq: "partition_cnt_update_fill (i # is) rkt rk acc =
           partition_cnt_update_fill is rkt1 rk1 acc1"
    and f: "store_only rk rk1" "desp_only rkt rkt1"
    by blast
  show ?case
    unfolding eq
    using Cons.IH [where rkt=rkt1 and rk=rk1 and acc=acc1] f
    by (blast intro: store_only_trans desp_only_trans)
qed

lemma remove_step:
  "partition_cnt_update_remove (i # is) ua rkt rk = None \<or>
   (\<exists>rkt1 rk1. partition_cnt_update_remove (i # is) ua rkt rk =
                  partition_cnt_update_remove is ua rkt1 rk1 \<and>
                store_only rk rk1 \<and> desp_only rkt rkt1)"
proof -
  define a where "a = rkt_p rkt ! i"
  define rk1 where "rk1 = rd_kafka_toppar_broker_delegate rk a None"
  define rk2 where "rk2 = (case ua of
                   Some u \<Rightarrow> rd_kafka_toppar_move_msgs rk1 u a
                 | None \<Rightarrow>
                     toppar_upd
                       (rd_kafka_dr_msgq rk1 (rktp_msgq (rk_toppars rk1 a))
                          RD_KAFKA_RESP_ERR__UNKNOWN_PARTITION)
                       a (\<lambda>t. t\<lparr>rktp_msgq := []\<rparr>))"
  define rk3 where "rk3 = rd_kafka_toppar_purge_queues rk2 a"
  define rk4 where "rk4 = toppar_upd rk3 a
                           (\<lambda>t. t\<lparr>rktp_flags :=
                                    insert RD_KAFKA_TOPPAR_F_UNKNOWN (rktp_flags t)\<rparr>)"
  define rk5 where "rk5 = (if \<not> rd_kafka_terminating rk4
                          then rd_kafka_toppar_enq_error rk4 a
                                 RD_KAFKA_RESP_ERR__UNKNOWN_PARTITION
                          else rk4)"
  have s1: "store_only rk rk1" unfolding rk1_def by (rule store_only_delegate)
  have s2: "store_only rk1 rk2"
    unfolding rk2_def
    by (cases ua) (simp_all add: store_only_move_msgs
        store_only_trans [OF store_only_dr store_only_toppar_upd])
  have s3: "store_only rk2 rk3" unfolding rk3_def by (rule store_only_purge)
  have s4: "store_only rk3 rk4" unfolding rk4_def by (rule store_only_toppar_upd)
  have s5: "store_only rk4 rk5"
    unfolding rk5_def by (simp add: store_only_refl store_only_enq_error)
  have s13: "store_only rk rk3" using s1 s2 s3 by (blast intro: store_only_trans)
  have s15: "store_only rk rk5" using s13 s4 s5 by (blast intro: store_only_trans)
  have unf: "partition_cnt_update_remove (i # is) ua rkt rk =
     (if RD_KAFKA_TOPPAR_F_DESIRED \<in> rktp_flags (rk_toppars rk3 a) then
           (if RD_KAFKA_TOPPAR_F_UNKNOWN \<in> rktp_flags (rk_toppars rk3 a) then None
            else partition_cnt_update_remove is ua (rd_kafka_toppar_desired_link rkt a) rk5)
         else partition_cnt_update_remove is ua rkt rk3)"
    unfolding a_def rk1_def rk2_def rk3_def rk4_def rk5_def
    by (simp only: partition_cnt_update_remove.simps Let_def)
  show ?thesis
    unfolding unf
    using s13 s15 desp_only_link [of rkt a] desp_only_refl [of rkt]
    by auto
qed

lemma remove_frame:
  "partition_cnt_update_remove is ua rkt rk = Some (rkt', rk') \<Longrightarrow>
   store_only rk rk' \<and> desp_only rkt rkt'"
proof (induction "is" arbitrary: rkt rk)
  case Nil
  then show ?case by (simp add: store_only_refl desp_only_refl)
next
  case (Cons i "is")
  from remove_step [of i "is" ua rkt rk] Cons.prems
  obtain rkt1 rk1 where
    eq: "partition_cnt_update_remove (i # is) ua rkt rk =
           partition_cnt_update_remove is ua rkt1 rk1"
    and f: "store_only rk rk1" "desp_only rkt rkt1"
    by auto
  from Cons.prems eq have "partition_cnt_update_remove is ua rkt1 rk1 = Some (rkt', rk')"
    by simp
  from Cons.IH [OF this] f show ?case
    by (blast intro: store_only_trans desp_only_trans)
qed

lemma cnt_update_frame:
  assumes "rd_kafka_topic_partition_cnt_update rk rkt n = Some (r, rkt', rk')"
  shows "store_only rk rk' \<and> topic_kept rkt' = topic_kept rkt \<and> rkt_partition_cnt rkt' = n"
proof (cases "rkt_partition_cnt rkt = n")
  case True
  with assms show ?thesis
    by (simp add: rd_kafka_topic_partition_cnt_update_def store_only_refl)
next
  case False
  define res where "res = partition_cnt_update_fill [0 ..< nat n] rkt rk []"
  define rkt1 where "rkt1 = fst (snd res)"
  define rk1 where "rk1 = snd (snd res)"
  define rk2 where "rk2 = fold (\<lambda>a r. rd_kafka_toppar_enq_error r a
                                  RD_KAFKA_RESP_ERR__UNKNOWN_PARTITION)
                     (rkt_desp rkt1) rk1"
  have f1: "store_only rk rk1" "desp_only rkt rkt1"
    using fill_frame [of rk "[0 ..< nat n]" rkt "[]"] by (simp_all add: rk1_def rkt1_def res_def)
  have f2: "store_only rk1 rk2"
    unfolding rk2_def by (rule store_only_fold) (rule store_only_enq_error)
  from assms False obtain rkt2 rk3 where
    rem: "partition_cnt_update_remove
            [rd_list_foreach_idx (rkt_desp rkt1) ..< nat (rkt_partition_cnt rkt1)]
            (rd_kafka_toppar_get rkt1 RD_KAFKA_PARTITION_UA False) rkt1 rk2 = Some (rkt2, rk3)"
    and out: "rkt' = rkt2\<lparr>rkt_p := fst res, rkt_partition_cnt := n\<rparr>" "rk' = rk3"
    by (auto simp: rd_kafka_topic_partition_cnt_update_def Let_def split_beta
        res_def rkt1_def rk1_def rk2_def split: option.splits)
  from remove_frame [OF rem] have f3: "store_only rk2 rk3" "desp_only rkt1 rkt2" by simp_all
  have "store_only rk rk'" using f1(1) f2 f3(1) out(2) by (blast intro: store_only_trans)
  moreover have "topic_kept rkt' = topic_kept rkt"
    using f1(2) f3(2) by (simp add: out desp_only_def topic_kept_def)
  ultimately show ?thesis by (simp add: out)
qed

lemma set_state_kept:
  "rkt_state (rd_kafka_topic_set_state rkt s) = s \<and>
   rkt_topic (rd_kafka_topic_set_state rkt s) = rkt_topic rkt \<and>
   rkt_refcnt (rd_kafka_topic_set_state rkt s) = rkt_refcnt rkt \<and>
   rkt_ua (rd_kafka_topic_set_state rkt s) = rkt_ua rkt \<and>
   rkt_conf (rd_kafka_topic_set_state rkt s) = rkt_conf rkt \<and>
   rkt_ts_metadata (rd_kafka_topic_set_state rkt s) = rkt_ts_metadata rkt \<and>
   rkt_p (rd_kafka_topic_set_state rkt s) = rkt_p rkt \<and>
   rkt_desp (rd_kafka_topic_set_state rkt s) = rkt_desp rkt \<and>
   rkt_partition_cnt (rd_kafka_topic_set_state rkt s) = rkt_partition_cnt rkt"
  by (simp add: rd_kafka_topic_set_state_def)

lemma locked_unfold:
  "metadata_update_locked route rk0 rkt mdt pbs =
     (case (if md_err mdt = RD_KAFKA_RESP_ERR_NO_ERROR
            then rd_kafka_topic_partition_cnt_update rk0 (locked_rkt2 rk0 rkt mdt)
                   (md_partition_cnt mdt)
            else Some (0, locked_rkt2 rk0 rkt mdt, rk0)) of
        None \<Rightarrow> None
      | Some (upd0, rkt3, rk1) \<Rightarrow>
          Some (locked_tail route mdt pbs (rkt_state rkt) upd0 rkt3 rk1))"
proof -
  have r2: "(if md_err mdt = RD_KAFKA_RESP_ERR_UNKNOWN_TOPIC_OR_PART \<or>
                     md_err mdt = RD_KAFKA_RESP_ERR_UNKNOWN
                  then rd_kafka_topic_set_state (rkt\<lparr>rkt_ts_metadata := rd_clock rk0\<rparr>)
                         RD_KAFKA_TOPIC_S_NOTEXISTS
                  else if md_partition_cnt mdt > 0
                  then rd_kafka_topic_set_state (rkt\<lparr>rkt_ts_metadata := rd_clock rk0\<rparr>)
                         RD_KAFKA_TOPIC_S_EXISTS
                  else rkt\<lparr>rkt_ts_metadata := rd_clock rk0\<rparr>) = locked_rkt2 rk0 rkt mdt"
    by (simp add: locked_rkt2_def md_state_def rd_kafka_topic_set_state_def)
  show ?thesis
    unfolding metadata_update_locked_def Let_def r2 locked_tail_def
    by (simp add: split_beta split: option.splits)
qed

lemma locked_tail_frame:
  "locked_tail route mdt pbs old upd0 rkt3 rk1 = (upd, ql, rkt', rk') \<Longrightarrow>
   rkt' = rkt3 \<and> store_only rk1 rk'"
proof -
  assume a: "locked_tail route mdt pbs old upd0 rkt3 rk1 = (upd, ql, rkt', rk')"
  define rk2 where "rk2 = snd (snd (metadata_update_leaders rkt3 (zip (md_partitions mdt) pbs) rk1 upd0 False))"
  define rk3 where "rk3 = (if md_err mdt \<noteq> RD_KAFKA_RESP_ERR_NO_ERROR \<and>
                             rkt_partition_cnt rkt3 \<noteq> 0
                          then fold (\<lambda>j r. rd_kafka_toppar_broker_delegate r
                                             (rkt_p rkt3 ! j) None)
                                 [0 ..< nat (rkt_partition_cnt rkt3)] rk2
                          else rk2)"
  define rk4 where "rk4 = (if upd > 0 \<or> rkt_state rkt3 = RD_KAFKA_TOPIC_S_NOTEXISTS
                          then rd_kafka_topic_assign_uas route rk3 rkt3
                          else rk3)"
  define rk5 where "rk5 = (if old \<noteq> rkt_state rkt3 \<and>
                             rkt_state rkt3 = RD_KAFKA_TOPIC_S_NOTEXISTS
                          then rd_kafka_topic_propagate_notexists rk4 rkt3
                          else rk4)"
  from a have out: "rkt' = rkt3" "rk' = rk5"
    "upd = fst (metadata_update_leaders rkt3 (zip (md_partitions mdt) pbs) rk1 upd0 False)"
    by (auto simp: locked_tail_def Let_def split_beta rk2_def rk3_def rk4_def rk5_def)
  have s2: "store_only rk1 rk2" unfolding rk2_def by (rule store_only_leaders)
  have s3: "store_only rk2 rk3"
    unfolding rk3_def by (simp add: store_only_refl store_only_fold store_only_delegate)
  have s4: "store_only rk3 rk4"
    unfolding rk4_def by (simp add: store_only_refl store_only_assign_uas)
  have s5: "store_only rk4 rk5"
    unfolding rk5_def by (simp add: store_only_refl store_only_propagate)
  show ?thesis using out s2 s3 s4 s5 by (blast intro: store_only_trans)
qed

lemma locked_frame:
  assumes "metadata_update_locked route rk rkt mdt pbs = Some (upd, ql, rkt', rk')"
  shows "store_only rk rk' \<and> rkt_topic rkt' = rkt_topic rkt \<and>
         rkt_refcnt rkt' = rkt_refcnt rkt \<and> rkt_ua rkt' = rkt_ua rkt \<and>
         rkt_conf rkt' = rkt_conf rkt \<and> rkt_ts_metadata rkt' = rd_clock rk \<and>
         rkt_state rkt' = md_state mdt (rkt_state rkt)"
proof (cases "md_err mdt = RD_KAFKA_RESP_ERR_NO_ERROR")
  case False
  with assms have "locked_tail route mdt pbs (rkt_state rkt) 0 (locked_rkt2 rk rkt mdt) rk =
                     (upd, ql, rkt', rk')"
    by (simp add: locked_unfold)
  from locked_tail_frame [OF this] show ?thesis by (simp add: locked_rkt2_def)
next
  case True
  with assms obtain upd0 rkt3 rk1 where
    c: "rd_kafka_topic_partition_cnt_update rk (locked_rkt2 rk rkt mdt) (md_partition_cnt mdt) =
          Some (upd0, rkt3, rk1)"
    and t: "locked_tail route mdt pbs (rkt_state rkt) upd0 rkt3 rk1 = (upd, ql, rkt', rk')"
    by (auto simp: locked_unfold split: option.splits)
  from cnt_update_frame [OF c] have
    f: "store_only rk rk1" "topic_kept rkt3 = topic_kept (locked_rkt2 rk rkt mdt)" by simp_all
  from locked_tail_frame [OF t] f show ?thesis
    by (auto simp: topic_kept_def locked_rkt2_def intro: store_only_trans)
qed

lemma partbrokers_cong:
  "rk_brokers rk' = rk_brokers rk \<Longrightarrow>
   metadata_update_partbrokers rk' mdt = metadata_update_partbrokers rk mdt"
  by (simp add: metadata_update_partbrokers_def rd_kafka_broker_find_by_nodeid_def)

lemma metadata_update_applied:
  assumes nb: "\<not> topic_blacklisted rk (md_topic mdt)"
    and nl: "\<not> (md_err mdt = RD_KAFKA_RESP_ERR_LEADER_NOT_AVAILABLE \<and> md_partition_cnt mdt = 0)"
    and ix: "topic_index (c_str (md_topic mdt)) (rk_topics rk) = Some i"
    and nt: "rk_terminate rk = 0"
    and rc: "rkt_refcnt (rk_topics rk ! i) > 0"
    and lk: "metadata_update_locked route (rd_kafka_topic_keep rk i)
               (rk_topics (rd_kafka_topic_keep rk i) ! i) mdt
               (metadata_update_partbrokers rk mdt) = Some (upd, ql, rkt3, rk5)"
  shows "rd_kafka_topic_metadata_update route rk mdt =
           Some (upd, rk5\<lparr>rk_topics := (rk_topics rk)
                   [i := rkt3\<lparr>rkt_refcnt := rkt_refcnt (rk_topics rk ! i)\<rparr>],
                 rk_leader_queries :=
                   (if ql then rk_leader_queries rk @ [rkt_topic rkt3]
                    else rk_leader_queries rk)\<rparr>)"
proof -
  let ?rk0 = "rd_kafka_topic_keep rk i"
  have i: "i < length (rk_topics rk)" using ix by (simp add: topic_index_SomeD)
  have pb: "metadata_update_partbrokers ?rk0 mdt = metadata_update_partbrokers rk mdt"
    by (rule partbrokers_cong) (simp add: rd_kafka_topic_keep_def)
  have t0: "rk_terminate ?rk0 = 0" using nt by (simp add: rd_kafka_topic_keep_def)
  note f = locked_frame [OF lk]
  have tp: "rk_topics rk5 = rk_topics ?rk0" "rk_leader_queries rk5 = rk_leader_queries rk"
    using f by (simp_all add: store_only_def kept_fields_def rd_kafka_topic_keep_def)
  have rc3: "rkt_refcnt rkt3 = rkt_refcnt (rk_topics rk ! i) + 1"
    using f i by (simp add: rd_kafka_topic_keep_def)
  define rk6 where "rk6 = topic_store rk5 i rkt3"
  define rk7 where "rk7 = (if ql then rd_kafka_topic_leader_query rk6 rkt3 else rk6)"
  have t7: "rk_topics rk7 = (rk_topics rk)[i := rkt3]"
    using tp by (simp add: rk7_def rk6_def topic_store_def rd_kafka_topic_leader_query_def
        rd_kafka_topic_keep_def)
  have d: "rd_kafka_topic_destroy0 rk7 i =
             Some (rk7\<lparr>rk_topics := (rk_topics rk)
                    [i := rkt3\<lparr>rkt_refcnt := rkt_refcnt (rk_topics rk ! i)\<rparr>]\<rparr>)"
    using i rc rc3 by (simp add: rd_kafka_topic_destroy0_def Let_def t7)
  have r7: "rk7\<lparr>rk_topics := (rk_topics rk)
                    [i := rkt3\<lparr>rkt_refcnt := rkt_refcnt (rk_topics rk ! i)\<rparr>]\<rparr> =
            rk5\<lparr>rk_topics := (rk_topics rk)
                   [i := rkt3\<lparr>rkt_refcnt := rkt_refcnt (rk_topics rk ! i)\<rparr>],
                 rk_leader_queries :=
                   (if ql then rk_leader_queries rk @ [rkt_topic rkt3]
                    else rk_leader_queries rk)\<rparr>"
    using tp(2) by (simp add: rk7_def rk6_def topic_store_def rd_kafka_topic_leader_query_def)
  have "rd_kafka_topic_metadata_update route rk mdt =
          map_option (\<lambda>r. (upd, r)) (rd_kafka_topic_destroy0 rk7 i)"
    unfolding rd_kafka_topic_metadata_update_def rd_kafka_topic_find_def
      if_not_P [OF nb] if_not_P [OF nl] ix
    using t0 lk by (simp add: pb Let_def rk6_def rk7_def)
  then show ?thesis by (simp add: d r7)
qed

lemma metadata_update_aborts:
  assumes nb: "\<not> topic_blacklisted rk (md_topic mdt)"
    and nl: "\<not> (md_err mdt = RD_KAFKA_RESP_ERR_LEADER_NOT_AVAILABLE \<and> md_partition_cnt mdt = 0)"
    and ix: "topic_index (c_str (md_topic mdt)) (rk_topics rk) = Some i"
    and nt: "rk_terminate rk = 0"
    and lk: "metadata_update_locked route (rd_kafka_topic_keep rk i)
               (rk_topics (rd_kafka_topic_keep rk i) ! i) mdt
               (metadata_update_partbrokers rk mdt) = None"
  shows "rd_kafka_topic_metadata_update route rk mdt = None"
proof -
  let ?rk0 = "rd_kafka_topic_keep rk i"
  have pb: "metadata_update_partbrokers ?rk0 mdt = metadata_update_partbrokers rk mdt"
    by (rule partbrokers_cong) (simp add: rd_kafka_topic_keep_def)
  have t0: "rk_terminate ?rk0 = 0" using nt by (simp add: rd_kafka_topic_keep_def)
  show ?thesis
    unfolding rd_kafka_topic_metadata_update_def rd_kafka_topic_find_def
      if_not_P [OF nb] if_not_P [OF nl] ix
    using t0 lk by (simp add: pb)
qed

lemma keep_nth:
  "i < length (rk_topics rk) \<Longrightarrow>
   rk_topics (rd_kafka_topic_keep rk i) ! i =
     (rk_topics rk ! i)\<lparr>rkt_refcnt := rkt_refcnt (rk_topics rk ! i) + 1\<rparr>"
  by (simp add: rd_kafka_topic_keep_def)

lemma metadata_update_unknown_topic:
  assumes nb: "\<not> topic_blacklisted rk (md_topic mdt)"
    and er: "md_err mdt = RD_KAFKA_RESP_ERR_UNKNOWN_TOPIC_OR_PART \<or>
             md_err mdt = RD_KAFKA_RESP_ERR_UNKNOWN"
    and ix: "topic_index (c_str (md_topic mdt)) (rk_topics rk) = Some i"
    and nt: "rk_terminate rk = 0"
    and rc: "rkt_refcnt (rk_topics rk ! i) > 0"
  shows "\<exists>upd rk'. rd_kafka_topic_metadata_update route rk mdt = Some (upd, rk') \<and>
           rkt_state (rk_topics rk' ! i) = RD_KAFKA_TOPIC_S_NOTEXISTS \<and>
           rkt_partition_cnt (rk_topics rk' ! i) = rkt_partition_cnt (rk_topics rk ! i) \<and>
           rkt_p (rk_topics rk' ! i) = rkt_p (rk_topics rk ! i)"
proof -
  let ?rk0 = "rd_kafka_topic_keep rk i"
  let ?rkt = "rk_topics ?rk0 ! i"
  let ?pbs = "metadata_update_partbrokers rk mdt"
  have i: "i < length (rk_topics rk)" using ix by (simp add: topic_index_SomeD)
  have ne: "md_err mdt \<noteq> RD_KAFKA_RESP_ERR_NO_ERROR"
    "\<not> (md_err mdt = RD_KAFKA_RESP_ERR_LEADER_NOT_AVAILABLE \<and> md_partition_cnt mdt = 0)"
    using er by auto
  obtain upd ql rkt3 rk5 where
    t: "locked_tail route mdt ?pbs (rkt_state ?rkt) 0 (locked_rkt2 ?rk0 ?rkt mdt) ?rk0 =
          (upd, ql, rkt3, rk5)"
    by (metis prod_cases4)
  have lk: "metadata_update_locked route ?rk0 ?rkt mdt ?pbs = Some (upd, ql, rkt3, rk5)"
    using ne(1) t by (simp add: locked_unfold)
  have r3: "rkt3 = locked_rkt2 ?rk0 ?rkt mdt" using locked_tail_frame [OF t] by simp
  have st: "rkt_state rkt3 = RD_KAFKA_TOPIC_S_NOTEXISTS"
    using er by (auto simp: r3 locked_rkt2_def md_state_def)
  have cn: "rkt_partition_cnt rkt3 = rkt_partition_cnt (rk_topics rk ! i)"
    "rkt_p rkt3 = rkt_p (rk_topics rk ! i)"
    using i by (simp_all add: r3 locked_rkt2_def keep_nth)
  show ?thesis
    using metadata_update_applied [OF nb ne(2) ix nt rc lk] i st cn by simp
qed

lemma ex_client_facts:
  "\<not> topic_blacklisted (ex_client ty t) (md_topic (ex_mdt e ps))"
  "topic_index (c_str (md_topic (ex_mdt e ps))) (rk_topics (ex_client ty t)) = Some 0"
  "rk_terminate (ex_client ty t) = t"
  "rkt_refcnt (rk_topics (ex_client ty t) ! 0) > 0"
  "rk_topics (ex_client ty t) ! 0 = ex_orders"
  "md_err (ex_mdt e ps) = e"
  "md_partitions (ex_mdt e ps) = ps"
  "rk_type (ex_client ty t) = ty"
  by (simp_all add: ex_client_def ex_mdt_def ex_orders_def topic_blacklisted_def c_str_def)

text \<open>
  Claim C1 does not hold of the code. On the example consumer, whose topic \<open>orders\<close> is
  in state \<open>Exists\<close> with two partitions, a record with the error \<open>UnknownTopicOrPart\<close>
  leaves the topic in state \<open>NotExists\<close> with a partition count of 2: the reconciler is
  only called for records without an error. \<^verbatim>\<open>rd_kafka_topic_metadata_none\<close>, the
  sibling entry point, does reset the count (lemma \<open>metadata_none_partition_cnt\<close>).
\<close>

theorem metadata_update_notexists_keeps_partition_cnt:
  "\<exists>upd rk'.
     rd_kafka_topic_metadata_update ex_route (ex_client RD_KAFKA_CONSUMER 0)
        (ex_mdt RD_KAFKA_RESP_ERR_UNKNOWN_TOPIC_OR_PART []) = Some (upd, rk') \<and>
     rkt_state (rk_topics rk' ! 0) = RD_KAFKA_TOPIC_S_NOTEXISTS \<and>
     rkt_partition_cnt (rk_topics rk' ! 0) = 2"
proof -
  let ?rk = "ex_client RD_KAFKA_CONSUMER 0"
  let ?mdt = "ex_mdt RD_KAFKA_RESP_ERR_UNKNOWN_TOPIC_OR_PART []"
  have nb: "\<not> topic_blacklisted ?rk (md_topic ?mdt)" by (rule ex_client_facts)
  have er: "md_err ?mdt = RD_KAFKA_RESP_ERR_UNKNOWN_TOPIC_OR_PART \<or>
            md_err ?mdt = RD_KAFKA_RESP_ERR_UNKNOWN"
    by (simp add: ex_client_facts)
  have ix: "topic_index (c_str (md_topic ?mdt)) (rk_topics ?rk) = Some 0"
    by (rule ex_client_facts)
  have nt: "rk_terminate ?rk = 0" by (rule ex_client_facts)
  have rc: "rkt_refcnt (rk_topics ?rk ! 0) > 0" by (rule ex_client_facts)
  have c: "rkt_partition_cnt (rk_topics ?rk ! 0) = 2"
    by (simp add: ex_client_facts ex_orders_def)
  from metadata_update_unknown_topic [OF nb er ix nt rc, of ex_route]
  show ?thesis unfolding c by blast
qed

lemma metadata_none_partition_cnt:
  assumes "rd_kafka_topic_metadata_none route rk i = Some rk'" "rk_terminate rk = 0"
    "i < length (rk_topics rk)"
  shows "rkt_state (rk_topics rk' ! i) = RD_KAFKA_TOPIC_S_NOTEXISTS \<and>
         rkt_partition_cnt (rk_topics rk' ! i) = 0"
proof -
  define rkt2 where "rkt2 = rd_kafka_topic_set_state
    ((rk_topics rk ! i)\<lparr>rkt_ts_metadata := rd_clock rk\<rparr>) RD_KAFKA_TOPIC_S_NOTEXISTS"
  from assms(1,2) obtain r rkt3 rk1 where
    c: "rd_kafka_topic_partition_cnt_update rk rkt2 0 = Some (r, rkt3, rk1)"
    and out: "rk' = topic_store (rd_kafka_topic_propagate_notexists
                (rd_kafka_topic_assign_uas route rk1 rkt3) rkt3) i rkt3"
    by (auto simp: rd_kafka_topic_metadata_none_def Let_def rkt2_def split: option.splits)
  note f = cnt_update_frame [OF c]
  have "store_only rk (rd_kafka_topic_propagate_notexists
                (rd_kafka_topic_assign_uas route rk1 rkt3) rkt3)"
    using f store_only_assign_uas store_only_propagate by (blast intro: store_only_trans)
  then have "rk_topics rk' ! i = rkt3"
    using assms(3) by (simp add: out topic_store_def store_only_def kept_fields_def)
  moreover have "rkt_state rkt3 = RD_KAFKA_TOPIC_S_NOTEXISTS"
    using f by (simp add: topic_kept_def rkt2_def set_state_kept)
  ultimately show ?thesis using f by simp
qed

subsection \<open>The reconciler on a well-formed topic\<close>

lemma dr_ext_refl: "dr_ext e rk rk"
  unfolding dr_ext_def by (rule exI [of _ "[]"]) simp

lemma dr_ext_eq: "rk_dr rk' = rk_dr rk \<Longrightarrow> dr_ext e rk rk'"
  unfolding dr_ext_def by (rule exI [of _ "[]"]) simp

lemma dr_ext_trans:
  assumes "dr_ext e a b" "dr_ext e b c"
  shows "dr_ext e a c"
proof -
  from assms obtain ms ns where
    "rk_dr b = rk_dr a @ map (\<lambda>m. (m, e)) ms" "rk_dr c = rk_dr b @ map (\<lambda>m. (m, e)) ns"
    unfolding dr_ext_def by blast
  then have "rk_dr c = rk_dr a @ map (\<lambda>m. (m, e)) (ms @ ns)" by simp
  then show ?thesis unfolding dr_ext_def by blast
qed

lemma remove_step_ok:
  assumes u: "RD_KAFKA_TOPPAR_F_UNKNOWN \<notin> rktp_flags (rk_toppars rk (rkt_p rkt ! i))"
  shows "\<exists>rkt1 rk1. partition_cnt_update_remove (i # is) ua rkt rk =
                       partition_cnt_update_remove is ua rkt1 rk1 \<and>
           rkt_p rkt1 = rkt_p rkt \<and>
           (\<forall>b. b \<noteq> rkt_p rkt ! i \<longrightarrow>
                rktp_flags (rk_toppars rk1 b) = rktp_flags (rk_toppars rk b)) \<and>
           dr_ext RD_KAFKA_RESP_ERR__UNKNOWN_PARTITION rk rk1"
proof -
  define a where "a = rkt_p rkt ! i"
  define rk1 where "rk1 = rd_kafka_toppar_broker_delegate rk a None"
  define rk2 where "rk2 = (case ua of
                   Some u \<Rightarrow> rd_kafka_toppar_move_msgs rk1 u a
                 | None \<Rightarrow>
                     toppar_upd
                       (rd_kafka_dr_msgq rk1 (rktp_msgq (rk_toppars rk1 a))
                          RD_KAFKA_RESP_ERR__UNKNOWN_PARTITION)
                       a (\<lambda>t. t\<lparr>rktp_msgq := []\<rparr>))"
  define rk3 where "rk3 = rd_kafka_toppar_purge_queues rk2 a"
  define rk4 where "rk4 = toppar_upd rk3 a
                           (\<lambda>t. t\<lparr>rktp_flags :=
                                    insert RD_KAFKA_TOPPAR_F_UNKNOWN (rktp_flags t)\<rparr>)"
  define rk5 where "rk5 = (if \<not> rd_kafka_terminating rk4
                          then rd_kafka_toppar_enq_error rk4 a
                                 RD_KAFKA_RESP_ERR__UNKNOWN_PARTITION
                          else rk4)"
  have unf: "partition_cnt_update_remove (i # is) ua rkt rk =
     (if RD_KAFKA_TOPPAR_F_DESIRED \<in> rktp_flags (rk_toppars rk3 a) then
           (if RD_KAFKA_TOPPAR_F_UNKNOWN \<in> rktp_flags (rk_toppars rk3 a) then None
            else partition_cnt_update_remove is ua (rd_kafka_toppar_desired_link rkt a) rk5)
         else partition_cnt_update_remove is ua rkt rk3)"
    unfolding a_def rk1_def rk2_def rk3_def rk4_def rk5_def
    by (simp only: partition_cnt_update_remove.simps Let_def)
  have fl1: "\<And>b. rktp_flags (rk_toppars rk1 b) = rktp_flags (rk_toppars rk b)"
    by (simp add: rk1_def rd_kafka_toppar_broker_delegate_def toppar_upd_def)
  have fl2: "\<And>b. rktp_flags (rk_toppars rk2 b) = rktp_flags (rk_toppars rk1 b)"
    by (cases ua)
      (simp_all add: rk2_def rd_kafka_toppar_move_msgs_def rd_kafka_dr_msgq_def
        toppar_upd_def Let_def)
  have fl3: "\<And>b. rktp_flags (rk_toppars rk3 b) = rktp_flags (rk_toppars rk b)"
    by (simp add: rk3_def rd_kafka_toppar_purge_queues_def toppar_upd_def fl1 fl2)
  have fl5: "\<And>b. b \<noteq> a \<Longrightarrow> rktp_flags (rk_toppars rk5 b) = rktp_flags (rk_toppars rk b)"
    by (simp add: rk5_def rk4_def rd_kafka_toppar_enq_error_def toppar_upd_def fl3)
  have dr1: "rk_dr rk1 = rk_dr rk"
    by (simp add: rk1_def rd_kafka_toppar_broker_delegate_def toppar_upd_def)
  have dr2: "dr_ext RD_KAFKA_RESP_ERR__UNKNOWN_PARTITION rk1 rk2"
  proof (cases ua)
    case None
    then show ?thesis
      unfolding dr_ext_def rk2_def
      by (intro exI [of _ "rktp_msgq (rk_toppars rk1 a)"])
        (simp add: rd_kafka_dr_msgq_def toppar_upd_def)
  next
    case (Some u)
    then show ?thesis
      by (intro dr_ext_eq)
        (simp add: rk2_def rd_kafka_toppar_move_msgs_def toppar_upd_def Let_def)
  qed
  have dr3: "rk_dr rk3 = rk_dr rk2"
    by (simp add: rk3_def rd_kafka_toppar_purge_queues_def toppar_upd_def)
  have dr5: "rk_dr rk5 = rk_dr rk3"
    by (simp add: rk5_def rk4_def rd_kafka_toppar_enq_error_def toppar_upd_def)
  have e3: "dr_ext RD_KAFKA_RESP_ERR__UNKNOWN_PARTITION rk rk3"
    using dr2 by (simp add: dr_ext_def dr1 dr3)
  have e5: "dr_ext RD_KAFKA_RESP_ERR__UNKNOWN_PARTITION rk rk5"
    using e3 by (simp add: dr_ext_def dr5)
  have nu: "RD_KAFKA_TOPPAR_F_UNKNOWN \<notin> rktp_flags (rk_toppars rk3 a)"
    using u by (simp add: fl3 a_def)
  show ?thesis
  proof (cases "RD_KAFKA_TOPPAR_F_DESIRED \<in> rktp_flags (rk_toppars rk3 a)")
    case True
    have "rkt_p (rd_kafka_toppar_desired_link rkt a) = rkt_p rkt"
      by (simp add: rd_kafka_toppar_desired_link_def)
    with True nu fl5 e5 show ?thesis
      unfolding unf a_def [symmetric]
      by (intro exI [of _ "rd_kafka_toppar_desired_link rkt a"] exI [of _ rk5]) simp
  next
    case False
    with fl3 e3 show ?thesis
      unfolding unf a_def [symmetric]
      by (intro exI [of _ rkt] exI [of _ rk3]) simp
  qed
qed

lemma remove_total:
  assumes "distinct (map ((!) (rkt_p rkt)) is)"
    and "list_all (\<lambda>i. RD_KAFKA_TOPPAR_F_UNKNOWN \<notin>
                        rktp_flags (rk_toppars rk (rkt_p rkt ! i))) is"
  shows "\<exists>rkt' rk'. partition_cnt_update_remove is ua rkt rk = Some (rkt', rk') \<and>
           dr_ext RD_KAFKA_RESP_ERR__UNKNOWN_PARTITION rk rk'"
  using assms
proof (induction "is" arbitrary: rkt rk)
  case Nil
  show ?case by (simp add: dr_ext_refl)
next
  case (Cons i "is")
  from Cons.prems(2) have u: "RD_KAFKA_TOPPAR_F_UNKNOWN \<notin>
      rktp_flags (rk_toppars rk (rkt_p rkt ! i))" by simp
  from remove_step_ok [OF u, of "is" ua] obtain rkt1 rk1 where
    eq: "partition_cnt_update_remove (i # is) ua rkt rk =
           partition_cnt_update_remove is ua rkt1 rk1"
    and p: "rkt_p rkt1 = rkt_p rkt"
    and fl: "\<forall>b. b \<noteq> rkt_p rkt ! i \<longrightarrow>
                rktp_flags (rk_toppars rk1 b) = rktp_flags (rk_toppars rk b)"
    and dr: "dr_ext RD_KAFKA_RESP_ERR__UNKNOWN_PARTITION rk rk1"
    by blast
  have d: "distinct (map ((!) (rkt_p rkt1)) is)" using Cons.prems(1) by (simp add: p)
  have ne: "\<forall>j\<in>set is. rkt_p rkt ! j \<noteq> rkt_p rkt ! i"
    using Cons.prems(1) by (auto simp: image_iff)
  have f: "list_all (\<lambda>i. RD_KAFKA_TOPPAR_F_UNKNOWN \<notin>
                        rktp_flags (rk_toppars rk1 (rkt_p rkt1 ! i))) is"
    using Cons.prems(2) ne fl by (simp add: list_all_iff p)
  from Cons.IH [OF d f] dr show ?case
    unfolding eq by (blast intro: dr_ext_trans)
qed

lemma distinct_map_nth:
  assumes "distinct xs" "distinct is" "\<forall>i\<in>set is. i < length xs"
  shows "distinct (map ((!) xs) is)"
  using assms by (auto simp: distinct_map inj_on_def nth_eq_iff_index_eq)

lemma fold_enq_error_flags:
  "rktp_flags (rk_toppars (fold (\<lambda>a r. rd_kafka_toppar_enq_error r a e) xs rk) b) =
   rktp_flags (rk_toppars rk b)"
  by (simp add: fold_enq_error)

lemma fold_enq_error_dr:
  "rk_dr (fold (\<lambda>a r. rd_kafka_toppar_enq_error r a e) xs rk) = rk_dr rk"
  by (simp add: fold_enq_error)

text \<open>The reconciler from the state after its first loop.\<close>

lemma cnt_update_after_fill:
  assumes ne: "rkt_partition_cnt rkt \<noteq> n"
    and fi: "partition_cnt_update_fill [0 ..< nat n] rkt rk [] = (rktps, rkt1, rk1)"
    and le: "length (rkt_p rkt) = nat (rkt_partition_cnt rkt)"
    and di: "distinct (rkt_p rkt)"
    and fl: "list_all (\<lambda>a. RD_KAFKA_TOPPAR_F_UNKNOWN \<notin> rktp_flags (rk_toppars rk1 a))
               (rkt_p rkt)"
  shows "\<exists>rkt' rk'. rd_kafka_topic_partition_cnt_update rk rkt n = Some (1, rkt', rk') \<and>
           rkt_p rkt' = rktps \<and> dr_ext RD_KAFKA_RESP_ERR__UNKNOWN_PARTITION rk1 rk'"
proof -
  define rk2 where "rk2 = fold (\<lambda>a r. rd_kafka_toppar_enq_error r a
                                  RD_KAFKA_RESP_ERR__UNKNOWN_PARTITION)
                     (rkt_desp rkt1) rk1"
  define js where "js = [rd_list_foreach_idx (rkt_desp rkt1) ..< nat (rkt_partition_cnt rkt1)]"
  have d1: "desp_only rkt rkt1" using fill_frame [of rk "[0 ..< nat n]" rkt "[]"] fi by simp
  then have p1: "rkt_p rkt1 = rkt_p rkt" "rkt_partition_cnt rkt1 = rkt_partition_cnt rkt"
    by (simp_all add: desp_only_def)
  have "\<forall>j\<in>set js. j < length (rkt_p rkt1)" by (simp add: js_def p1 le)
  then have dj: "distinct (map ((!) (rkt_p rkt1)) js)"
    "list_all (\<lambda>j. rkt_p rkt1 ! j \<in> set (rkt_p rkt1)) js"
    using di by (simp_all add: distinct_map_nth js_def p1 list_all_iff)
  have fj: "list_all (\<lambda>i. RD_KAFKA_TOPPAR_F_UNKNOWN \<notin>
                        rktp_flags (rk_toppars rk2 (rkt_p rkt1 ! i))) js"
    using fl dj(2) by (simp add: rk2_def fold_enq_error_flags list_all_iff p1)
  from remove_total [OF dj(1) fj] obtain rkt2 rk3 where
    rem: "partition_cnt_update_remove js
            (rd_kafka_toppar_get rkt1 RD_KAFKA_PARTITION_UA False) rkt1 rk2 = Some (rkt2, rk3)"
    and dr: "dr_ext RD_KAFKA_RESP_ERR__UNKNOWN_PARTITION rk2 rk3"
    by blast
  have "dr_ext RD_KAFKA_RESP_ERR__UNKNOWN_PARTITION rk1 rk2"
    by (rule dr_ext_eq) (simp add: rk2_def fold_enq_error_dr)
  with dr have "dr_ext RD_KAFKA_RESP_ERR__UNKNOWN_PARTITION rk1 rk3" by (rule dr_ext_trans [rotated])
  moreover have "rd_kafka_topic_partition_cnt_update rk rkt n =
                   Some (1, rkt2\<lparr>rkt_p := rktps, rkt_partition_cnt := n\<rparr>, rk3)"
    using ne rem
    by (simp add: rd_kafka_topic_partition_cnt_update_def fi Let_def rk2_def js_def)
  ultimately show ?thesis by simp
qed

subsection \<open>Delivery reports of a metadata update\<close>

lemma partitioner_dr: "rk_dr (snd (rd_kafka_msg_partitioner route rk rkt rkm)) = rk_dr rk"
  by (simp add: rd_kafka_msg_partitioner_def toppar_upd_def split: option.splits)

lemma uas_loop_dr: "rk_dr (snd (assign_uas_loop route rkt uas rk failed)) = rk_dr rk"
proof (induction uas arbitrary: rk failed)
  case Nil
  show ?case by simp
next
  case (Cons m uas)
  show ?case by (simp add: split_beta Let_def Cons.IH partitioner_dr)
qed

text \<open>The list \<open>failed\<close> that the loop of the flush builds is the list of the messages
  that fail partitioning.\<close>

lemma uas_loop_failed:
  "fst (assign_uas_loop route rkt uas rk failed) = failed @ spec_failed route rkt uas rk"
proof (induction uas arbitrary: rk failed)
  case Nil
  show ?case by simp
next
  case (Cons m uas)
  show ?case
  proof (cases "rkm_partition m \<noteq> RD_KAFKA_PARTITION_UA \<and>
         rkm_partition m \<ge> rkt_partition_cnt rkt \<and>
         rkt_state rkt \<noteq> RD_KAFKA_TOPIC_S_UNKNOWN")
    case True
    then show ?thesis
      by (simp add: Cons.IH spec_fails_partitioning_def spec_partitioned_def)
  next
    case False
    have sp: "spec_fails_partitioning route rkt rk m \<longleftrightarrow>
                fst (rd_kafka_msg_partitioner route rk rkt m) \<noteq> 0"
      using False unfolding spec_fails_partitioning_def by blast
    have pa: "spec_partitioned route rkt rk m = snd (rd_kafka_msg_partitioner route rk rkt m)"
      unfolding spec_partitioned_def by (rule if_not_P [OF False])
    show ?thesis
      unfolding assign_uas_loop.simps if_not_P [OF False] spec_failed.simps sp pa
      by (simp add: split_beta Cons.IH)
  qed
qed

lemma toppar_get_ua: "rd_kafka_toppar_get rkt RD_KAFKA_PARTITION_UA b = rkt_ua rkt"
  by (simp add: rd_kafka_toppar_get_def RD_KAFKA_PARTITION_UA_def)

lemma assign_uas_dr:
  "rk_dr (rd_kafka_topic_assign_uas route rk rkt) =
     rk_dr rk @ map (\<lambda>m. (m, if rkt_state rkt = RD_KAFKA_TOPIC_S_NOTEXISTS
                              then RD_KAFKA_RESP_ERR__UNKNOWN_TOPIC
                              else RD_KAFKA_RESP_ERR__UNKNOWN_PARTITION))
                  (spec_flush_failed route rk rkt)"
proof (cases "rk_type rk \<noteq> RD_KAFKA_PRODUCER")
  case True
  then show ?thesis by (simp add: rd_kafka_topic_assign_uas_def spec_flush_failed_def)
next
  case False
  show ?thesis
  proof (cases "rkt_ua rkt")
    case None
    with False show ?thesis
      by (simp add: rd_kafka_topic_assign_uas_def spec_flush_failed_def toppar_get_ua)
  next
    case (Some u)
    define res where "res = assign_uas_loop route rkt (rktp_msgq (rk_toppars rk u))
                    (toppar_upd rk u (\<lambda>t. t\<lparr>rktp_msgq := []\<rparr>)) []"
    have d: "rk_dr (snd res) = rk_dr rk"
      unfolding res_def by (simp add: uas_loop_dr toppar_upd_def)
    have "rd_kafka_topic_assign_uas route rk rkt =
            (if length (fst res) > 0
             then rd_kafka_dr_msgq (snd res) (fst res)
                    (if rkt_state rkt = RD_KAFKA_TOPIC_S_NOTEXISTS
                     then RD_KAFKA_RESP_ERR__UNKNOWN_TOPIC
                     else RD_KAFKA_RESP_ERR__UNKNOWN_PARTITION)
             else snd res)"
      using False Some
      by (simp add: rd_kafka_topic_assign_uas_def Let_def split_beta res_def toppar_get_ua)
    moreover have "spec_flush_failed route rk rkt = fst res"
      using False Some by (simp add: spec_flush_failed_def res_def uas_loop_failed)
    ultimately show ?thesis by (simp add: d rd_kafka_dr_msgq_def)
  qed
qed

lemma leader_update_dr: "rk_dr (snd (rd_kafka_topic_leader_update rk rkt p l b)) = rk_dr rk"
  by (simp add: rd_kafka_topic_leader_update_def Let_def rd_kafka_toppar_broker_delegate_def
      toppar_upd_def split: option.splits)

lemma leaders_dr: "rk_dr (snd (snd (metadata_update_leaders rkt l rk upd ql))) = rk_dr rk"
proof (induction l arbitrary: rk upd ql)
  case Nil
  show ?case by simp
next
  case (Cons x l)
  obtain mdp b where x: "x = (mdp, b)" by (cases x)
  show ?case unfolding x by (simp add: split_beta Let_def Cons.IH leader_update_dr)
qed

lemma fold_delegate_dr:
  "rk_dr (fold (\<lambda>j r. rd_kafka_toppar_broker_delegate r (f j) None) js rk) = rk_dr rk"
  by (induction js arbitrary: rk)
    (simp_all add: rd_kafka_toppar_broker_delegate_def toppar_upd_def)

lemma propagate_dr: "rk_dr (rd_kafka_topic_propagate_notexists rk rkt) = rk_dr rk"
  by (simp add: rd_kafka_topic_propagate_notexists_def fold_enq_error_dr)

lemma locked_tail_dr:
  assumes st: "rkt_state rkt3 \<noteq> RD_KAFKA_TOPIC_S_NOTEXISTS"
    and t: "locked_tail route mdt pbs old upd0 rkt3 rk1 = (upd, ql, rkt', rk')"
  shows "dr_ext RD_KAFKA_RESP_ERR__UNKNOWN_PARTITION rk1 rk'"
proof -
  define rk2 where "rk2 = snd (snd (metadata_update_leaders rkt3 (zip (md_partitions mdt) pbs) rk1 upd0 False))"
  define rk3 where "rk3 = (if md_err mdt \<noteq> RD_KAFKA_RESP_ERR_NO_ERROR \<and>
                             rkt_partition_cnt rkt3 \<noteq> 0
                          then fold (\<lambda>j r. rd_kafka_toppar_broker_delegate r
                                             (rkt_p rkt3 ! j) None)
                                 [0 ..< nat (rkt_partition_cnt rkt3)] rk2
                          else rk2)"
  define rk4 where "rk4 = (if upd > 0 \<or> rkt_state rkt3 = RD_KAFKA_TOPIC_S_NOTEXISTS
                          then rd_kafka_topic_assign_uas route rk3 rkt3
                          else rk3)"
  from t st have out: "rk' = rk4"
    by (auto simp: locked_tail_def Let_def split_beta rk2_def rk3_def rk4_def)
  have d3: "rk_dr rk3 = rk_dr rk1"
    by (simp add: rk3_def rk2_def fold_delegate_dr leaders_dr)
  have "dr_ext RD_KAFKA_RESP_ERR__UNKNOWN_PARTITION rk3 rk4"
    unfolding rk4_def dr_ext_def using st by (auto simp: assign_uas_dr)
  then show ?thesis unfolding out dr_ext_def d3 .
qed

lemma fill_nil: "partition_cnt_update_fill [0 ..< nat 0] rkt rk [] = ([], rkt, rk)"
  by simp

text \<open>
  Every message of the drained queue with a forced partition id that is out of range
  fails partitioning (unless the topic is \<open>Unknown\<close>), only messages of the drained queue
  do, and all of them do when the partitioner finds no partition for any message.
\<close>

lemma spec_failed_subseq:
  "set (spec_failed route rkt W rk) \<subseteq> set W"
  by (induction W arbitrary: rk) auto

lemma spec_failed_forced:
  assumes "rkm \<in> set W" "rkm_partition rkm \<noteq> RD_KAFKA_PARTITION_UA"
    "rkm_partition rkm \<ge> rkt_partition_cnt rkt" "rkt_state rkt \<noteq> RD_KAFKA_TOPIC_S_UNKNOWN"
  shows "rkm \<in> set (spec_failed route rkt W rk)"
  using assms(1)
proof (induction W arbitrary: rk)
  case Nil
  then show ?case by simp
next
  case (Cons m W)
  show ?case
  proof (cases "rkm = m")
    case True
    then show ?thesis using assms(2-4) by (simp add: spec_fails_partitioning_def)
  next
    case False
    with Cons.prems have "rkm \<in> set W" by simp
    from Cons.IH [OF this] show ?thesis by simp
  qed
qed

lemma spec_failed_no_route:
  assumes "\<And>store rkm. route store rkt rkm = None"
  shows "spec_failed route rkt W rk = W"
proof (induction W arbitrary: rk)
  case Nil
  show ?case by simp
next
  case (Cons m W)
  have "fst (rd_kafka_msg_partitioner route rk rkt m) \<noteq> 0"
    by (simp add: rd_kafka_msg_partitioner_def assms)
  then show ?case by (simp add: spec_fails_partitioning_def Cons.IH)
qed

text \<open>Whatever the reconciler reports for a new partition count of 0, it reports with
  the error \<open>UnknownPartition\<close>.\<close>

lemma remove_step_dr:
  "partition_cnt_update_remove (i # is) ua rkt rk = None \<or>
   (\<exists>rkt1 rk1. partition_cnt_update_remove (i # is) ua rkt rk =
                  partition_cnt_update_remove is ua rkt1 rk1 \<and>
                dr_ext RD_KAFKA_RESP_ERR__UNKNOWN_PARTITION rk rk1)"
proof -
  define a where "a = rkt_p rkt ! i"
  define rk1 where "rk1 = rd_kafka_toppar_broker_delegate rk a None"
  define rk2 where "rk2 = (case ua of
                   Some u \<Rightarrow> rd_kafka_toppar_move_msgs rk1 u a
                 | None \<Rightarrow>
                     toppar_upd
                       (rd_kafka_dr_msgq rk1 (rktp_msgq (rk_toppars rk1 a))
                          RD_KAFKA_RESP_ERR__UNKNOWN_PARTITION)
                       a (\<lambda>t. t\<lparr>rktp_msgq := []\<rparr>))"
  define rk3 where "rk3 = rd_kafka_toppar_purge_queues rk2 a"
  define rk4 where "rk4 = toppar_upd rk3 a
                           (\<lambda>t. t\<lparr>rktp_flags :=
                                    insert RD_KAFKA_TOPPAR_F_UNKNOWN (rktp_flags t)\<rparr>)"
  define rk5 where "rk5 = (if \<not> rd_kafka_terminating rk4
                          then rd_kafka_toppar_enq_error rk4 a
                                 RD_KAFKA_RESP_ERR__UNKNOWN_PARTITION
                          else rk4)"
  have unf: "partition_cnt_update_remove (i # is) ua rkt rk =
     (if RD_KAFKA_TOPPAR_F_DESIRED \<in> rktp_flags (rk_toppars rk3 a) then
           (if RD_KAFKA_TOPPAR_F_UNKNOWN \<in> rktp_flags (rk_toppars rk3 a) then None
            else partition_cnt_update_remove is ua (rd_kafka_toppar_desired_link rkt a) rk5)
         else partition_cnt_update_remove is ua rkt rk3)"
    unfolding a_def rk1_def rk2_def rk3_def rk4_def rk5_def
    by (simp only: partition_cnt_update_remove.simps Let_def)
  have dr1: "rk_dr rk1 = rk_dr rk"
    by (simp add: rk1_def rd_kafka_toppar_broker_delegate_def toppar_upd_def)
  have dr2: "dr_ext RD_KAFKA_RESP_ERR__UNKNOWN_PARTITION rk1 rk2"
  proof (cases ua)
    case None
    then show ?thesis
      unfolding dr_ext_def rk2_def
      by (intro exI [of _ "rktp_msgq (rk_toppars rk1 a)"])
        (simp add: rd_kafka_dr_msgq_def toppar_upd_def)
  next
    case (Some u)
    then show ?thesis
      by (intro dr_ext_eq)
        (simp add: rk2_def rd_kafka_toppar_move_msgs_def toppar_upd_def Let_def)
  qed
  have dr3: "rk_dr rk3 = rk_dr rk2"
    by (simp add: rk3_def rd_kafka_toppar_purge_queues_def toppar_upd_def)
  have dr5: "rk_dr rk5 = rk_dr rk3"
    by (simp add: rk5_def rk4_def rd_kafka_toppar_enq_error_def toppar_upd_def)
  have e3: "dr_ext RD_KAFKA_RESP_ERR__UNKNOWN_PARTITION rk rk3"
    using dr2 by (simp add: dr_ext_def dr1 dr3)
  have e5: "dr_ext RD_KAFKA_RESP_ERR__UNKNOWN_PARTITION rk rk5"
    using e3 by (simp add: dr_ext_def dr5)
  show ?thesis unfolding unf using e3 e5 by auto
qed

lemma remove_dr:
  "partition_cnt_update_remove is ua rkt rk = Some (rkt', rk') \<Longrightarrow>
   dr_ext RD_KAFKA_RESP_ERR__UNKNOWN_PARTITION rk rk'"
proof (induction "is" arbitrary: rkt rk)
  case Nil
  then show ?case by (simp add: dr_ext_refl)
next
  case (Cons i "is")
  from remove_step_dr [of i "is" ua rkt rk] Cons.prems
  obtain rkt1 rk1 where
    eq: "partition_cnt_update_remove (i # is) ua rkt rk =
           partition_cnt_update_remove is ua rkt1 rk1"
    and f: "dr_ext RD_KAFKA_RESP_ERR__UNKNOWN_PARTITION rk rk1"
    by auto
  from Cons.prems eq have "partition_cnt_update_remove is ua rkt1 rk1 = Some (rkt', rk')"
    by simp
  from Cons.IH [OF this] f show ?case by (blast intro: dr_ext_trans)
qed

lemma cnt_update_zero_dr:
  assumes "rd_kafka_topic_partition_cnt_update rk rkt 0 = Some (r, rkt', rk')"
  shows "dr_ext RD_KAFKA_RESP_ERR__UNKNOWN_PARTITION rk rk'"
proof (cases "rkt_partition_cnt rkt = 0")
  case True
  with assms show ?thesis
    by (simp add: rd_kafka_topic_partition_cnt_update_def dr_ext_refl)
next
  case False
  define rk2 where "rk2 = fold (\<lambda>a r. rd_kafka_toppar_enq_error r a
                                  RD_KAFKA_RESP_ERR__UNKNOWN_PARTITION)
                     (rkt_desp rkt) rk"
  from assms False obtain rkt2 where
    rem: "partition_cnt_update_remove
            [rd_list_foreach_idx (rkt_desp rkt) ..< nat (rkt_partition_cnt rkt)]
            (rd_kafka_toppar_get rkt RD_KAFKA_PARTITION_UA False) rkt rk2 = Some (rkt2, rk')"
    by (auto simp: rd_kafka_topic_partition_cnt_update_def Let_def rk2_def
        split: option.splits)
  have "dr_ext RD_KAFKA_RESP_ERR__UNKNOWN_PARTITION rk rk2"
    by (rule dr_ext_eq) (simp add: rk2_def fold_enq_error_dr)
  with remove_dr [OF rem] show ?thesis by (blast intro: dr_ext_trans)
qed

text \<open>
  Claim C3. On a producer, for a tracked, referenced topic in state \<open>Exists\<close>, take a
  record without error and with a partition count of 0. The update returns when the
  partition array is well-formed (the assertion of the reconciler cannot fail then), and
  whenever it returns, the record has been applied and has left the state \<open>Exists\<close> (no
  transition to \<open>NotExists\<close>) with a partition count of 0. With \<open>(upd, rkt3, rk1)\<close> what
  the reconciler returns for the new count 0, the delivery reports of the update are
  those of the reconciler (all with the error \<open>UnknownPartition\<close>) followed, when the
  count has changed and the UA partition is therefore flushed, by exactly one report
  with the error \<open>UnknownPartition\<close> for each message drained from the UA partition that
  fails partitioning, in the order of the queue; no report carries \<open>UnknownTopic\<close>.
\<close>

theorem metadata_update_no_partitions:
  assumes pr: "rk_type rk = RD_KAFKA_PRODUCER"
    and nb: "\<not> topic_blacklisted rk (md_topic mdt)"
    and er: "md_err mdt = RD_KAFKA_RESP_ERR_NO_ERROR"
    and np: "md_partition_cnt mdt = 0"
    and ix: "topic_index (c_str (md_topic mdt)) (rk_topics rk) = Some i"
    and st: "rkt_state (rk_topics rk ! i) = RD_KAFKA_TOPIC_S_EXISTS"
    and nt: "rk_terminate rk = 0"
    and rc: "rkt_refcnt (rk_topics rk ! i) > 0"
  shows "(partitions_known rk (rk_topics rk ! i) \<longrightarrow>
            rd_kafka_topic_metadata_update route rk mdt \<noteq> None) \<and>
         (\<forall>upd rk'. rd_kafka_topic_metadata_update route rk mdt = Some (upd, rk') \<longrightarrow>
            (\<exists>rkt3 rk1.
               rd_kafka_topic_partition_cnt_update (rd_kafka_topic_keep rk i)
                 ((rk_topics (rd_kafka_topic_keep rk i) ! i)\<lparr>rkt_ts_metadata := rd_clock rk\<rparr>)
                 0 = Some (upd, rkt3, rk1) \<and>
               dr_ext RD_KAFKA_RESP_ERR__UNKNOWN_PARTITION rk rk1 \<and>
               rkt_state (rk_topics rk' ! i) = RD_KAFKA_TOPIC_S_EXISTS \<and>
               rkt_partition_cnt (rk_topics rk' ! i) = 0 \<and>
               rk_dr rk' = rk_dr rk1 @
                 map (\<lambda>m. (m, RD_KAFKA_RESP_ERR__UNKNOWN_PARTITION))
                   (if upd > 0 then spec_flush_failed route rk1 rkt3 else [])))"
proof -
  let ?rk0 = "rd_kafka_topic_keep rk i"
  let ?rkt = "rk_topics ?rk0 ! i"
  let ?pbs = "metadata_update_partbrokers rk mdt"
  let ?rkt2 = "locked_rkt2 ?rk0 ?rkt mdt"
  have i: "i < length (rk_topics rk)" using ix by (simp add: topic_index_SomeD)
  have nl: "\<not> (md_err mdt = RD_KAFKA_RESP_ERR_LEADER_NOT_AVAILABLE \<and> md_partition_cnt mdt = 0)"
    using er by simp
  have e2: "?rkt2 = ?rkt\<lparr>rkt_ts_metadata := rd_clock rk\<rparr>"
    using er np
    by (simp add: locked_rkt2_def md_state_def rd_clock_def rd_kafka_topic_keep_def)
  have s2: "rkt_state ?rkt2 = RD_KAFKA_TOPIC_S_EXISTS"
    using i st er np by (simp add: locked_rkt2_def md_state_def keep_nth)
  have p2: "rkt_p ?rkt2 = rkt_p (rk_topics rk ! i)"
    "rkt_partition_cnt ?rkt2 = rkt_partition_cnt (rk_topics rk ! i)"
    using i by (simp_all add: locked_rkt2_def keep_nth)
  have h0: "rk_toppars ?rk0 = rk_toppars rk" "rk_dr ?rk0 = rk_dr rk"
    by (simp_all add: rd_kafka_topic_keep_def)
  have mp: "md_partitions mdt = []" using np by (simp add: md_partition_cnt_def)
  have applied: "rd_kafka_topic_metadata_update route rk mdt = Some (upd0, rk') \<and>
         rkt_state (rk_topics rk' ! i) = RD_KAFKA_TOPIC_S_EXISTS \<and>
         rkt_partition_cnt (rk_topics rk' ! i) = 0 \<and>
         rk_dr rk' = rk_dr rk1 @
                 map (\<lambda>m. (m, RD_KAFKA_RESP_ERR__UNKNOWN_PARTITION))
                   (if upd0 > 0 then spec_flush_failed route rk1 rkt3 else [])"
    if c: "rd_kafka_topic_partition_cnt_update ?rk0 ?rkt2 0 = Some (upd0, rkt3, rk1)"
      and rk': "rk' = (if upd0 > 0 then rd_kafka_topic_assign_uas route rk1 rkt3 else rk1)
                 \<lparr>rk_topics := (rk_topics rk)
                   [i := rkt3\<lparr>rkt_refcnt := rkt_refcnt (rk_topics rk ! i)\<rparr>],
                 rk_leader_queries := rk_leader_queries rk\<rparr>"
    for upd0 rkt3 rk1 rk'
  proof -
    note f = cnt_update_frame [OF c]
    have s3: "rkt_state rkt3 = RD_KAFKA_TOPIC_S_EXISTS"
      using f s2 by (simp add: topic_kept_def)
    define rk5 where "rk5 = (if upd0 > 0 then rd_kafka_topic_assign_uas route rk1 rkt3 else rk1)"
    have t: "locked_tail route mdt ?pbs (rkt_state ?rkt) upd0 rkt3 rk1 = (upd0, False, rkt3, rk5)"
      using er s3 by (simp add: locked_tail_def mp rk5_def)
    have lk: "metadata_update_locked route ?rk0 ?rkt mdt ?pbs = Some (upd0, False, rkt3, rk5)"
      using er np c t by (simp add: locked_unfold)
    have d5: "rk_dr rk5 = rk_dr rk1 @
             map (\<lambda>m. (m, RD_KAFKA_RESP_ERR__UNKNOWN_PARTITION))
               (if upd0 > 0 then spec_flush_failed route rk1 rkt3 else [])"
      using s3 by (simp add: rk5_def assign_uas_dr)
    have a: "rd_kafka_topic_metadata_update route rk mdt = Some (upd0, rk')"
      using metadata_update_applied [OF nb nl ix nt rc lk] by (simp add: rk' rk5_def)
    have r: "rkt_state (rk_topics rk' ! i) = RD_KAFKA_TOPIC_S_EXISTS"
      "rkt_partition_cnt (rk_topics rk' ! i) = 0" "rk_dr rk' = rk_dr rk5"
      using i s3 f by (simp_all add: rk' rk5_def)
    show ?thesis using a r d5 by simp
  qed
  have total: "rd_kafka_topic_metadata_update route rk mdt \<noteq> None"
    if pk: "partitions_known rk (rk_topics rk ! i)"
  proof -
    have "\<exists>upd0 rkt3 rk1.
          rd_kafka_topic_partition_cnt_update ?rk0 ?rkt2 0 = Some (upd0, rkt3, rk1)"
    proof (cases "rkt_partition_cnt ?rkt2 = 0")
      case True
      then show ?thesis by (simp add: rd_kafka_topic_partition_cnt_update_def)
    next
      case False
      from pk have "length (rkt_p ?rkt2) = nat (rkt_partition_cnt ?rkt2)"
        "distinct (rkt_p ?rkt2)"
        "list_all (\<lambda>a. RD_KAFKA_TOPPAR_F_UNKNOWN \<notin> rktp_flags (rk_toppars ?rk0 a))
           (rkt_p ?rkt2)"
        by (simp_all add: partitions_known_def p2 h0)
      from cnt_update_after_fill [OF False fill_nil this] show ?thesis by blast
    qed
    then obtain upd0 rkt3 rk1 where
      c: "rd_kafka_topic_partition_cnt_update ?rk0 ?rkt2 0 = Some (upd0, rkt3, rk1)"
      by blast
    from applied [OF c refl] show ?thesis by simp
  qed
  have part: "\<exists>rkt3 rk1.
               rd_kafka_topic_partition_cnt_update ?rk0 (?rkt\<lparr>rkt_ts_metadata := rd_clock rk\<rparr>)
                 0 = Some (upd, rkt3, rk1) \<and>
               dr_ext RD_KAFKA_RESP_ERR__UNKNOWN_PARTITION rk rk1 \<and>
               rkt_state (rk_topics rk' ! i) = RD_KAFKA_TOPIC_S_EXISTS \<and>
               rkt_partition_cnt (rk_topics rk' ! i) = 0 \<and>
               rk_dr rk' = rk_dr rk1 @
                 map (\<lambda>m. (m, RD_KAFKA_RESP_ERR__UNKNOWN_PARTITION))
                   (if upd > 0 then spec_flush_failed route rk1 rkt3 else [])"
    if r: "rd_kafka_topic_metadata_update route rk mdt = Some (upd, rk')" for upd rk'
  proof (cases "rd_kafka_topic_partition_cnt_update ?rk0 ?rkt2 0")
    case None
    then have "metadata_update_locked route ?rk0 ?rkt mdt ?pbs = None"
      using er np by (simp add: locked_unfold)
    from metadata_update_aborts [OF nb nl ix nt this] r show ?thesis by simp
  next
    case (Some res)
    obtain upd0 rkt3 rk1 where res: "res = (upd0, rkt3, rk1)" by (metis prod_cases3)
    note c = Some [unfolded res]
    from applied [OF c refl] r have u: "upd0 = upd" by simp
    from cnt_update_zero_dr [OF c] have d: "dr_ext RD_KAFKA_RESP_ERR__UNKNOWN_PARTITION rk rk1"
      by (simp add: dr_ext_def h0)
    from applied [OF c refl] r c d show ?thesis
      unfolding e2 [symmetric] by (intro exI [of _ rkt3] exI [of _ rk1]) (simp add: u)
  qed
  from total part show ?thesis by blast
qed

theorem metadata_update_no_partitions_witness:
  "rk_type (ex_client RD_KAFKA_PRODUCER 0) = RD_KAFKA_PRODUCER \<and>
   \<not> topic_blacklisted (ex_client RD_KAFKA_PRODUCER 0)
       (md_topic (ex_mdt RD_KAFKA_RESP_ERR_NO_ERROR [])) \<and>
   md_err (ex_mdt RD_KAFKA_RESP_ERR_NO_ERROR []) = RD_KAFKA_RESP_ERR_NO_ERROR \<and>
   md_partition_cnt (ex_mdt RD_KAFKA_RESP_ERR_NO_ERROR []) = 0 \<and>
   topic_index (c_str (md_topic (ex_mdt RD_KAFKA_RESP_ERR_NO_ERROR [])))
     (rk_topics (ex_client RD_KAFKA_PRODUCER 0)) = Some 0 \<and>
   rkt_state (rk_topics (ex_client RD_KAFKA_PRODUCER 0) ! 0) = RD_KAFKA_TOPIC_S_EXISTS \<and>
   rk_terminate (ex_client RD_KAFKA_PRODUCER 0) = 0 \<and>
   rkt_refcnt (rk_topics (ex_client RD_KAFKA_PRODUCER 0) ! 0) > 0 \<and>
   partitions_known (ex_client RD_KAFKA_PRODUCER 0)
     (rk_topics (ex_client RD_KAFKA_PRODUCER 0) ! 0) \<and>
   (\<exists>upd rk' rkt3 rk1.
      rd_kafka_topic_metadata_update ex_route (ex_client RD_KAFKA_PRODUCER 0)
        (ex_mdt RD_KAFKA_RESP_ERR_NO_ERROR []) = Some (upd, rk') \<and>
      rd_kafka_topic_partition_cnt_update (rd_kafka_topic_keep (ex_client RD_KAFKA_PRODUCER 0) 0)
        ((rk_topics (rd_kafka_topic_keep (ex_client RD_KAFKA_PRODUCER 0) 0) ! 0)
           \<lparr>rkt_ts_metadata := rd_clock (ex_client RD_KAFKA_PRODUCER 0)\<rparr>) 0 =
        Some (upd, rkt3, rk1) \<and>
      dr_ext RD_KAFKA_RESP_ERR__UNKNOWN_PARTITION (ex_client RD_KAFKA_PRODUCER 0) rk1 \<and>
      rkt_state (rk_topics rk' ! 0) = RD_KAFKA_TOPIC_S_EXISTS \<and>
      rkt_partition_cnt (rk_topics rk' ! 0) = 0 \<and>
      rk_dr rk' = rk_dr rk1 @
        map (\<lambda>m. (m, RD_KAFKA_RESP_ERR__UNKNOWN_PARTITION))
          (if upd > 0 then spec_flush_failed ex_route rk1 rkt3 else []))"
proof -
  let ?rk = "ex_client RD_KAFKA_PRODUCER 0"
  let ?mdt = "ex_mdt RD_KAFKA_RESP_ERR_NO_ERROR []"
  have h: "rk_type ?rk = RD_KAFKA_PRODUCER"
    "\<not> topic_blacklisted ?rk (md_topic ?mdt)"
    "md_err ?mdt = RD_KAFKA_RESP_ERR_NO_ERROR"
    "md_partition_cnt ?mdt = 0"
    "topic_index (c_str (md_topic ?mdt)) (rk_topics ?rk) = Some 0"
    "rkt_state (rk_topics ?rk ! 0) = RD_KAFKA_TOPIC_S_EXISTS"
    "rk_terminate ?rk = 0"
    "rkt_refcnt (rk_topics ?rk ! 0) > 0"
    by (simp_all add: ex_client_facts md_partition_cnt_def ex_orders_def)
  have pk: "partitions_known ?rk (rk_topics ?rk ! 0)"
    by (simp add: partitions_known_def ex_client_def ex_orders_def ex_toppars_def
        ex_toppar_def)
  note t = metadata_update_no_partitions [OF h, of ex_route]
  from t pk obtain upd rk' where
    r: "rd_kafka_topic_metadata_update ex_route ?rk ?mdt = Some (upd, rk')"
    by fastforce
  from t r h pk show ?thesis by blast
qed

text \<open>
  In the example state the partitions 0 and 1 hold the messages 1, 2 and 3; the record
  removes both partitions, their messages move to the UA partition, the partitioner finds
  no partition for them, and the update reports the three messages, in order, with the
  error \<open>UnknownPartition\<close>. The topic stays in state \<open>Exists\<close>.
\<close>

lemma metadata_update_no_partitions_example:
  "map_option (\<lambda>(upd, rk'). (upd, rkt_state (rk_topics rk' ! 0),
        rkt_partition_cnt (rk_topics rk' ! 0), rk_dr rk'))
     (rd_kafka_topic_metadata_update ex_route (ex_client RD_KAFKA_PRODUCER 0)
        (ex_mdt RD_KAFKA_RESP_ERR_NO_ERROR [])) =
   Some (1, RD_KAFKA_TOPIC_S_EXISTS, 0,
         [(ex_msg 1, RD_KAFKA_RESP_ERR__UNKNOWN_PARTITION),
          (ex_msg 2, RD_KAFKA_RESP_ERR__UNKNOWN_PARTITION),
          (ex_msg 3, RD_KAFKA_RESP_ERR__UNKNOWN_PARTITION)])"
  by code_simp


subsection \<open>Applying the same record twice\<close>

lemma desired_get_SomeD:
  "rd_kafka_toppar_desired_get rk rkt p = Some a \<Longrightarrow>
   a \<in> set (rkt_desp rkt) \<and> rktp_partition (rk_toppars rk a) = p"
  by (auto simp: rd_kafka_toppar_desired_get_def find_Some_iff)

text \<open>The first loop of the reconciler on an indexed partition array: the partition it
  puts into slot \<open>l\<close> of the new array has the id \<open>l\<close>; it allocates upwards, changes no
  partition id, and leaves the partitions of the old array as they are.\<close>

lemma fill_step_indexed:
  assumes len: "length (rkt_p rkt) = nat (rkt_partition_cnt rkt)"
    and P: "\<forall>j<length (rkt_p rkt).
              rktp_partition (rk_toppars rk (rkt_p rkt ! j)) = int j \<and>
              rkt_p rkt ! j < rk_toppar_brk rk"
    and D: "\<forall>a\<in>set (rkt_desp rkt). a < rk_toppar_brk rk"
  shows "\<exists>rkt1 rk1 x.
           partition_cnt_update_fill (i # L) rkt rk acc =
             partition_cnt_update_fill L rkt1 rk1 (acc @ [x]) \<and>
           rkt_p rkt1 = rkt_p rkt \<and> rkt_partition_cnt rkt1 = rkt_partition_cnt rkt \<and>
           set (rkt_desp rkt1) \<subseteq> set (rkt_desp rkt) \<and>
           rk_toppar_brk rk \<le> rk_toppar_brk rk1 \<and> x < rk_toppar_brk rk1 \<and>
           rktp_partition (rk_toppars rk1 x) = int i \<and>
           (\<forall>a<rk_toppar_brk rk.
              rktp_partition (rk_toppars rk1 a) = rktp_partition (rk_toppars rk a)) \<and>
           (\<forall>a<rk_toppar_brk rk. rktp_partition (rk_toppars rk a) < rkt_partition_cnt rkt \<longrightarrow>
              rk_toppars rk1 a = rk_toppars rk a)"
proof (cases "int i \<ge> rkt_partition_cnt rkt")
  case False
  then have i: "i < length (rkt_p rkt)" using len by simp
  with P have "rktp_partition (rk_toppars rk (rkt_p rkt ! i)) = int i"
    "rkt_p rkt ! i < rk_toppar_brk rk" by simp_all
  with False show ?thesis
    by (intro exI [of _ rkt] exI [of _ rk] exI [of _ "rkt_p rkt ! i"]) simp
next
  case True
  show ?thesis
  proof (cases "rd_kafka_toppar_desired_get rk rkt (int i)")
    case None
    let ?n = "rd_kafka_toppar_new rk (int i)"
    have n: "fst ?n = rk_toppar_brk rk" "rk_toppar_brk (snd ?n) = Suc (rk_toppar_brk rk)"
      "rk_toppars (snd ?n) = (rk_toppars rk)(rk_toppar_brk rk :=
            \<lparr>rktp_partition = int i, rktp_leader = None, rktp_flags = {},
             rktp_msgq = [], rktp_xmit_msgq = [], rktp_errq = []\<rparr>)"
      by (simp_all add: rd_kafka_toppar_new_def)
    from True None show ?thesis
      by (intro exI [of _ rkt] exI [of _ "snd ?n"] exI [of _ "fst ?n"])
        (simp add: split_beta n)
  next
    case (Some a)
    from desired_get_SomeD [OF Some] have a: "a \<in> set (rkt_desp rkt)"
      "rktp_partition (rk_toppars rk a) = int i" by simp_all
    with D have ab: "a < rk_toppar_brk rk" by simp
    show ?thesis
    proof (cases "RD_KAFKA_TOPPAR_F_UNKNOWN \<in> rktp_flags (rk_toppars rk a)")
      case f: False
      with True Some a ab show ?thesis
        by (intro exI [of _ rkt] exI [of _ rk] exI [of _ a]) simp
    next
      case f: True
      let ?rk1 = "toppar_upd rk a
                        (\<lambda>t. t\<lparr>rktp_flags := rktp_flags t - {RD_KAFKA_TOPPAR_F_UNKNOWN}\<rparr>)"
      let ?rkt1 = "rd_kafka_toppar_desired_unlink rkt a"
      have k: "\<forall>x. rktp_partition (rk_toppars ?rk1 x) = rktp_partition (rk_toppars rk x)"
        "rk_toppar_brk ?rk1 = rk_toppar_brk rk"
        "\<forall>x. x \<noteq> a \<longrightarrow> rk_toppars ?rk1 x = rk_toppars rk x"
        by (simp_all add: toppar_upd_def)
      have u: "rkt_p ?rkt1 = rkt_p rkt" "rkt_partition_cnt ?rkt1 = rkt_partition_cnt rkt"
        "set (rkt_desp ?rkt1) \<subseteq> set (rkt_desp rkt)"
        using set_remove1_subset [of a "rkt_desp rkt"]
        by (simp_all add: rd_kafka_toppar_desired_unlink_def)
      have un: "\<forall>x<rk_toppar_brk rk. rktp_partition (rk_toppars rk x) < rkt_partition_cnt rkt \<longrightarrow>
              rk_toppars ?rk1 x = rk_toppars rk x"
      proof (intro allI impI)
        fix x assume "x < rk_toppar_brk rk"
          "rktp_partition (rk_toppars rk x) < rkt_partition_cnt rkt"
        with a(2) True have "x \<noteq> a" by auto
        with k(3) show "rk_toppars ?rk1 x = rk_toppars rk x" by blast
      qed
      from True Some f u k(1,2) un a ab show ?thesis
        by (intro exI [of _ ?rkt1] exI [of _ ?rk1] exI [of _ a]) simp
    qed
  qed
qed

lemma fill_indexed:
  "length (rkt_p rkt) = nat (rkt_partition_cnt rkt) \<Longrightarrow>
   \<forall>j<length (rkt_p rkt).
       rktp_partition (rk_toppars rk (rkt_p rkt ! j)) = int j \<and>
       rkt_p rkt ! j < rk_toppar_brk rk \<Longrightarrow>
   \<forall>a\<in>set (rkt_desp rkt). a < rk_toppar_brk rk \<Longrightarrow>
   \<forall>a\<in>set acc. a < rk_toppar_brk rk \<Longrightarrow>
   partition_cnt_update_fill L rkt rk acc = (rktps, rkt', rk') \<Longrightarrow>
   map (\<lambda>a. rktp_partition (rk_toppars rk' a)) rktps =
     map (\<lambda>a. rktp_partition (rk_toppars rk a)) acc @ map int L \<and>
   (\<forall>a\<in>set rktps. a < rk_toppar_brk rk') \<and>
   rk_toppar_brk rk \<le> rk_toppar_brk rk' \<and>
   (\<forall>a<rk_toppar_brk rk.
      rktp_partition (rk_toppars rk' a) = rktp_partition (rk_toppars rk a)) \<and>
   (\<forall>a<rk_toppar_brk rk. rktp_partition (rk_toppars rk a) < rkt_partition_cnt rkt \<longrightarrow>
      rk_toppars rk' a = rk_toppars rk a) \<and>
   set (rkt_desp rkt') \<subseteq> set (rkt_desp rkt)"
proof (induction L arbitrary: rkt rk acc)
  case Nil
  then show ?case by simp
next
  case (Cons i L)
  note len = Cons.prems(1) and P = Cons.prems(2) and D = Cons.prems(3) and A = Cons.prems(4)
  from fill_step_indexed [OF len P D, of i L acc] obtain rkt1 rk1 x where
    eq: "partition_cnt_update_fill (i # L) rkt rk acc =
           partition_cnt_update_fill L rkt1 rk1 (acc @ [x])"
    and p1: "rkt_p rkt1 = rkt_p rkt" and c1: "rkt_partition_cnt rkt1 = rkt_partition_cnt rkt"
    and d1: "set (rkt_desp rkt1) \<subseteq> set (rkt_desp rkt)"
    and b1: "rk_toppar_brk rk \<le> rk_toppar_brk rk1" and x1: "x < rk_toppar_brk rk1"
    and xi: "rktp_partition (rk_toppars rk1 x) = int i"
    and id1: "\<forall>a<rk_toppar_brk rk.
              rktp_partition (rk_toppars rk1 a) = rktp_partition (rk_toppars rk a)"
    and un1: "\<forall>a<rk_toppar_brk rk. rktp_partition (rk_toppars rk a) < rkt_partition_cnt rkt \<longrightarrow>
              rk_toppars rk1 a = rk_toppars rk a"
    by blast
  have len': "length (rkt_p rkt1) = nat (rkt_partition_cnt rkt1)" using len by (simp add: p1 c1)
  have P': "\<forall>j<length (rkt_p rkt1).
       rktp_partition (rk_toppars rk1 (rkt_p rkt1 ! j)) = int j \<and>
       rkt_p rkt1 ! j < rk_toppar_brk rk1"
    using P id1 b1 by (auto simp: p1)
  have D': "\<forall>a\<in>set (rkt_desp rkt1). a < rk_toppar_brk rk1" using D d1 b1 by fastforce
  have A': "\<forall>a\<in>set (acc @ [x]). a < rk_toppar_brk rk1" using A x1 b1 by fastforce
  have f: "partition_cnt_update_fill L rkt1 rk1 (acc @ [x]) = (rktps, rkt', rk')"
    using Cons.prems(5) eq by simp
  note IH = Cons.IH [OF len' P' D' A' f]
  have "map (\<lambda>a. rktp_partition (rk_toppars rk1 a)) acc =
        map (\<lambda>a. rktp_partition (rk_toppars rk a)) acc"
    using A id1 by simp
  then have m: "map (\<lambda>a. rktp_partition (rk_toppars rk' a)) rktps =
     map (\<lambda>a. rktp_partition (rk_toppars rk a)) acc @ map int (i # L)"
    using IH by (simp add: xi)
  have b: "rk_toppar_brk rk \<le> rk_toppar_brk rk'" using IH b1 by simp
  have i: "\<forall>a<rk_toppar_brk rk.
      rktp_partition (rk_toppars rk' a) = rktp_partition (rk_toppars rk a)"
    using IH id1 b1 by auto
  have u: "\<forall>a<rk_toppar_brk rk. rktp_partition (rk_toppars rk a) < rkt_partition_cnt rkt \<longrightarrow>
      rk_toppars rk' a = rk_toppars rk a"
  proof (intro allI impI)
    fix a assume a: "a < rk_toppar_brk rk"
      "rktp_partition (rk_toppars rk a) < rkt_partition_cnt rkt"
    then have 1: "rk_toppars rk1 a = rk_toppars rk a" using un1 by simp
    have "a < rk_toppar_brk rk1" using a(1) b1 by simp
    moreover have "rktp_partition (rk_toppars rk1 a) < rkt_partition_cnt rkt1"
      using a(2) by (simp add: 1 c1)
    ultimately have "rk_toppars rk' a = rk_toppars rk1 a" using IH by blast
    then show "rk_toppars rk' a = rk_toppars rk a" by (simp add: 1)
  qed
  have d: "set (rkt_desp rkt') \<subseteq> set (rkt_desp rkt)" using IH d1 by blast
  from m IH b i u d show ?case by blast
qed

text \<open>What the operations leave of the allocator and the partition ids.\<close>

lemma ids_kept_refl: "ids_kept rk rk"
  by (simp add: ids_kept_def)

lemma ids_kept_trans: "ids_kept a b \<Longrightarrow> ids_kept b c \<Longrightarrow> ids_kept a c"
  by (simp add: ids_kept_def)

lemma ids_keptD:
  "ids_kept rk rk' \<Longrightarrow> rk_toppar_brk rk' = rk_toppar_brk rk \<and>
     rktp_partition (rk_toppars rk' a) = rktp_partition (rk_toppars rk a)"
  by (auto simp: ids_kept_def ids_of_def fun_eq_iff)

lemma ids_kept_toppar_upd:
  "(\<And>t. rktp_partition (f t) = rktp_partition t) \<Longrightarrow> ids_kept rk (toppar_upd rk a f)"
  by (simp add: ids_kept_def ids_of_def toppar_upd_def fun_eq_iff)

lemma ids_kept_enq_error: "ids_kept rk (rd_kafka_toppar_enq_error rk a e)"
  unfolding rd_kafka_toppar_enq_error_def by (rule ids_kept_toppar_upd) simp

lemma ids_kept_delegate: "ids_kept rk (rd_kafka_toppar_broker_delegate rk a b)"
  unfolding rd_kafka_toppar_broker_delegate_def by (rule ids_kept_toppar_upd) simp

lemma ids_kept_move_msgs: "ids_kept rk (rd_kafka_toppar_move_msgs rk d s)"
  by (simp add: ids_kept_def ids_of_def rd_kafka_toppar_move_msgs_def toppar_upd_def
      Let_def fun_eq_iff)

lemma ids_kept_purge: "ids_kept rk (rd_kafka_toppar_purge_queues rk a)"
  unfolding rd_kafka_toppar_purge_queues_def by (rule ids_kept_toppar_upd) simp

lemma ids_kept_dr: "ids_kept rk (rd_kafka_dr_msgq rk q e)"
  by (simp add: rd_kafka_dr_msgq_def ids_kept_def ids_of_def)

lemma ids_kept_partitioner: "ids_kept rk (snd (rd_kafka_msg_partitioner route rk rkt rkm))"
  by (simp add: rd_kafka_msg_partitioner_def ids_kept_refl ids_kept_toppar_upd
      split: option.splits)

lemma ids_kept_leader_update:
  "ids_kept rk (snd (rd_kafka_topic_leader_update rk rkt p l b))"
  by (simp add: rd_kafka_topic_leader_update_def Let_def ids_kept_refl ids_kept_delegate
      split: option.splits)

lemma ids_kept_fold:
  assumes "\<And>x r. ids_kept r (f x r)"
  shows "ids_kept rk (fold f xs rk)"
proof (induction xs arbitrary: rk)
  case Nil
  show ?case by (simp add: ids_kept_refl)
next
  case (Cons x xs)
  have "ids_kept rk (f x rk)" by (rule assms)
  moreover have "ids_kept (f x rk) (fold f xs (f x rk))" by (rule Cons.IH)
  ultimately show ?case by (simp add: ids_kept_trans [of rk "f x rk"])
qed

lemma ids_kept_propagate: "ids_kept rk (rd_kafka_topic_propagate_notexists rk rkt)"
  unfolding rd_kafka_topic_propagate_notexists_def
  by (simp add: ids_kept_refl ids_kept_fold ids_kept_enq_error)

lemma ids_kept_leaders:
  "ids_kept rk (snd (snd (metadata_update_leaders rkt l rk upd ql)))"
proof (induction l arbitrary: rk upd ql)
  case Nil
  show ?case by (simp add: ids_kept_refl)
next
  case (Cons x l)
  obtain mdp b where x: "x = (mdp, b)" by (cases x)
  let ?rk1 = "snd (rd_kafka_topic_leader_update rk rkt (md_id mdp) (md_leader mdp) b)"
  have 1: "ids_kept rk ?rk1" by (rule ids_kept_leader_update)
  show ?case
    unfolding x
    by (simp add: split_beta Let_def ids_kept_trans [OF 1 Cons.IH])
qed

lemma ids_kept_uas_loop:
  "ids_kept rk (snd (assign_uas_loop route rkt uas rk failed))"
proof (induction uas arbitrary: rk failed)
  case Nil
  show ?case by (simp add: ids_kept_refl)
next
  case (Cons m uas)
  let ?rk1 = "snd (rd_kafka_msg_partitioner route rk rkt m)"
  have 1: "ids_kept rk ?rk1" by (rule ids_kept_partitioner)
  show ?case
    by (simp add: split_beta Let_def Cons.IH ids_kept_trans [OF 1 Cons.IH])
qed

lemma ids_kept_assign_uas: "ids_kept rk (rd_kafka_topic_assign_uas route rk rkt)"
proof -
  have a: "\<And>u. ids_kept rk (toppar_upd rk u (\<lambda>t. t\<lparr>rktp_msgq := []\<rparr>))"
    by (rule ids_kept_toppar_upd) simp
  show ?thesis
    unfolding rd_kafka_topic_assign_uas_def
    by (auto simp: ids_kept_refl Let_def split_beta split: option.splits
        intro: ids_kept_trans [OF a ids_kept_uas_loop]
          ids_kept_trans [OF ids_kept_trans [OF a ids_kept_uas_loop] ids_kept_dr])
qed

lemma remove_step_ids:
  "partition_cnt_update_remove (i # is) ua rkt rk = None \<or>
   (\<exists>rkt1 rk1. partition_cnt_update_remove (i # is) ua rkt rk =
                  partition_cnt_update_remove is ua rkt1 rk1 \<and>
                ids_kept rk rk1 \<and> rkt_p rkt1 = rkt_p rkt \<and>
                set (rkt_desp rkt1) \<subseteq> insert (rkt_p rkt ! i) (set (rkt_desp rkt)))"
proof -
  define a where "a = rkt_p rkt ! i"
  define rk1 where "rk1 = rd_kafka_toppar_broker_delegate rk a None"
  define rk2 where "rk2 = (case ua of
                   Some u \<Rightarrow> rd_kafka_toppar_move_msgs rk1 u a
                 | None \<Rightarrow>
                     toppar_upd
                       (rd_kafka_dr_msgq rk1 (rktp_msgq (rk_toppars rk1 a))
                          RD_KAFKA_RESP_ERR__UNKNOWN_PARTITION)
                       a (\<lambda>t. t\<lparr>rktp_msgq := []\<rparr>))"
  define rk3 where "rk3 = rd_kafka_toppar_purge_queues rk2 a"
  define rk4 where "rk4 = toppar_upd rk3 a
                           (\<lambda>t. t\<lparr>rktp_flags :=
                                    insert RD_KAFKA_TOPPAR_F_UNKNOWN (rktp_flags t)\<rparr>)"
  define rk5 where "rk5 = (if \<not> rd_kafka_terminating rk4
                          then rd_kafka_toppar_enq_error rk4 a
                                 RD_KAFKA_RESP_ERR__UNKNOWN_PARTITION
                          else rk4)"
  have s1: "ids_kept rk rk1" unfolding rk1_def by (rule ids_kept_delegate)
  have u: "\<And>r. ids_kept r (toppar_upd r a (\<lambda>t. t\<lparr>rktp_msgq := []\<rparr>))"
    by (rule ids_kept_toppar_upd) simp
  have s2: "ids_kept rk1 rk2"
    unfolding rk2_def
    by (cases ua) (simp_all add: ids_kept_move_msgs ids_kept_trans [OF ids_kept_dr u])
  have s3: "ids_kept rk2 rk3" unfolding rk3_def by (rule ids_kept_purge)
  have s4: "ids_kept rk3 rk4" unfolding rk4_def by (rule ids_kept_toppar_upd) simp
  have s5: "ids_kept rk4 rk5"
    unfolding rk5_def by (simp add: ids_kept_refl ids_kept_enq_error)
  have s13: "ids_kept rk rk3" using s1 s2 s3 by (blast intro: ids_kept_trans)
  have s15: "ids_kept rk rk5" using s13 s4 s5 by (blast intro: ids_kept_trans)
  have unf: "partition_cnt_update_remove (i # is) ua rkt rk =
     (if RD_KAFKA_TOPPAR_F_DESIRED \<in> rktp_flags (rk_toppars rk3 a) then
           (if RD_KAFKA_TOPPAR_F_UNKNOWN \<in> rktp_flags (rk_toppars rk3 a) then None
            else partition_cnt_update_remove is ua (rd_kafka_toppar_desired_link rkt a) rk5)
         else partition_cnt_update_remove is ua rkt rk3)"
    unfolding a_def rk1_def rk2_def rk3_def rk4_def rk5_def
    by (simp only: partition_cnt_update_remove.simps Let_def)
  have l: "rkt_p (rd_kafka_toppar_desired_link rkt a) = rkt_p rkt"
    "set (rkt_desp (rd_kafka_toppar_desired_link rkt a)) \<subseteq> insert a (set (rkt_desp rkt))"
    by (auto simp: rd_kafka_toppar_desired_link_def)
  show ?thesis
    unfolding unf a_def [symmetric]
    using s13 s15 l by auto
qed

lemma remove_ids:
  "partition_cnt_update_remove is ua rkt rk = Some (rkt', rk') \<Longrightarrow>
   ids_kept rk rk' \<and>
   set (rkt_desp rkt') \<subseteq> set (rkt_desp rkt) \<union> (\<lambda>i. rkt_p rkt ! i) ` set is"
proof (induction "is" arbitrary: rkt rk)
  case Nil
  then show ?case by (simp add: ids_kept_refl)
next
  case (Cons i "is")
  from remove_step_ids [of i "is" ua rkt rk] Cons.prems
  obtain rkt1 rk1 where
    eq: "partition_cnt_update_remove (i # is) ua rkt rk =
           partition_cnt_update_remove is ua rkt1 rk1"
    and f: "ids_kept rk rk1" "rkt_p rkt1 = rkt_p rkt"
      "set (rkt_desp rkt1) \<subseteq> insert (rkt_p rkt ! i) (set (rkt_desp rkt))"
    by auto
  from Cons.prems eq have "partition_cnt_update_remove is ua rkt1 rk1 = Some (rkt', rk')"
    by simp
  from Cons.IH [OF this] f show ?case
    by (auto intro: ids_kept_trans)
qed

lemma indexedD:
  assumes "partitions_indexed rk rkt"
  shows "length (rkt_p rkt) = nat (rkt_partition_cnt rkt)"
    and "\<forall>j<length (rkt_p rkt).
            rktp_partition (rk_toppars rk (rkt_p rkt ! j)) = int j \<and>
            rkt_p rkt ! j < rk_toppar_brk rk"
    and "\<forall>a\<in>set (rkt_desp rkt). a < rk_toppar_brk rk"
  using assms by (simp_all add: partitions_indexed_def list_all_iff)

lemma ids_distinct:
  assumes "map g xs = map int [0 ..< n]"
  shows "distinct xs \<and> length xs = n"
proof -
  have "distinct (map int [0 ..< n])" by (simp add: distinct_map)
  then have "distinct (map g xs)" using assms by simp
  then have "distinct xs" by (simp add: distinct_map)
  moreover have "length xs = n" using arg_cong [OF assms, of length] by simp
  ultimately show ?thesis by simp
qed


lemma cnt_update_indexed:
  assumes c: "rd_kafka_topic_partition_cnt_update rk rkt n = Some (r, rkt', rk')"
    and ind: "partitions_indexed rk rkt"
  shows "partitions_indexed rk' rkt'"
proof (cases "rkt_partition_cnt rkt = n")
  case True
  with c ind show ?thesis by (simp add: rd_kafka_topic_partition_cnt_update_def)
next
  case False
  obtain rktps rkt1 rk1 where
    fi: "partition_cnt_update_fill [0 ..< nat n] rkt rk [] = (rktps, rkt1, rk1)"
    by (metis prod_cases3)
  define rk2 where "rk2 = fold (\<lambda>a r. rd_kafka_toppar_enq_error r a
                                  RD_KAFKA_RESP_ERR__UNKNOWN_PARTITION)
                     (rkt_desp rkt1) rk1"
  define js where "js = [rd_list_foreach_idx (rkt_desp rkt1) ..< nat (rkt_partition_cnt rkt1)]"
  note I = indexedD [OF ind]
  from fill_indexed [OF I(1) I(2) I(3) _ fi] have
    m: "map (\<lambda>a. rktp_partition (rk_toppars rk1 a)) rktps = map int [0 ..< nat n]"
    and b: "\<forall>a\<in>set rktps. a < rk_toppar_brk rk1" "rk_toppar_brk rk \<le> rk_toppar_brk rk1"
    and d: "set (rkt_desp rkt1) \<subseteq> set (rkt_desp rkt)"
    by simp_all
  have d1: "desp_only rkt rkt1" using fill_frame [of rk "[0 ..< nat n]" rkt "[]"] fi by simp
  then have p1: "rkt_p rkt1 = rkt_p rkt" "rkt_partition_cnt rkt1 = rkt_partition_cnt rkt"
    by (simp_all add: desp_only_def)
  from c False obtain rkt2 rk3 where
    rem: "partition_cnt_update_remove js
            (rd_kafka_toppar_get rkt1 RD_KAFKA_PARTITION_UA False) rkt1 rk2 = Some (rkt2, rk3)"
    and out: "rkt' = rkt2\<lparr>rkt_p := rktps, rkt_partition_cnt := n\<rparr>" "rk' = rk3"
    by (auto simp: rd_kafka_topic_partition_cnt_update_def Let_def fi rk2_def js_def
        split: option.splits)
  have k2: "ids_kept rk1 rk2"
    unfolding rk2_def by (rule ids_kept_fold) (rule ids_kept_enq_error)
  from remove_ids [OF rem] have k3: "ids_kept rk2 rk3"
    and d3: "set (rkt_desp rkt2) \<subseteq> set (rkt_desp rkt1) \<union> (\<lambda>i. rkt_p rkt1 ! i) ` set js"
    by simp_all
  have k: "ids_kept rk1 rk3" using k2 k3 by (rule ids_kept_trans)
  note K = ids_keptD [OF k]
  have len: "length rktps = nat n" using ids_distinct [OF m] by simp
  have ids: "\<forall>j<length rktps. rktp_partition (rk_toppars rk3 (rktps ! j)) = int j \<and>
               rktps ! j < rk_toppar_brk rk3"
  proof (intro allI impI)
    fix j assume j: "j < length rktps"
    have "map (\<lambda>a. rktp_partition (rk_toppars rk1 a)) rktps ! j = map int [0 ..< nat n] ! j"
      by (simp only: m)
    then have "rktp_partition (rk_toppars rk1 (rktps ! j)) = int j"
      using j len by simp
    moreover have "rktps ! j < rk_toppar_brk rk1" using b(1) j by simp
    ultimately show "rktp_partition (rk_toppars rk3 (rktps ! j)) = int j \<and>
               rktps ! j < rk_toppar_brk rk3"
      by (simp add: K)
  qed
  have "\<forall>j\<in>set js. j < length (rkt_p rkt)" by (simp add: js_def p1 I(1))
  then have "(\<lambda>i. rkt_p rkt1 ! i) ` set js \<subseteq> {a. a < rk_toppar_brk rk}"
    using I(2) by (auto simp: p1)
  with d3 d I(3) have "\<forall>a\<in>set (rkt_desp rkt2). a < rk_toppar_brk rk" by blast
  then have dd: "\<forall>a\<in>set (rkt_desp rkt2). a < rk_toppar_brk rk3"
    using b(2) by (fastforce simp: K)
  show ?thesis
    using len ids dd
    by (simp add: partitions_indexed_def out list_all_iff)
qed















lemma locked_tail_ids:
  "locked_tail route mdt pbs old upd0 rkt3 rk1 = (upd, ql, rkt', rk') \<Longrightarrow> ids_kept rk1 rk'"
proof -
  assume a: "locked_tail route mdt pbs old upd0 rkt3 rk1 = (upd, ql, rkt', rk')"
  define rk2 where "rk2 = snd (snd (metadata_update_leaders rkt3 (zip (md_partitions mdt) pbs) rk1 upd0 False))"
  define rk3 where "rk3 = (if md_err mdt \<noteq> RD_KAFKA_RESP_ERR_NO_ERROR \<and>
                             rkt_partition_cnt rkt3 \<noteq> 0
                          then fold (\<lambda>j r. rd_kafka_toppar_broker_delegate r
                                             (rkt_p rkt3 ! j) None)
                                 [0 ..< nat (rkt_partition_cnt rkt3)] rk2
                          else rk2)"
  define rk4 where "rk4 = (if upd > 0 \<or> rkt_state rkt3 = RD_KAFKA_TOPIC_S_NOTEXISTS
                          then rd_kafka_topic_assign_uas route rk3 rkt3
                          else rk3)"
  define rk5 where "rk5 = (if old \<noteq> rkt_state rkt3 \<and>
                             rkt_state rkt3 = RD_KAFKA_TOPIC_S_NOTEXISTS
                          then rd_kafka_topic_propagate_notexists rk4 rkt3
                          else rk4)"
  from a have out: "rk' = rk5"
    by (auto simp: locked_tail_def Let_def split_beta rk2_def rk3_def rk4_def rk5_def)
  have s2: "ids_kept rk1 rk2" unfolding rk2_def by (rule ids_kept_leaders)
  have s3: "ids_kept rk2 rk3"
    unfolding rk3_def by (simp add: ids_kept_refl ids_kept_fold ids_kept_delegate)
  have s4: "ids_kept rk3 rk4"
    unfolding rk4_def by (simp add: ids_kept_refl ids_kept_assign_uas)
  have s5: "ids_kept rk4 rk5"
    unfolding rk5_def by (simp add: ids_kept_refl ids_kept_propagate)
  show ?thesis using out s2 s3 s4 s5 by (blast intro: ids_kept_trans)
qed

lemma indexedI:
  assumes "length (rkt_p rkt) = nat (rkt_partition_cnt rkt)"
    and "\<forall>j<length (rkt_p rkt).
            rktp_partition (rk_toppars rk (rkt_p rkt ! j)) = int j \<and>
            rkt_p rkt ! j < rk_toppar_brk rk"
    and "\<forall>a\<in>set (rkt_desp rkt). a < rk_toppar_brk rk"
  shows "partitions_indexed rk rkt"
  using assms by (simp add: partitions_indexed_def list_all_iff)

lemma indexed_cong:
  assumes "partitions_indexed rk rkt" "ids_kept rk rk'" "rkt_p rkt' = rkt_p rkt"
    "rkt_partition_cnt rkt' = rkt_partition_cnt rkt" "rkt_desp rkt' = rkt_desp rkt"
  shows "partitions_indexed rk' rkt'"
  using indexedD [OF assms(1)] ids_keptD [OF assms(2)] assms(3-5)
  by (intro indexedI) simp_all

lemma locked_indexed:
  assumes lk: "metadata_update_locked route rk rkt mdt pbs = Some (upd, ql, rkt', rk')"
    and ind: "partitions_indexed rk rkt"
  shows "partitions_indexed rk' rkt'"
proof -
  have i2: "partitions_indexed rk (locked_rkt2 rk rkt mdt)"
    by (rule indexed_cong [OF ind ids_kept_refl]) (simp_all add: locked_rkt2_def)
  show ?thesis
  proof (cases "md_err mdt = RD_KAFKA_RESP_ERR_NO_ERROR")
    case False
    with lk have t: "locked_tail route mdt pbs (rkt_state rkt) 0 (locked_rkt2 rk rkt mdt) rk =
                     (upd, ql, rkt', rk')"
      by (simp add: locked_unfold)
    from locked_tail_frame [OF t] have e: "rkt' = locked_rkt2 rk rkt mdt" by simp
    show ?thesis
      unfolding e by (rule indexed_cong [OF i2 locked_tail_ids [OF t]]) simp_all
  next
    case True
    with lk obtain upd0 rkt3 rk1 where
      c: "rd_kafka_topic_partition_cnt_update rk (locked_rkt2 rk rkt mdt) (md_partition_cnt mdt) =
            Some (upd0, rkt3, rk1)"
      and t: "locked_tail route mdt pbs (rkt_state rkt) upd0 rkt3 rk1 = (upd, ql, rkt', rk')"
      by (auto simp: locked_unfold split: option.splits)
    from locked_tail_frame [OF t] have e: "rkt' = rkt3" by simp
    have i3: "partitions_indexed rk1 rkt3" by (rule cnt_update_indexed [OF c i2])
    show ?thesis
      unfolding e by (rule indexed_cong [OF i3 locked_tail_ids [OF t]]) simp_all
  qed
qed




lemma keep_indexed:
  assumes "i < length (rk_topics rk)" "partitions_indexed rk (rk_topics rk ! i)"
  shows "partitions_indexed (rd_kafka_topic_keep rk i) (rk_topics (rd_kafka_topic_keep rk i) ! i)"
proof -
  have "ids_kept rk (rd_kafka_topic_keep rk i)"
    by (simp add: ids_kept_def ids_of_def rd_kafka_topic_keep_def)
  from indexed_cong [OF assms(2) this] assms(1) show ?thesis by (simp add: keep_nth)
qed


lemma metadata_update_indexed:
  assumes ix: "topic_index (c_str (md_topic mdt)) (rk_topics rk) = Some i"
    and nt: "rk_terminate rk = 0"
    and rc: "rkt_refcnt (rk_topics rk ! i) > 0"
    and ind: "partitions_indexed rk (rk_topics rk ! i)"
    and r: "rd_kafka_topic_metadata_update route rk mdt = Some (upd, rk')"
  shows "partitions_indexed rk' (rk_topics rk' ! i)"
proof (cases "topic_blacklisted rk (md_topic mdt) \<or>
    (md_err mdt = RD_KAFKA_RESP_ERR_LEADER_NOT_AVAILABLE \<and> md_partition_cnt mdt = 0)")
  case True
  have "rk' = rk"
  proof (cases "topic_blacklisted rk (md_topic mdt)")
    case b: True
    with r show ?thesis by (simp add: rd_kafka_topic_metadata_update_def)
  next
    case b: False
    with True have "md_err mdt = RD_KAFKA_RESP_ERR_LEADER_NOT_AVAILABLE \<and>
        md_partition_cnt mdt = 0" by simp
    with r b show ?thesis by (simp add: rd_kafka_topic_metadata_update_def)
  qed
  with ind show ?thesis by simp
next
  case False
  then have nb: "\<not> topic_blacklisted rk (md_topic mdt)"
    and nl: "\<not> (md_err mdt = RD_KAFKA_RESP_ERR_LEADER_NOT_AVAILABLE \<and> md_partition_cnt mdt = 0)"
    by simp_all
  let ?rk0 = "rd_kafka_topic_keep rk i"
  have i: "i < length (rk_topics rk)" using ix by (simp add: topic_index_SomeD)
  show ?thesis
  proof (cases "metadata_update_locked route ?rk0 (rk_topics ?rk0 ! i) mdt
           (metadata_update_partbrokers rk mdt)")
    case None
    from metadata_update_aborts [OF nb nl ix nt None] r show ?thesis by simp
  next
    case (Some res)
    obtain u ql rkt3 rk5 where res: "res = (u, ql, rkt3, rk5)" by (metis prod_cases4)
    note lk = Some [unfolded res]
    have i5: "partitions_indexed rk5 rkt3"
      by (rule locked_indexed [OF lk keep_indexed [OF i ind]])
    from metadata_update_applied [OF nb nl ix nt rc lk] r have
      e: "rk' = rk5\<lparr>rk_topics := (rk_topics rk)
                   [i := rkt3\<lparr>rkt_refcnt := rkt_refcnt (rk_topics rk ! i)\<rparr>],
                 rk_leader_queries :=
                   (if ql then rk_leader_queries rk @ [rkt_topic rkt3]
                    else rk_leader_queries rk)\<rparr>"
      by simp
    have "ids_kept rk5 rk'" by (simp add: e ids_kept_def ids_of_def)
    from indexed_cong [OF i5 this, of "rkt3\<lparr>rkt_refcnt := rkt_refcnt (rk_topics rk ! i)\<rparr>"]
    show ?thesis using i by (simp add: e)
  qed
qed






text \<open>
  In the example the consumer's topic grows from two partitions to three while its
  partition 0 is desired: the first application returns 3 changes and leaves partition 0
  in the array, flagged \<open>Unknown\<close> and on the desired list; the second application, at a
  later time, returns 0 and leaves the array, the partition count and the leaders as
  they are.
\<close>

lemma metadata_update_twice_example:
  "(case rd_kafka_topic_metadata_update ex_route ex_desired ex_record3 of
      None \<Rightarrow> None
    | Some (upd, rk1) \<Rightarrow>
        Some (upd, rkt_p (rk_topics rk1 ! 0), rkt_desp (rk_topics rk1 ! 0),
              RD_KAFKA_TOPPAR_F_UNKNOWN \<in> rktp_flags (rk_toppars rk1 1),
              map (\<lambda>a. rktp_leader (rk_toppars rk1 a)) [1, 2, 3],
              map_option
                (\<lambda>(upd2, rk2). (upd2, rkt_p (rk_topics rk2 ! 0),
                    rkt_partition_cnt (rk_topics rk2 ! 0),
                    map (\<lambda>a. rktp_leader (rk_toppars rk2 a)) [1, 2, 3]))
                (rd_kafka_topic_metadata_update ex_route (rk1\<lparr>rk_clock := 4000000\<rparr>)
                   ex_record3))) =
   Some (3, [1, 2, 3], [1], True, [Some 2, Some 1, None],
         Some (0, [1, 2, 3], 3, [Some 2, Some 1, None]))"
  by code_simp

subsection \<open>Propagation on a metadata update\<close>

text \<open>
  The metadata update runs the propagation exactly when it has moved the topic into
  \<open>NotExists\<close>, and nothing else that it does writes a notification queue: on a record
  with the error \<open>UnknownTopicOrPart\<close> or \<open>Unknown\<close> for a topic that was not \<open>NotExists\<close>,
  a consumer's partitions get one \<open>UnknownTopic\<close> error per entry in the desired list and
  a producer's get none.
\<close>

lemma leader_update_errq:
  "rktp_errq (rk_toppars (snd (rd_kafka_topic_leader_update rk rkt p l b)) a) =
   rktp_errq (rk_toppars rk a)"
  by (simp add: rd_kafka_topic_leader_update_def Let_def rd_kafka_toppar_broker_delegate_def
      toppar_upd_def split: option.splits)

lemma leaders_errq:
  "rktp_errq (rk_toppars (snd (snd (metadata_update_leaders rkt l rk upd ql))) a) =
   rktp_errq (rk_toppars rk a)"
proof (induction l arbitrary: rk upd ql)
  case Nil
  show ?case by simp
next
  case (Cons x l)
  obtain mdp b where x: "x = (mdp, b)" by (cases x)
  show ?case unfolding x by (simp add: split_beta Let_def Cons.IH leader_update_errq)
qed

lemma fold_delegate_errq:
  "rktp_errq (rk_toppars (fold (\<lambda>j r. rd_kafka_toppar_broker_delegate r (f j) None) js rk) a) =
   rktp_errq (rk_toppars rk a)"
  by (induction js arbitrary: rk)
    (simp_all add: rd_kafka_toppar_broker_delegate_def toppar_upd_def)

lemma partitioner_errq:
  "rktp_errq (rk_toppars (snd (rd_kafka_msg_partitioner route rk rkt rkm)) a) =
   rktp_errq (rk_toppars rk a)"
  by (simp add: rd_kafka_msg_partitioner_def toppar_upd_def split: option.splits)

lemma uas_loop_errq:
  "rktp_errq (rk_toppars (snd (assign_uas_loop route rkt uas rk failed)) a) =
   rktp_errq (rk_toppars rk a)"
proof (induction uas arbitrary: rk failed)
  case Nil
  show ?case by simp
next
  case (Cons m uas)
  show ?case by (simp add: split_beta Let_def Cons.IH partitioner_errq)
qed

lemma assign_uas_errq:
  "rktp_errq (rk_toppars (rd_kafka_topic_assign_uas route rk rkt) a) =
   rktp_errq (rk_toppars rk a)"
  by (simp add: rd_kafka_topic_assign_uas_def Let_def split_beta uas_loop_errq
      rd_kafka_dr_msgq_def toppar_upd_def split: option.splits)

lemma locked_tail_errq:
  assumes t: "locked_tail route mdt pbs old upd0 rkt3 rk1 = (upd, ql, rkt', rk')"
  shows "rktp_errq (rk_toppars rk' a) =
           rktp_errq (rk_toppars rk1 a) @
           (if old \<noteq> rkt_state rkt3 \<and> rkt_state rkt3 = RD_KAFKA_TOPIC_S_NOTEXISTS \<and>
               rk_type rk1 = RD_KAFKA_CONSUMER
            then replicate (count_list (rkt_desp rkt3) a) RD_KAFKA_RESP_ERR__UNKNOWN_TOPIC
            else [])"
proof -
  define rk2 where "rk2 = snd (snd (metadata_update_leaders rkt3 (zip (md_partitions mdt) pbs) rk1 upd0 False))"
  define rk3 where "rk3 = (if md_err mdt \<noteq> RD_KAFKA_RESP_ERR_NO_ERROR \<and>
                             rkt_partition_cnt rkt3 \<noteq> 0
                          then fold (\<lambda>j r. rd_kafka_toppar_broker_delegate r
                                             (rkt_p rkt3 ! j) None)
                                 [0 ..< nat (rkt_partition_cnt rkt3)] rk2
                          else rk2)"
  define rk4 where "rk4 = (if upd > 0 \<or> rkt_state rkt3 = RD_KAFKA_TOPIC_S_NOTEXISTS
                          then rd_kafka_topic_assign_uas route rk3 rkt3
                          else rk3)"
  define rk5 where "rk5 = (if old \<noteq> rkt_state rkt3 \<and>
                             rkt_state rkt3 = RD_KAFKA_TOPIC_S_NOTEXISTS
                          then rd_kafka_topic_propagate_notexists rk4 rkt3
                          else rk4)"
  from t have out: "rk' = rk5"
    by (auto simp: locked_tail_def Let_def split_beta rk2_def rk3_def rk4_def rk5_def)
  have s2: "store_only rk1 rk2" unfolding rk2_def by (rule store_only_leaders)
  have s3: "store_only rk2 rk3"
    unfolding rk3_def by (simp add: store_only_refl store_only_fold store_only_delegate)
  have s4: "store_only rk3 rk4"
    unfolding rk4_def by (simp add: store_only_refl store_only_assign_uas)
  have s: "store_only rk1 rk4" using s2 s3 s4 by (blast intro: store_only_trans)
  then have ty: "rk_type rk4 = rk_type rk1" by (simp add: store_only_def kept_fields_def)
  have e4: "rktp_errq (rk_toppars rk4 a) = rktp_errq (rk_toppars rk1 a)"
    by (simp add: rk4_def rk3_def rk2_def assign_uas_errq fold_delegate_errq leaders_errq)
  show ?thesis
    unfolding out rk5_def
    by (auto simp: rd_kafka_topic_propagate_notexists_def fold_enq_error ty e4)
qed

lemma metadata_update_notexists_errq:
  assumes nb: "\<not> topic_blacklisted rk (md_topic mdt)"
    and er: "md_err mdt = RD_KAFKA_RESP_ERR_UNKNOWN_TOPIC_OR_PART \<or>
             md_err mdt = RD_KAFKA_RESP_ERR_UNKNOWN"
    and ix: "topic_index (c_str (md_topic mdt)) (rk_topics rk) = Some i"
    and nt: "rk_terminate rk = 0"
    and rc: "rkt_refcnt (rk_topics rk ! i) > 0"
    and st: "rkt_state (rk_topics rk ! i) \<noteq> RD_KAFKA_TOPIC_S_NOTEXISTS"
  shows "\<exists>upd rk'. rd_kafka_topic_metadata_update route rk mdt = Some (upd, rk') \<and>
           rkt_state (rk_topics rk' ! i) = RD_KAFKA_TOPIC_S_NOTEXISTS \<and>
           (\<forall>a. rktp_errq (rk_toppars rk' a) =
                rktp_errq (rk_toppars rk a) @
                (if rk_type rk = RD_KAFKA_CONSUMER
                 then replicate (count_list (rkt_desp (rk_topics rk ! i)) a)
                        RD_KAFKA_RESP_ERR__UNKNOWN_TOPIC
                 else []))"
proof -
  let ?rk0 = "rd_kafka_topic_keep rk i"
  let ?rkt = "rk_topics ?rk0 ! i"
  let ?pbs = "metadata_update_partbrokers rk mdt"
  have i: "i < length (rk_topics rk)" using ix by (simp add: topic_index_SomeD)
  have ne: "md_err mdt \<noteq> RD_KAFKA_RESP_ERR_NO_ERROR"
    "\<not> (md_err mdt = RD_KAFKA_RESP_ERR_LEADER_NOT_AVAILABLE \<and> md_partition_cnt mdt = 0)"
    using er by auto
  obtain upd ql rkt3 rk5 where
    t: "locked_tail route mdt ?pbs (rkt_state ?rkt) 0 (locked_rkt2 ?rk0 ?rkt mdt) ?rk0 =
          (upd, ql, rkt3, rk5)"
    by (metis prod_cases4)
  have lk: "metadata_update_locked route ?rk0 ?rkt mdt ?pbs = Some (upd, ql, rkt3, rk5)"
    using ne(1) t by (simp add: locked_unfold)
  have r3: "rkt3 = locked_rkt2 ?rk0 ?rkt mdt" using locked_tail_frame [OF t] by simp
  have s3: "rkt_state rkt3 = RD_KAFKA_TOPIC_S_NOTEXISTS"
    using er by (auto simp: r3 locked_rkt2_def md_state_def)
  have o: "rkt_state ?rkt \<noteq> RD_KAFKA_TOPIC_S_NOTEXISTS" using st i by (simp add: keep_nth)
  have d: "rkt_desp (locked_rkt2 ?rk0 ?rkt mdt) = rkt_desp (rk_topics rk ! i)"
    using i by (simp add: locked_rkt2_def keep_nth)
  have k: "rk_type ?rk0 = rk_type rk" "rk_toppars ?rk0 = rk_toppars rk"
    by (simp_all add: rd_kafka_topic_keep_def)
  have e: "\<forall>a. rktp_errq (rk_toppars rk5 a) =
                rktp_errq (rk_toppars rk a) @
                (if rk_type rk = RD_KAFKA_CONSUMER
                 then replicate (count_list (rkt_desp (rk_topics rk ! i)) a)
                        RD_KAFKA_RESP_ERR__UNKNOWN_TOPIC
                 else [])"
    using locked_tail_errq [OF t] o s3 by (simp add: r3 [symmetric] k) (simp add: r3 d)
  show ?thesis
    using metadata_update_applied [OF nb ne(2) ix nt rc lk] i s3 e by simp
qed

text \<open>
  \<^verbatim>\<open>rd_kafka_topic_metadata_none\<close> runs the propagation after the reconciler and the
  flush: on a consumer every entry of the desired list, as the reconciler leaves it,
  gets one \<open>UnknownTopic\<close> notification, and nothing else is written after the
  reconciler.
\<close>

lemma metadata_none_errq:
  assumes r: "rd_kafka_topic_metadata_none route rk i = Some rk'" and nt: "rk_terminate rk = 0"
  shows "\<exists>r rkt3 rk1.
           rd_kafka_topic_partition_cnt_update rk
             (rd_kafka_topic_set_state ((rk_topics rk ! i)\<lparr>rkt_ts_metadata := rd_clock rk\<rparr>)
                RD_KAFKA_TOPIC_S_NOTEXISTS) 0 = Some (r, rkt3, rk1) \<and>
           (\<forall>a. rktp_errq (rk_toppars rk' a) =
                rktp_errq (rk_toppars rk1 a) @
                (if rk_type rk = RD_KAFKA_CONSUMER
                 then replicate (count_list (rkt_desp rkt3) a) RD_KAFKA_RESP_ERR__UNKNOWN_TOPIC
                 else []))"
proof -
  define rkt2 where "rkt2 = rd_kafka_topic_set_state
    ((rk_topics rk ! i)\<lparr>rkt_ts_metadata := rd_clock rk\<rparr>) RD_KAFKA_TOPIC_S_NOTEXISTS"
  from r nt obtain r rkt3 rk1 where
    c: "rd_kafka_topic_partition_cnt_update rk rkt2 0 = Some (r, rkt3, rk1)"
    and out: "rk' = topic_store (rd_kafka_topic_propagate_notexists
                (rd_kafka_topic_assign_uas route rk1 rkt3) rkt3) i rkt3"
    by (auto simp: rd_kafka_topic_metadata_none_def Let_def rkt2_def split: option.splits)
  define rk2 where "rk2 = rd_kafka_topic_assign_uas route rk1 rkt3"
  have "store_only rk rk2"
    unfolding rk2_def using cnt_update_frame [OF c] store_only_assign_uas
    by (blast intro: store_only_trans)
  then have ty: "rk_type rk2 = rk_type rk" by (simp add: store_only_def kept_fields_def)
  have e2: "\<And>a. rktp_errq (rk_toppars rk2 a) = rktp_errq (rk_toppars rk1 a)"
    by (simp add: rk2_def assign_uas_errq)
  have "\<forall>a. rktp_errq (rk_toppars rk' a) =
                rktp_errq (rk_toppars rk1 a) @
                (if rk_type rk = RD_KAFKA_CONSUMER
                 then replicate (count_list (rkt_desp rkt3) a) RD_KAFKA_RESP_ERR__UNKNOWN_TOPIC
                 else [])"
    by (simp add: out rk2_def [symmetric] topic_store_def
        rd_kafka_topic_propagate_notexists_def ty fold_enq_error e2)
  with c show ?thesis unfolding rkt2_def by blast
qed

end
